theory Spec2Isabelle
  imports Main "HOL-Library.Word"
begin

section \<open>The partition list of the ReactOS setup library (partlist.h, partlist.c)\<close>

text \<open>
  The development embeds the partition editor of \<^verbatim>\<open>partlist.c\<close>: the region lists of a
  disk, the creation checks, \<^verbatim>\<open>CreatePartition\<close>, \<^verbatim>\<open>CreateExtendedPartition\<close>,
  \<^verbatim>\<open>DeletePartition\<close>, \<^verbatim>\<open>UpdateDiskLayout\<close>, \<^verbatim>\<open>AssignDriveLetters\<close>, the volume
  mounter and \<^verbatim>\<open>IsSupportedActivePartition\<close>.

  Conventions of the embedding.
  \<^item> \<^verbatim>\<open>ULONGLONG\<close>, \<^verbatim>\<open>ULONG\<close>, \<^verbatim>\<open>UCHAR\<close> and \<^verbatim>\<open>WCHAR\<close> are words of 64, 32, 8 and 16
    bits; their arithmetic wraps around as in C.
  \<^item> A \<^verbatim>\<open>LIST_ENTRY\<close> chain is the list of the records it links, in \<^verbatim>\<open>Flink\<close> order.
    A \<^verbatim>\<open>PARTENTRY\<close> carries the address of its heap block in the field \<open>Addr\<close>; a
    \<^verbatim>\<open>PPARTENTRY\<close> is the index of the owning disk in the disk list together with that
    address, and a field assignment through it updates the record with that address
    in whichever list of the disk links it.
  \<^item> \<^verbatim>\<open>ASSERT\<close> and \<^verbatim>\<open>DPRINT\<close> are debugging aids without effect in a free build and are
    not part of the model.
  \<^item> What the code asks from outside (the heap, the I/O manager, the file-system
    recogniser, and macros of headers that are not part of these sources) is a field
    of the record \<open>env\<close>.
\<close>

subsection \<open>Machine types and constants\<close>

type_synonym ULONGLONG = "64 word"
type_synonym ULONG = "32 word"
type_synonym UCHAR = "8 word"
type_synonym WCHAR = "16 word"

text \<open>
  Modelled from the spec: the MBR partition type codes come from \<^verbatim>\<open>ntdddisk.h\<close>, which is
  not among the sources. The spec gives \<^verbatim>\<open>UNUSED (0x00)\<close>, \<^verbatim>\<open>PARTITION_EXTENDED (0x05)\<close>,
  \<^verbatim>\<open>PARTITION_XINT13_EXTENDED (0x0F)\<close> and the FAT family
  \<^verbatim>\<open>0x01, 0x04, 0x06, 0x0E, 0x0B, 0x0C\<close> in the order in which \<^verbatim>\<open>MountVolume\<close> tests them;
  \<^verbatim>\<open>PARTITION_IFS\<close> is the type byte 0x07 of installable file systems.
\<close>

abbreviation PARTITION_ENTRY_UNUSED :: UCHAR where "PARTITION_ENTRY_UNUSED \<equiv> 0x00"
abbreviation PARTITION_FAT_12 :: UCHAR where "PARTITION_FAT_12 \<equiv> 0x01"
abbreviation PARTITION_FAT_16 :: UCHAR where "PARTITION_FAT_16 \<equiv> 0x04"
abbreviation PARTITION_EXTENDED :: UCHAR where "PARTITION_EXTENDED \<equiv> 0x05"
abbreviation PARTITION_HUGE :: UCHAR where "PARTITION_HUGE \<equiv> 0x06"
abbreviation PARTITION_IFS :: UCHAR where "PARTITION_IFS \<equiv> 0x07"
abbreviation PARTITION_FAT32 :: UCHAR where "PARTITION_FAT32 \<equiv> 0x0B"
abbreviation PARTITION_FAT32_XINT13 :: UCHAR where "PARTITION_FAT32_XINT13 \<equiv> 0x0C"
abbreviation PARTITION_XINT13 :: UCHAR where "PARTITION_XINT13 \<equiv> 0x0E"
abbreviation PARTITION_XINT13_EXTENDED :: UCHAR where "PARTITION_XINT13_EXTENDED \<equiv> 0x0F"

text \<open>
  Modelled from the spec: \<^verbatim>\<open>IsContainerPartition\<close> is a macro of \<^verbatim>\<open>ntdddisk.h\<close>; by the
  glossary a container is an entry of type \<^verbatim>\<open>0x05\<close> or \<^verbatim>\<open>0x0F\<close>.
\<close>

definition IsContainerPartition :: "UCHAR \<Rightarrow> bool" where
  "IsContainerPartition t \<longleftrightarrow> t = PARTITION_EXTENDED \<or> t = PARTITION_XINT13_EXTENDED"

text \<open>
  Modelled from the spec: \<^verbatim>\<open>wcsicmp\<close> is the C runtime's comparison of wide strings
  without regard to case; \<open>wcsicmp_eq a b\<close> stands for \<^verbatim>\<open>wcsicmp(a, b) == 0\<close>.
\<close>

definition towlower :: "char \<Rightarrow> char" where
  "towlower c = (let n = (of_char c :: nat) in if 65 \<le> n \<and> n \<le> 90 then char_of (n + 32) else c)"

definition wcsicmp_eq :: "string \<Rightarrow> string \<Rightarrow> bool" where
  "wcsicmp_eq a b \<longleftrightarrow> map towlower a = map towlower b"

subsection \<open>The data model (partlist.h)\<close>

datatype FORMATSTATE = Unformatted | UnformattedOrDamaged | UnknownFormat | Formatted

datatype PARTITION_STYLE = PARTITION_STYLE_MBR | PARTITION_STYLE_GPT | PARTITION_STYLE_RAW

text \<open>
  \<^verbatim>\<open>VOLINFO\<close>. \<open>DeviceName\<close> and \<open>FileSystem\<close> hold the characters before the terminating
  NUL of their buffers. \<open>VolumeLabel\<close> is the array \<^verbatim>\<open>WCHAR VolumeLabel[20]\<close> itself,
  element by element. The field \<^verbatim>\<open>New\<close> of the volume is \<open>VolNew\<close> here.
\<close>

record VOLINFO =
  DeviceName :: string
  DriveLetter :: WCHAR
  VolumeLabel :: string
  FileSystem :: string
  FormatState :: FORMATSTATE
  VolNew :: bool
  NeedsCheck :: bool

abbreviation NUL :: char where "NUL \<equiv> CHR 0x00"

text \<open>\<^verbatim>\<open>sizeof(VolumeEntry->VolumeLabel)\<close> in bytes and the number of its elements.\<close>

abbreviation VolumeLabel_cch :: nat where "VolumeLabel_cch \<equiv> 20"
abbreviation VolumeLabel_cb :: nat where "VolumeLabel_cb \<equiv> 40"

text \<open>\<^verbatim>\<open>RtlZeroMemory(&Volume, sizeof(Volume))\<close>: every field zero; \<^verbatim>\<open>Unformatted\<close> is the
  enumerator 0.\<close>

definition ZeroVolume :: VOLINFO where
  "ZeroVolume = \<lparr> DeviceName = [], DriveLetter = 0, VolumeLabel = replicate VolumeLabel_cch NUL,
     FileSystem = [], FormatState = Unformatted, VolNew = False, NeedsCheck = False \<rparr>"

record PARTENTRY =
  Addr :: nat
  StartSector :: ULONGLONG
  SectorCount :: ULONGLONG
  BootIndicator :: bool
  PartitionType :: UCHAR
  OnDiskPartitionNumber :: ULONG
  PartitionNumber :: ULONG
  PartitionIndex :: ULONG
  LogicalPartition :: bool
  IsPartitioned :: bool
  New :: bool
  AutoCreate :: bool
  Volume :: VOLINFO

text \<open>\<^verbatim>\<open>PARTITION_INFORMATION\<close> and \<^verbatim>\<open>DRIVE_LAYOUT_INFORMATION\<close> (the layout buffer). The
  list \<open>PartitionEntry\<close> has one element for each entry the heap block has room for.\<close>

record PARTITION_INFORMATION =
  StartingOffset :: ULONGLONG
  PartitionLength :: ULONGLONG
  HiddenSectors :: ULONG
  PI_PartitionNumber :: ULONG
  PI_PartitionType :: UCHAR
  PI_BootIndicator :: bool
  RecognizedPartition :: bool
  RewritePartition :: bool

record DRIVE_LAYOUT_INFORMATION =
  PartitionCount :: ULONG
  Signature :: ULONG
  PartitionEntry :: "PARTITION_INFORMATION list"

text \<open>\<^verbatim>\<open>DISKENTRY\<close>, with the fields the editor reads or writes. \<open>ExtendedPartition\<close> and
  \<open>LayoutBuffer\<close> are \<open>None\<close> for \<^verbatim>\<open>NULL\<close>.\<close>

record DISKENTRY =
  BytesPerSector :: ULONG
  DiskSectorCount :: ULONGLONG
  SectorAlignment :: ULONG
  Dirty :: bool
  NewDisk :: bool
  DiskStyle :: PARTITION_STYLE
  LayoutBuffer :: "DRIVE_LAYOUT_INFORMATION option"
  PrimaryPartList :: "PARTENTRY list"
  LogicalPartList :: "PARTENTRY list"
  ExtendedPartition :: "nat option"

type_synonym PPARTENTRY = "nat \<times> nat"

text \<open>
  \<^verbatim>\<open>PARTLIST\<close>. \<open>NextAddr\<close> numbers the requests made to the process heap; the block
  returned by request number \<open>n\<close> has address \<open>n\<close>. \<open>Dismounted\<close> records, in order, the
  device names on which \<^verbatim>\<open>FSCTL_DISMOUNT_VOLUME\<close> has been issued.
\<close>

record PARTLIST =
  SystemPartition :: "PPARTENTRY option"
  DiskList :: "DISKENTRY list"
  NextAddr :: nat
  Dismounted :: "string list"

text \<open>
  The collaborators. \<open>AllocOk n\<close>: heap request number \<open>n\<close> returns a block rather than
  \<^verbatim>\<open>NULL\<close>. \<open>IsRecognizedPartition\<close>: the macro of \<^verbatim>\<open>ntdddisk.h\<close>.
  \<open>FileSystemToMBRPartitionType\<close>: the helper of \<^verbatim>\<open>fsrec.c\<close>, applied to \<^verbatim>\<open>L"RAW"\<close>, a start
  sector and a sector count. \<open>NtOpenFile_ok\<close>: the device of that name can be opened.
  \<open>InferFileSystem\<close>: the file-system name the recogniser leaves in the buffer.
  \<open>QueryVolumeLabel\<close>: the label returned by \<^verbatim>\<open>NtQueryVolumeInformationFile\<close>, \<open>None\<close> when
  the query fails.
\<close>

record env =
  AllocOk :: "nat \<Rightarrow> bool"
  IsRecognizedPartition :: "UCHAR \<Rightarrow> bool"
  FileSystemToMBRPartitionType :: "ULONGLONG \<Rightarrow> ULONGLONG \<Rightarrow> UCHAR"
  NtOpenFile_ok :: "string \<Rightarrow> bool"
  InferFileSystem :: "string \<Rightarrow> string"
  QueryVolumeLabel :: "string \<Rightarrow> string option"

subsection \<open>Geometry\<close>

text \<open>\<^verbatim>\<open>AlignDown\<close>. Division by a zero alignment traps in C; the callers below are only
  stated for a non-zero alignment.\<close>

definition AlignDown :: "ULONGLONG \<Rightarrow> ULONG \<Rightarrow> ULONGLONG" where
  "AlignDown Value Alignment = (Value div ucast Alignment) * ucast Alignment"

text \<open>\<^verbatim>\<open>GetPartEntrySizeInBytes\<close>.\<close>

definition GetPartEntrySizeInBytes :: "DISKENTRY \<Rightarrow> PARTENTRY \<Rightarrow> ULONGLONG" where
  "GetPartEntrySizeInBytes d r = SectorCount r * ucast (BytesPerSector d)"

definition GetPartEntryOffsetInBytes :: "DISKENTRY \<Rightarrow> PARTENTRY \<Rightarrow> ULONGLONG" where
  "GetPartEntryOffsetInBytes d r = StartSector r * ucast (BytesPerSector d)"

subsection \<open>Lists of regions\<close>

text \<open>The record a \<^verbatim>\<open>PPARTENTRY\<close> points to, and an assignment through the pointer.\<close>

definition find_entry :: "nat \<Rightarrow> PARTENTRY list \<Rightarrow> PARTENTRY option" where
  "find_entry p xs = find (\<lambda>r. Addr r = p) xs"

definition upd_entry :: "nat \<Rightarrow> (PARTENTRY \<Rightarrow> PARTENTRY) \<Rightarrow> PARTENTRY list \<Rightarrow> PARTENTRY list" where
  "upd_entry p f xs = map (\<lambda>r. if Addr r = p then f r else r) xs"

text \<open>\<^verbatim>\<open>RemoveEntryList(&PartEntry->ListEntry)\<close>.\<close>

definition remove_entry :: "nat \<Rightarrow> PARTENTRY list \<Rightarrow> PARTENTRY list" where
  "remove_entry p xs = filter (\<lambda>r. Addr r \<noteq> p) xs"

text \<open>\<^verbatim>\<open>InsertTailList(PartEntry->ListEntry.Flink, &NewPartEntry->ListEntry)\<close>: the new
  record is linked right after the one at \<open>p\<close>.\<close>

fun insert_after :: "nat \<Rightarrow> PARTENTRY \<Rightarrow> PARTENTRY list \<Rightarrow> PARTENTRY list" where
  "insert_after p n [] = []"
| "insert_after p n (r # rs) = (if Addr r = p then r # n # rs else r # insert_after p n rs)"

text \<open>\<^verbatim>\<open>GetAdjPartListEntry(PartListHead, PartEntry, Direction)\<close> for a non-null
  \<^verbatim>\<open>PartEntry\<close> linked in that list: its successor (\<open>Direction = TRUE\<close>) or predecessor,
  \<open>None\<close> when that is the list head.\<close>

fun next_entry :: "nat \<Rightarrow> PARTENTRY list \<Rightarrow> PARTENTRY option" where
  "next_entry p [] = None"
| "next_entry p [r] = None"
| "next_entry p (r # n # rs) = (if Addr r = p then Some n else next_entry p (n # rs))"

fun prev_entry :: "nat \<Rightarrow> PARTENTRY list \<Rightarrow> PARTENTRY option" where
  "prev_entry p [] = None"
| "prev_entry p [r] = None"
| "prev_entry p (q # r # rs) = (if Addr q = p then None
     else if Addr r = p then Some q else prev_entry p (r # rs))"

definition GetAdjPartListEntry :: "PARTENTRY list \<Rightarrow> nat \<Rightarrow> bool \<Rightarrow> PARTENTRY option" where
  "GetAdjPartListEntry PartListHead p Direction =
     (if Direction then next_entry p PartListHead else prev_entry p PartListHead)"

definition PartEntryOf :: "DISKENTRY \<Rightarrow> nat \<Rightarrow> PARTENTRY option" where
  "PartEntryOf d p = find_entry p (PrimaryPartList d @ LogicalPartList d)"

definition UpdPartEntry :: "nat \<Rightarrow> (PARTENTRY \<Rightarrow> PARTENTRY) \<Rightarrow> DISKENTRY \<Rightarrow> DISKENTRY" where
  "UpdPartEntry p f d = d\<lparr> PrimaryPartList := upd_entry p f (PrimaryPartList d),
                           LogicalPartList := upd_entry p f (LogicalPartList d) \<rparr>"

subsection \<open>Supported system partitions\<close>

text \<open>\<^verbatim>\<open>IsSupportedActivePartition\<close>. \<^verbatim>\<open>VolumeEntry\<close> is the address of an embedded field and
  never null. Each branch of the test of \<^verbatim>\<open>FormatState\<close> returns, so the test of
  \<^verbatim>\<open>PARTITION_IFS\<close> that follows it in the source is never reached.\<close>

definition IsSupportedActivePartition :: "PARTENTRY \<Rightarrow> bool" where
  "IsSupportedActivePartition PartEntry =
     (if IsContainerPartition (PartitionType PartEntry) then False
      else let VolumeEntry = Volume PartEntry in
        if FormatState VolumeEntry = Unformatted then True
        else if FormatState VolumeEntry = Formatted then
          (if wcsicmp_eq (FileSystem VolumeEntry) ''FAT'' \<or>
              wcsicmp_eq (FileSystem VolumeEntry) ''FAT32'' \<or>
              wcsicmp_eq (FileSystem VolumeEntry) ''BTRFS''
           then True else False)
        else False)"

subsection \<open>Mounting and dismounting volumes\<close>

text \<open>
  Modelled from the spec: \<^verbatim>\<open>RtlStringCbCopyNW\<close> is a routine of \<^verbatim>\<open>ntstrsafe.h\<close>, which is not
  among the sources; the call site describes it as copying the (possibly truncated)
  label and NUL-terminating it. Given the destination array, its size in bytes, the
  source characters and the number of bytes to copy, it copies characters up to the
  first NUL of the source, at most \<open>cbToCopy div 2\<close> of them and at most one less than
  the destination has elements, and stores a NUL after them.
\<close>

definition RtlStringCbCopyNW :: "string \<Rightarrow> nat \<Rightarrow> string \<Rightarrow> nat \<Rightarrow> string" where
  "RtlStringCbCopyNW pszDest cbDest pszSrc cbToCopy =
     (let cchDest = cbDest div 2;
          k = min (min (cbToCopy div 2) (cchDest - 1)) (length (takeWhile (\<lambda>c. c \<noteq> NUL) pszSrc))
      in take k pszSrc @ [NUL] @ drop (k + 1) pszDest)"

text \<open>\<^verbatim>\<open>DismountVolume\<close>; the second component lists the device on which
  \<^verbatim>\<open>FSCTL_DISMOUNT_VOLUME\<close> was issued, if any. The \<^verbatim>\<open>NTSTATUS\<close> it returns is ignored by
  every caller and is left out.\<close>

definition DismountVolume :: "env \<Rightarrow> VOLINFO \<Rightarrow> VOLINFO \<times> string list" where
  "DismountVolume e VolumeEntry =
     (if DeviceName VolumeEntry = [] \<or> FormatState VolumeEntry = UnknownFormat \<or>
         FileSystem VolumeEntry = []
      then (VolumeEntry, [])
      else if \<not> NtOpenFile_ok e (DeviceName VolumeEntry) then (VolumeEntry, [])
      else (VolumeEntry\<lparr> DriveLetter := 0, FormatState := Unformatted, FileSystem := [],
              VolumeLabel := replicate VolumeLabel_cch NUL, NeedsCheck := False \<rparr>,
            [DeviceName VolumeEntry]))"

text \<open>\<^verbatim>\<open>MountVolume\<close>. \<open>h\<close> stands for \<^verbatim>\<open>PartitionHandle != NULL\<close>.\<close>

definition MountVolume :: "env \<Rightarrow> VOLINFO \<Rightarrow> UCHAR \<Rightarrow> VOLINFO \<times> string list" where
  "MountVolume e VolumeEntry MbrPartitionType =
     (let v1 = VolumeEntry\<lparr> FormatState := Unformatted, FileSystem := [],
                 VolumeLabel := replicate VolumeLabel_cch NUL \<rparr>
      in if DeviceName v1 = [] then (v1, [])
      else
        let h = NtOpenFile_ok e (DeviceName v1);
            v2 = (if h then v1\<lparr> FileSystem := InferFileSystem e (DeviceName v1) \<rparr> else v1);
            (v3, h3, log) =
              (if FileSystem v2 \<noteq> [] then
                 (if wcsicmp_eq (FileSystem v2) ''RAW'' then
                    (if MbrPartitionType = PARTITION_FAT_12 \<or>
                        MbrPartitionType = PARTITION_FAT_16 \<or>
                        MbrPartitionType = PARTITION_HUGE \<or>
                        MbrPartitionType = PARTITION_XINT13 \<or>
                        MbrPartitionType = PARTITION_FAT32 \<or>
                        MbrPartitionType = PARTITION_FAT32_XINT13
                     then (v2\<lparr> FormatState := Unformatted \<rparr>, h, [])
                     else
                       (let (v, l) = DismountVolume e v2
                        in (v\<lparr> FormatState := UnknownFormat, FileSystem := [] \<rparr>, False, l)))
                  else (v2\<lparr> FormatState := Formatted \<rparr>, h, []))
               else (v2\<lparr> FormatState := UnknownFormat \<rparr>, h, []));
            v4 = (if h3 then
                    (case QueryVolumeLabel e (DeviceName v3) of
                       Some LabelInfo \<Rightarrow>
                         v3\<lparr> VolumeLabel := RtlStringCbCopyNW (VolumeLabel v3) VolumeLabel_cb
                                                LabelInfo (2 * length LabelInfo) \<rparr>
                     | None \<Rightarrow> v3)
                  else v3)
        in (v4, log))"

text \<open>The characters of a buffer before its first NUL.\<close>

definition cstring :: "string \<Rightarrow> string" where
  "cstring buf = takeWhile (\<lambda>c. c \<noteq> NUL) buf"

subsection \<open>Inserting regions\<close>





text \<open>The list position handed to \<^verbatim>\<open>CreateInsertBlankRegion\<close>: one of the two list heads
  (\<^verbatim>\<open>InsertTailList\<close> then appends) or the \<^verbatim>\<open>Flink\<close> of an entry (it then links the new
  record right after that entry).\<close>

datatype LISTPOS = PrimaryPartListHead | LogicalPartListHead | FlinkOf nat

definition BlankRegion :: "nat \<Rightarrow> ULONGLONG \<Rightarrow> ULONGLONG \<Rightarrow> bool \<Rightarrow> PARTENTRY" where
  "BlankRegion a Start Count LogicalSpace =
     \<lparr> Addr = a, StartSector = Start, SectorCount = Count, BootIndicator = False,
       PartitionType = PARTITION_ENTRY_UNUSED, OnDiskPartitionNumber = 0, PartitionNumber = 0,
       PartitionIndex = 0, LogicalPartition = LogicalSpace, IsPartitioned = False,
       New = False, AutoCreate = False, Volume = ZeroVolume \<rparr>"

definition InsertTailList :: "LISTPOS \<Rightarrow> PARTENTRY \<Rightarrow> DISKENTRY \<Rightarrow> DISKENTRY" where
  "InsertTailList ListHead n d =
     (case ListHead of
        PrimaryPartListHead \<Rightarrow> d\<lparr> PrimaryPartList := PrimaryPartList d @ [n] \<rparr>
      | LogicalPartListHead \<Rightarrow> d\<lparr> LogicalPartList := LogicalPartList d @ [n] \<rparr>
      | FlinkOf p \<Rightarrow> d\<lparr> PrimaryPartList := insert_after p n (PrimaryPartList d),
                        LogicalPartList := insert_after p n (LogicalPartList d) \<rparr>)"

text \<open>\<^verbatim>\<open>CreateInsertBlankRegion\<close>; \<open>a\<close> is the number of the heap request, \<open>None\<close> the
  return value \<^verbatim>\<open>NULL\<close>.\<close>

definition CreateInsertBlankRegion ::
  "env \<Rightarrow> nat \<Rightarrow> DISKENTRY \<Rightarrow> LISTPOS \<Rightarrow> ULONGLONG \<Rightarrow> ULONGLONG \<Rightarrow> bool \<Rightarrow> DISKENTRY option" where
  "CreateInsertBlankRegion e a DiskEntry ListHead Start Count LogicalSpace =
     (if \<not> AllocOk e a then None
      else Some (InsertTailList ListHead (BlankRegion a Start Count LogicalSpace) DiskEntry))"

text \<open>The tail of \<^verbatim>\<open>InitializePartitionEntry\<close> from the comment "Convert to a new partition
  entry" on.\<close>

definition ConvertToNewPartition :: "env \<Rightarrow> PARTENTRY \<Rightarrow> PARTENTRY" where
  "ConvertToNewPartition e PartEntry =
     PartEntry\<lparr> New := True, IsPartitioned := True,
       PartitionType := FileSystemToMBRPartitionType e (StartSector PartEntry) (SectorCount PartEntry),
       Volume := ZeroVolume\<lparr> VolNew := True \<rparr>,
       BootIndicator := False \<rparr>"

text \<open>\<^verbatim>\<open>InitializePartitionEntry\<close>, for the region at address \<open>p\<close> of the disk.\<close>

definition InitializePartitionEntry ::
  "env \<Rightarrow> nat \<Rightarrow> DISKENTRY \<Rightarrow> nat \<Rightarrow> ULONGLONG \<Rightarrow> bool \<times> DISKENTRY" where
  "InitializePartitionEntry e a DiskEntry p Count =
     (case PartEntryOf DiskEntry p of
        None \<Rightarrow> (False, DiskEntry)
      | Some PartEntry \<Rightarrow>
          if Count > SectorCount PartEntry then (False, DiskEntry)
          else if Count = 0 \<or>
                  AlignDown (StartSector PartEntry + Count) (SectorAlignment DiskEntry)
                    - StartSector PartEntry = SectorCount PartEntry
          then (True, UpdPartEntry p (ConvertToNewPartition e) DiskEntry)
          else
            let Start = AlignDown (StartSector PartEntry + Count) (SectorAlignment DiskEntry);
                SectorCount2 = StartSector PartEntry + SectorCount PartEntry - Start
            in (case CreateInsertBlankRegion e a DiskEntry (FlinkOf p) Start SectorCount2
                      (LogicalPartition PartEntry) of
                 None \<Rightarrow> (False, DiskEntry)
               | Some d1 \<Rightarrow>
                   (True,
                    UpdPartEntry p (ConvertToNewPartition e)
                      (UpdPartEntry p (\<lambda>r. r\<lparr> SectorCount := Start - StartSector r \<rparr>) d1))))"

subsection \<open>Drive letters\<close>

text \<open>One inner loop of \<^verbatim>\<open>AssignDriveLetters\<close> over a region list; \<open>eligible\<close> is the test
  that guards the assignment.\<close>

fun AssignLettersIn ::
  "(PARTENTRY \<Rightarrow> bool) \<Rightarrow> PARTENTRY list \<Rightarrow> WCHAR \<Rightarrow> PARTENTRY list \<times> WCHAR" where
  "AssignLettersIn eligible [] Letter = ([], Letter)"
| "AssignLettersIn eligible (PartEntry # rest) Letter =
     (let r0 = PartEntry\<lparr> Volume := (Volume PartEntry)\<lparr> DriveLetter := 0 \<rparr> \<rparr>;
          (r1, Letter1) =
            (if eligible r0 \<and> Letter \<le> 0x5A
             then (r0\<lparr> Volume := (Volume r0)\<lparr> DriveLetter := Letter \<rparr> \<rparr>, Letter + 1)
             else (r0, Letter));
          (rest1, Letter2) = AssignLettersIn eligible rest Letter1
      in (r1 # rest1, Letter2))"

definition primary_letter_eligible :: "env \<Rightarrow> PARTENTRY \<Rightarrow> bool" where
  "primary_letter_eligible e PartEntry \<longleftrightarrow>
     IsPartitioned PartEntry \<and> \<not> IsContainerPartition (PartitionType PartEntry) \<and>
     (IsRecognizedPartition e (PartitionType PartEntry) \<or> SectorCount PartEntry \<noteq> 0)"

definition logical_letter_eligible :: "env \<Rightarrow> PARTENTRY \<Rightarrow> bool" where
  "logical_letter_eligible e PartEntry \<longleftrightarrow>
     IsPartitioned PartEntry \<and>
     (IsRecognizedPartition e (PartitionType PartEntry) \<or> SectorCount PartEntry \<noteq> 0)"

text \<open>The two outer loops over the disks. \<^verbatim>\<open>GetAdjDiskRegion\<close> honours
  \<^verbatim>\<open>ENUM_REGION_MBR_PRIMARY_ONLY\<close> and \<^verbatim>\<open>ENUM_REGION_MBR_LOGICAL_ONLY\<close> on an MBR disk only;
  on any other disk it walks the primary list, in the second loop as well.\<close>

fun AssignPrimaryLetters :: "env \<Rightarrow> DISKENTRY list \<Rightarrow> WCHAR \<Rightarrow> DISKENTRY list \<times> WCHAR" where
  "AssignPrimaryLetters e [] Letter = ([], Letter)"
| "AssignPrimaryLetters e (DiskEntry # disks) Letter =
     (let (l, Letter1) = AssignLettersIn (primary_letter_eligible e) (PrimaryPartList DiskEntry) Letter;
          (disks1, Letter2) = AssignPrimaryLetters e disks Letter1
      in (DiskEntry\<lparr> PrimaryPartList := l \<rparr> # disks1, Letter2))"

fun AssignLogicalLetters :: "env \<Rightarrow> DISKENTRY list \<Rightarrow> WCHAR \<Rightarrow> DISKENTRY list \<times> WCHAR" where
  "AssignLogicalLetters e [] Letter = ([], Letter)"
| "AssignLogicalLetters e (DiskEntry # disks) Letter =
     (if DiskStyle DiskEntry = PARTITION_STYLE_MBR
      then
        (let (l, Letter1) = AssignLettersIn (logical_letter_eligible e) (LogicalPartList DiskEntry) Letter;
             (disks1, Letter2) = AssignLogicalLetters e disks Letter1
         in (DiskEntry\<lparr> LogicalPartList := l \<rparr> # disks1, Letter2))
      else
        (let (l, Letter1) = AssignLettersIn (logical_letter_eligible e) (PrimaryPartList DiskEntry) Letter;
             (disks1, Letter2) = AssignLogicalLetters e disks Letter1
         in (DiskEntry\<lparr> PrimaryPartList := l \<rparr> # disks1, Letter2)))"

definition AssignDriveLetters :: "env \<Rightarrow> PARTLIST \<Rightarrow> PARTLIST" where
  "AssignDriveLetters e List =
     (let (disks1, Letter1) = AssignPrimaryLetters e (DiskList List) 0x43;
          (disks2, Letter2) = AssignLogicalLetters e disks1 Letter1
      in List\<lparr> DiskList := disks2 \<rparr>)"

subsection \<open>The layout buffer\<close>

definition ZeroLayoutEntry :: PARTITION_INFORMATION where
  "ZeroLayoutEntry = \<lparr> StartingOffset = 0, PartitionLength = 0, HiddenSectors = 0,
     PI_PartitionNumber = 0, PI_PartitionType = PARTITION_ENTRY_UNUSED, PI_BootIndicator = False,
     RecognizedPartition = False, RewritePartition = False \<rparr>"

text \<open>Reading and writing \<^verbatim>\<open>PartitionEntry[Index]\<close>. An index past the heap block is
  undefined in C; the model then reads a zero entry and drops the write.\<close>

definition LayoutEntry :: "PARTITION_INFORMATION list \<Rightarrow> nat \<Rightarrow> PARTITION_INFORMATION" where
  "LayoutEntry es i = (if i < length es then es ! i else ZeroLayoutEntry)"

definition SetLayoutEntry ::
  "PARTITION_INFORMATION list \<Rightarrow> nat \<Rightarrow> PARTITION_INFORMATION \<Rightarrow> PARTITION_INFORMATION list" where
  "SetLayoutEntry es i v = (if i < length es then es[i := v] else es)"

text \<open>\<^verbatim>\<open>IsSuperFloppy\<close>; the tests that only print a warning are left out.\<close>

definition IsSuperFloppy :: "DISKENTRY \<Rightarrow> bool" where
  "IsSuperFloppy DiskEntry =
     (case LayoutBuffer DiskEntry of
        None \<Rightarrow> False
      | Some lb \<Rightarrow>
          if PartitionCount lb \<noteq> 1 then False
          else let PartitionInfo = LayoutEntry (PartitionEntry lb) 0
               in if \<not> (StartingOffset PartitionInfo = 0 \<and> HiddenSectors PartitionInfo = 0)
                  then False else True)"

definition IsEmptyLayoutEntry :: "PARTITION_INFORMATION \<Rightarrow> bool" where
  "IsEmptyLayoutEntry PartitionInfo \<longleftrightarrow>
     StartingOffset PartitionInfo = 0 \<and> PartitionLength PartitionInfo = 0"

definition IsSamePrimaryLayoutEntry ::
  "DISKENTRY \<Rightarrow> PARTITION_INFORMATION \<Rightarrow> PARTENTRY \<Rightarrow> bool" where
  "IsSamePrimaryLayoutEntry d PartitionInfo PartEntry \<longleftrightarrow>
     StartingOffset PartitionInfo = GetPartEntryOffsetInBytes d PartEntry \<and>
     PartitionLength PartitionInfo = GetPartEntrySizeInBytes d PartEntry"

text \<open>\<^verbatim>\<open>GetPartitionCount\<close>, \<^verbatim>\<open>GetPrimaryPartitionCount\<close>, \<^verbatim>\<open>GetLogicalPartitionCount\<close>.\<close>

definition GetPartitionCount :: "PARTENTRY list \<Rightarrow> ULONG" where
  "GetPartitionCount PartListHead = of_nat (length (filter IsPartitioned PartListHead))"

definition GetPrimaryPartitionCount :: "DISKENTRY \<Rightarrow> ULONG" where
  "GetPrimaryPartitionCount DiskEntry = GetPartitionCount (PrimaryPartList DiskEntry)"

definition GetLogicalPartitionCount :: "DISKENTRY \<Rightarrow> ULONG" where
  "GetLogicalPartitionCount DiskEntry =
     (if DiskStyle DiskEntry = PARTITION_STYLE_MBR
      then GetPartitionCount (LogicalPartList DiskEntry) else 0)"

text \<open>\<^verbatim>\<open>ReAllocateLayoutBuffer\<close>; \<open>a\<close> is the number of the heap request. The block is
  resized to the new count, new room being zero-filled (\<^verbatim>\<open>HEAP_ZERO_MEMORY\<close>).\<close>

definition ReAllocateLayoutBuffer :: "env \<Rightarrow> nat \<Rightarrow> DISKENTRY \<Rightarrow> bool \<times> DISKENTRY" where
  "ReAllocateLayoutBuffer e a DiskEntry =
     (let NewPartitionCount = 4 + GetLogicalPartitionCount DiskEntry * 4;
          CurrentPartitionCount =
            (case LayoutBuffer DiskEntry of None \<Rightarrow> 0 | Some lb \<Rightarrow> PartitionCount lb)
      in if CurrentPartitionCount = NewPartitionCount then (True, DiskEntry)
         else if \<not> AllocOk e a then (False, DiskEntry)
         else
           let old = (case LayoutBuffer DiskEntry of None \<Rightarrow> [] | Some lb \<Rightarrow> PartitionEntry lb);
               sig = (case LayoutBuffer DiskEntry of None \<Rightarrow> 0 | Some lb \<Rightarrow> Signature lb);
               resized = take (unat NewPartitionCount)
                           (old @ replicate (unat NewPartitionCount) ZeroLayoutEntry);
               marked = map (\<lambda>(i, x). if unat CurrentPartitionCount \<le> i
                                        then x\<lparr> RewritePartition := True \<rparr> else x)
                            (zip [0 ..< length resized] resized)
           in (True, DiskEntry\<lparr> LayoutBuffer :=
                 Some \<lparr> PartitionCount = NewPartitionCount, Signature = sig,
                        PartitionEntry = marked \<rparr> \<rparr>))"

text \<open>The first loop of \<^verbatim>\<open>UpdateDiskLayout\<close>, over the primary list; \<open>Number\<close> is the
  running \<^verbatim>\<open>PartitionNumber\<close>. It returns the updated regions, the updated entries and
  the final number.\<close>

fun UpdatePrimaryTable ::
  "env \<Rightarrow> DISKENTRY \<Rightarrow> PARTENTRY list \<Rightarrow> PARTITION_INFORMATION list \<Rightarrow> ULONG \<Rightarrow> ULONG
     \<Rightarrow> PARTENTRY list \<times> PARTITION_INFORMATION list \<times> ULONG" where
  "UpdatePrimaryTable e d [] es Index Number = ([], es, Number)"
| "UpdatePrimaryTable e d (PartEntry # rest) es Index Number =
     (if IsPartitioned PartEntry then
        (let r1 = PartEntry\<lparr> PartitionIndex := Index \<rparr>;
             r2 = (if New r1 then r1\<lparr> PartitionNumber := 0 \<rparr> else r1);
             r3 = r2\<lparr> OnDiskPartitionNumber :=
                        (if \<not> IsContainerPartition (PartitionType r2) then Number else 0) \<rparr>;
             es1 = (if \<not> IsSamePrimaryLayoutEntry d (LayoutEntry es (unat Index)) r3
                    then SetLayoutEntry es (unat Index)
                           ((LayoutEntry es (unat Index))
                              \<lparr> StartingOffset := GetPartEntryOffsetInBytes d r3,
                                PartitionLength := GetPartEntrySizeInBytes d r3,
                                HiddenSectors := ucast (StartSector r3),
                                PI_PartitionNumber := PartitionNumber r3,
                                PI_PartitionType := PartitionType r3,
                                PI_BootIndicator := BootIndicator r3,
                                RecognizedPartition := IsRecognizedPartition e (PartitionType r3),
                                RewritePartition := True \<rparr>)
                    else es);
             Number1 = (if \<not> IsContainerPartition (PartitionType r3) then Number + 1 else Number);
             (rest1, es2, Number2) = UpdatePrimaryTable e d rest es1 (Index + 1) Number1
         in (r3 # rest1, es2, Number2))
      else
        (let (rest1, es2, Number2) = UpdatePrimaryTable e d rest es Index Number
         in (PartEntry # rest1, es2, Number2)))"

text \<open>The second loop, over the logical list. \<open>LinkInfo\<close> is the index of the link entry
  saved by the previous round (\<open>None\<close> for \<^verbatim>\<open>NULL\<close>); \<open>ExtStart\<close> is
  \<^verbatim>\<open>DiskEntry->ExtendedPartition->StartSector\<close>.\<close>

fun UpdateLogicalTable ::
  "env \<Rightarrow> DISKENTRY \<Rightarrow> ULONGLONG \<Rightarrow> PARTENTRY list \<Rightarrow> PARTITION_INFORMATION list \<Rightarrow> ULONG \<Rightarrow> ULONG
     \<Rightarrow> nat option \<Rightarrow> PARTENTRY list \<times> PARTITION_INFORMATION list" where
  "UpdateLogicalTable e d ExtStart [] es Index Number LinkInfo = ([], es)"
| "UpdateLogicalTable e d ExtStart (PartEntry # rest) es Index Number LinkInfo =
     (if IsPartitioned PartEntry then
        (let r1 = PartEntry\<lparr> PartitionIndex := Index \<rparr>;
             r2 = (if New r1 then r1\<lparr> PartitionNumber := 0 \<rparr> else r1);
             r3 = r2\<lparr> OnDiskPartitionNumber := Number \<rparr>;
             es1 = SetLayoutEntry es (unat Index)
                     ((LayoutEntry es (unat Index))
                        \<lparr> StartingOffset := GetPartEntryOffsetInBytes d r3,
                          PartitionLength := GetPartEntrySizeInBytes d r3,
                          HiddenSectors := SectorAlignment d,
                          PI_PartitionNumber := PartitionNumber r3,
                          PI_PartitionType := PartitionType r3,
                          PI_BootIndicator := False,
                          RecognizedPartition := IsRecognizedPartition e (PartitionType r3),
                          RewritePartition := True \<rparr>);
             es2 = (case LinkInfo of
                      None \<Rightarrow> es1
                    | Some l \<Rightarrow>
                        SetLayoutEntry es1 l
                          ((LayoutEntry es1 l)
                             \<lparr> StartingOffset :=
                                 (StartSector r3 - ucast (SectorAlignment d)) * ucast (BytesPerSector d),
                               PartitionLength :=
                                 (StartSector r3 + ucast (SectorAlignment d)) * ucast (BytesPerSector d),
                               HiddenSectors :=
                                 ucast (StartSector r3 - ucast (SectorAlignment d) - ExtStart),
                               PI_PartitionNumber := 0,
                               PI_PartitionType :=
                                 (if StartSector r3 < 1450560 then PARTITION_EXTENDED
                                  else PARTITION_XINT13_EXTENDED),
                               PI_BootIndicator := False,
                               RecognizedPartition := False,
                               RewritePartition := True \<rparr>));
             (rest1, es3) =
               UpdateLogicalTable e d ExtStart rest es2 (Index + 4) (Number + 1) (Some (unat Index + 1))
         in (r3 # rest1, es3))
      else
        (let (rest1, es3) = UpdateLogicalTable e d ExtStart rest es Index Number LinkInfo
         in (PartEntry # rest1, es3)))"

text \<open>The body of the two wiping loops.\<close>

definition WipeLayoutEntry :: "nat \<Rightarrow> PARTITION_INFORMATION list \<Rightarrow> PARTITION_INFORMATION list" where
  "WipeLayoutEntry i es =
     (if \<not> IsEmptyLayoutEntry (LayoutEntry es i)
      then SetLayoutEntry es i
             ((LayoutEntry es i)
                \<lparr> StartingOffset := 0, PartitionLength := 0, HiddenSectors := 0,
                  PI_PartitionNumber := 0, PI_PartitionType := PARTITION_ENTRY_UNUSED,
                  PI_BootIndicator := False, RecognizedPartition := False,
                  RewritePartition := True \<rparr>)
      else es)"

text \<open>\<^verbatim>\<open>UpdateDiskLayout\<close>; \<open>a\<close> is the number of the heap request of
  \<^verbatim>\<open>ReAllocateLayoutBuffer\<close>. A null \<^verbatim>\<open>ExtendedPartition\<close> is dereferenced by the second
  loop only from the second logical partition on; the model reads 0 there.\<close>

definition UpdateDiskLayout :: "env \<Rightarrow> nat \<Rightarrow> DISKENTRY \<Rightarrow> DISKENTRY" where
  "UpdateDiskLayout e a DiskEntry =
     (if DiskStyle DiskEntry = PARTITION_STYLE_GPT then DiskEntry
      else
        (case ReAllocateLayoutBuffer e a DiskEntry of
           (False, _) \<Rightarrow> DiskEntry
         | (True, d1) \<Rightarrow>
             (case LayoutBuffer d1 of
                None \<Rightarrow> d1
              | Some lb \<Rightarrow>
                  let (prim, es1, Number) =
                        UpdatePrimaryTable e d1 (PrimaryPartList d1) (PartitionEntry lb) 0 1;
                      ExtStart =
                        (case ExtendedPartition d1 of
                           None \<Rightarrow> 0
                         | Some x \<Rightarrow> (case PartEntryOf d1 x of None \<Rightarrow> 0 | Some r \<Rightarrow> StartSector r));
                      (logi, es2) =
                        UpdateLogicalTable e d1 ExtStart (LogicalPartList d1) es1 4 Number None;
                      d2 = d1\<lparr> PrimaryPartList := prim, LogicalPartList := logi \<rparr>;
                      es3 = fold WipeLayoutEntry [unat (GetPrimaryPartitionCount d2) ..< 4] es2;
                      es4 = fold WipeLayoutEntry
                              (filter (\<lambda>i. i mod 4 \<ge> 2) [4 ..< unat (PartitionCount lb)]) es3
                  in d2\<lparr> LayoutBuffer := Some (lb\<lparr> PartitionEntry := es4 \<rparr>),
                         DiskStyle := PARTITION_STYLE_MBR, Dirty := True \<rparr>)))"

subsection \<open>Creation checks\<close>

text \<open>Modelled from the spec: \<^verbatim>\<open>ERROR_NUMBER\<close> is an enumeration of \<^verbatim>\<open>errorcode.h\<close>, which is not
  among the sources; these are the values the checks return. The callers compare the
  result with \<^verbatim>\<open>NOT_AN_ERROR\<close>, the same value as \<^verbatim>\<open>ERROR_SUCCESS\<close>.\<close>

datatype ERROR_NUMBER =
  ERROR_SUCCESS | ERROR_WARN_PARTITION | ERROR_NEW_PARTITION |
  ERROR_PARTITION_TABLE_FULL | ERROR_ONLY_ONE_EXTENDED

abbreviation NOT_AN_ERROR :: ERROR_NUMBER where "NOT_AN_ERROR \<equiv> ERROR_SUCCESS"

text \<open>\<^verbatim>\<open>PartitionCreationChecks\<close> and \<^verbatim>\<open>ExtendedPartitionCreationChecks\<close>; \<open>DiskEntry\<close> is
  \<^verbatim>\<open>PartEntry->DiskEntry\<close>.\<close>

definition PartitionCreationChecks :: "DISKENTRY \<Rightarrow> PARTENTRY \<Rightarrow> ERROR_NUMBER" where
  "PartitionCreationChecks DiskEntry PartEntry =
     (if DiskStyle DiskEntry = PARTITION_STYLE_GPT then ERROR_WARN_PARTITION
      else if IsPartitioned PartEntry then ERROR_NEW_PARTITION
      else if \<not> LogicalPartition PartEntry then
        (if IsSuperFloppy DiskEntry then ERROR_PARTITION_TABLE_FULL
         else if GetPrimaryPartitionCount DiskEntry \<ge> 4 then ERROR_PARTITION_TABLE_FULL
         else ERROR_SUCCESS)
      else
        (if IsSuperFloppy DiskEntry then ERROR_PARTITION_TABLE_FULL
         else ERROR_SUCCESS))"

definition ExtendedPartitionCreationChecks :: "DISKENTRY \<Rightarrow> PARTENTRY \<Rightarrow> ERROR_NUMBER" where
  "ExtendedPartitionCreationChecks DiskEntry PartEntry =
     (if DiskStyle DiskEntry = PARTITION_STYLE_GPT then ERROR_WARN_PARTITION
      else if IsPartitioned PartEntry then ERROR_NEW_PARTITION
      else if IsSuperFloppy DiskEntry then ERROR_PARTITION_TABLE_FULL
      else if GetPrimaryPartitionCount DiskEntry \<ge> 4 then ERROR_PARTITION_TABLE_FULL
      else if ExtendedPartition DiskEntry \<noteq> None then ERROR_ONLY_ONE_EXTENDED
      else ERROR_SUCCESS)"

subsection \<open>Creating partitions\<close>

text \<open>The conversion of \<^verbatim>\<open>SizeBytes\<close> to a sector count, which \<^verbatim>\<open>CreatePartition\<close> and
  \<^verbatim>\<open>CreateExtendedPartition\<close> both spell out; \<open>None\<close> is the branch that returns \<^verbatim>\<open>FALSE\<close>
  because the size is too small. The division traps in C when \<^verbatim>\<open>BytesPerSector\<close> is 0.\<close>

definition SizeToSectorCount :: "DISKENTRY \<Rightarrow> PARTENTRY \<Rightarrow> ULONGLONG \<Rightarrow> ULONGLONG option" where
  "SizeToSectorCount DiskEntry PartEntry SizeBytes =
     (if SizeBytes = 0 \<or> SizeBytes = GetPartEntrySizeInBytes DiskEntry PartEntry
      then Some (SectorCount PartEntry)
      else
        let Count = min (SizeBytes div ucast (BytesPerSector DiskEntry)) (SectorCount PartEntry)
        in if Count = 0 then None else Some Count)"

text \<open>Storing a disk back into the list.\<close>

definition SetDisk :: "nat \<Rightarrow> DISKENTRY \<Rightarrow> PARTLIST \<Rightarrow> PARTLIST" where
  "SetDisk di d List = List\<lparr> DiskList := (DiskList List)[di := d] \<rparr>"

text \<open>
  \<^verbatim>\<open>CreatePartition\<close>. The argument \<^verbatim>\<open>List\<close> is never null here; a null \<^verbatim>\<open>PartEntry\<close> is
  \<open>None\<close>, and a pointer that designates no region of the list is treated like it. One
  call makes at most three heap requests, numbered from \<open>NextAddr\<close>.
\<close>

definition CreatePartition ::
  "env \<Rightarrow> PARTLIST \<Rightarrow> PPARTENTRY option \<Rightarrow> ULONGLONG \<Rightarrow> bool \<times> PARTLIST" where
  "CreatePartition e List PartEntryPtr SizeBytes =
     (case PartEntryPtr of
        None \<Rightarrow> (False, List)
      | Some (di, p) \<Rightarrow>
          if di \<ge> length (DiskList List) then (False, List)
          else
            let DiskEntry = DiskList List ! di in
            (case PartEntryOf DiskEntry p of
               None \<Rightarrow> (False, List)
             | Some PartEntry \<Rightarrow>
                 if IsPartitioned PartEntry then (False, List)
                 else if PartitionCreationChecks DiskEntry PartEntry \<noteq> NOT_AN_ERROR
                 then (False, List)
                 else
                   (case SizeToSectorCount DiskEntry PartEntry SizeBytes of
                      None \<Rightarrow> (False, List)
                    | Some Count \<Rightarrow>
                        (case InitializePartitionEntry e (NextAddr List) DiskEntry p Count of
                           (False, _) \<Rightarrow> (False, List)
                         | (True, d1) \<Rightarrow>
                             (True,
                              AssignDriveLetters e
                                (SetDisk di (UpdateDiskLayout e (NextAddr List + 2) d1)
                                   (List\<lparr> NextAddr := NextAddr List + 3 \<rparr>)))))))"

text \<open>\<^verbatim>\<open>AddLogicalDiskSpace\<close>, called right after \<^verbatim>\<open>ExtendedPartition\<close> has been set to \<open>p\<close>.\<close>

definition AddLogicalDiskSpace :: "env \<Rightarrow> nat \<Rightarrow> DISKENTRY \<Rightarrow> DISKENTRY" where
  "AddLogicalDiskSpace e a DiskEntry =
     (case ExtendedPartition DiskEntry of
        None \<Rightarrow> DiskEntry
      | Some x \<Rightarrow>
          (case PartEntryOf DiskEntry x of
             None \<Rightarrow> DiskEntry
           | Some Ext \<Rightarrow>
               let Start = StartSector Ext + ucast (SectorAlignment DiskEntry);
                   Count = SectorCount Ext - ucast (SectorAlignment DiskEntry)
               in (case CreateInsertBlankRegion e a DiskEntry LogicalPartListHead Start Count True of
                     None \<Rightarrow> DiskEntry
                   | Some d1 \<Rightarrow> d1)))"

definition CreateExtendedPartition ::
  "env \<Rightarrow> PARTLIST \<Rightarrow> PPARTENTRY option \<Rightarrow> ULONGLONG \<Rightarrow> bool \<times> PARTLIST" where
  "CreateExtendedPartition e List PartEntryPtr SizeBytes =
     (case PartEntryPtr of
        None \<Rightarrow> (False, List)
      | Some (di, p) \<Rightarrow>
          if di \<ge> length (DiskList List) then (False, List)
          else
            let DiskEntry = DiskList List ! di in
            (case PartEntryOf DiskEntry p of
               None \<Rightarrow> (False, List)
             | Some PartEntry \<Rightarrow>
                 if IsPartitioned PartEntry then (False, List)
                 else if ExtendedPartitionCreationChecks DiskEntry PartEntry \<noteq> NOT_AN_ERROR
                 then (False, List)
                 else
                   (case SizeToSectorCount DiskEntry PartEntry SizeBytes of
                      None \<Rightarrow> (False, List)
                    | Some Count \<Rightarrow>
                        (case InitializePartitionEntry e (NextAddr List) DiskEntry p Count of
                           (False, _) \<Rightarrow> (False, List)
                         | (True, d1) \<Rightarrow>
                             let d2 = UpdPartEntry p
                                        (\<lambda>r. r\<lparr> PartitionType :=
                                                   (if StartSector r < 1450560 then PARTITION_EXTENDED
                                                    else PARTITION_XINT13_EXTENDED) \<rparr>) d1;
                                 d3 = d2\<lparr> ExtendedPartition := Some p \<rparr>;
                                 d4 = AddLogicalDiskSpace e (NextAddr List + 1) d3
                             in (True,
                                 AssignDriveLetters e
                                   (SetDisk di (UpdateDiskLayout e (NextAddr List + 2) d4)
                                      (List\<lparr> NextAddr := NextAddr List + 3 \<rparr>)))))))"

subsection \<open>Deleting partitions\<close>

text \<open>The test "the partition is valid and was mounted by the system", which
  \<^verbatim>\<open>DeletePartition\<close> spells out twice.\<close>

definition IsMountedPartition :: "env \<Rightarrow> PARTENTRY \<Rightarrow> bool" where
  "IsMountedPartition e PartEntry \<longleftrightarrow>
     IsPartitioned PartEntry \<and>
     \<not> IsContainerPartition (PartitionType PartEntry) \<and>
     IsRecognizedPartition e (PartitionType PartEntry) \<and>
     FormatState (Volume PartEntry) \<noteq> UnknownFormat \<and>
     FileSystem (Volume PartEntry) \<noteq> [] \<and>
     PartitionNumber PartEntry \<noteq> 0"

text \<open>The first part of \<^verbatim>\<open>DeletePartition\<close>: "Check which type of partition (primary/logical
  or extended) is being deleted". In the loop over the logical list the source applies
  the test to \<^verbatim>\<open>PartEntry\<close>, the partition being deleted, and dismounts the volume of
  \<^verbatim>\<open>LogicalPartEntry\<close>. The result is the disk and the devices dismounted.\<close>

definition DeleteDismount :: "env \<Rightarrow> DISKENTRY \<Rightarrow> PARTENTRY \<Rightarrow> DISKENTRY \<times> string list" where
  "DeleteDismount e DiskEntry PartEntry =
     (if ExtendedPartition DiskEntry = Some (Addr PartEntry) then
        (DiskEntry\<lparr> LogicalPartList := [], ExtendedPartition := None \<rparr>,
         concat (map (\<lambda>LogicalPartEntry.
                        if IsMountedPartition e PartEntry
                        then snd (DismountVolume e (Volume LogicalPartEntry)) else [])
                     (LogicalPartList DiskEntry)))
      else if IsMountedPartition e PartEntry then
        (let (v, l) = DismountVolume e (Volume PartEntry)
         in (UpdPartEntry (Addr PartEntry) (\<lambda>r. r\<lparr> Volume := v \<rparr>) DiskEntry, l))
      else (DiskEntry, []))"

text \<open>\<^verbatim>\<open>GetAdjUnpartitionedEntry\<close>.\<close>

definition GetAdjUnpartitionedEntry :: "DISKENTRY \<Rightarrow> PARTENTRY \<Rightarrow> bool \<Rightarrow> PARTENTRY option" where
  "GetAdjUnpartitionedEntry DiskEntry PartEntry Direction =
     (let PartListHead =
            (if DiskStyle DiskEntry = PARTITION_STYLE_MBR \<and> LogicalPartition PartEntry
             then LogicalPartList DiskEntry else PrimaryPartList DiskEntry)
      in case GetAdjPartListEntry PartListHead (Addr PartEntry) Direction of
           None \<Rightarrow> None
         | Some Adj \<Rightarrow> if \<not> IsPartitioned Adj then Some Adj else None)"

definition RemoveEntryList :: "nat \<Rightarrow> DISKENTRY \<Rightarrow> DISKENTRY" where
  "RemoveEntryList p d = d\<lparr> PrimaryPartList := remove_entry p (PrimaryPartList d),
                              LogicalPartList := remove_entry p (LogicalPartList d) \<rparr>"

text \<open>The second part of \<^verbatim>\<open>DeletePartition\<close>: "Adjust the unpartitioned disk space entries".
  The result is the disk and the address stored in \<^verbatim>\<open>*FreeRegion\<close>.\<close>

definition MergeFreeRegions :: "DISKENTRY \<Rightarrow> PARTENTRY \<Rightarrow> DISKENTRY \<times> nat" where
  "MergeFreeRegions DiskEntry PartEntry =
     (case (GetAdjUnpartitionedEntry DiskEntry PartEntry False,
            GetAdjUnpartitionedEntry DiskEntry PartEntry True) of
        (Some PrevPartEntry, Some NextPartEntry) \<Rightarrow>
          (RemoveEntryList (Addr NextPartEntry)
             (RemoveEntryList (Addr PartEntry)
                (UpdPartEntry (Addr PrevPartEntry)
                   (\<lambda>r. r\<lparr> SectorCount := SectorCount r +
                              (SectorCount PartEntry + SectorCount NextPartEntry) \<rparr>)
                   DiskEntry)),
           Addr PrevPartEntry)
      | (Some PrevPartEntry, None) \<Rightarrow>
          (RemoveEntryList (Addr PartEntry)
             (UpdPartEntry (Addr PrevPartEntry)
                (\<lambda>r. r\<lparr> SectorCount := SectorCount r + SectorCount PartEntry \<rparr>) DiskEntry),
           Addr PrevPartEntry)
      | (None, Some NextPartEntry) \<Rightarrow>
          (RemoveEntryList (Addr PartEntry)
             (UpdPartEntry (Addr NextPartEntry)
                (\<lambda>r. r\<lparr> StartSector := StartSector PartEntry,
                         SectorCount := SectorCount r + SectorCount PartEntry \<rparr>) DiskEntry),
           Addr NextPartEntry)
      | (None, None) \<Rightarrow>
          (UpdPartEntry (Addr PartEntry)
             (\<lambda>r. r\<lparr> IsPartitioned := False, OnDiskPartitionNumber := 0, PartitionNumber := 0,
                      BootIndicator := False, PartitionType := PARTITION_ENTRY_UNUSED,
                      Volume := ZeroVolume \<rparr>) DiskEntry,
           Addr PartEntry))"

text \<open>\<^verbatim>\<open>DeletePartition\<close>; the third component is \<^verbatim>\<open>*FreeRegion\<close>.\<close>

definition DeletePartition ::
  "env \<Rightarrow> PARTLIST \<Rightarrow> PPARTENTRY option \<Rightarrow> bool \<times> PARTLIST \<times> PPARTENTRY option" where
  "DeletePartition e List PartEntryPtr =
     (case PartEntryPtr of
        None \<Rightarrow> (False, List, None)
      | Some (di, p) \<Rightarrow>
          if di \<ge> length (DiskList List) then (False, List, None)
          else
            let DiskEntry = DiskList List ! di in
            (case PartEntryOf DiskEntry p of
               None \<Rightarrow> (False, List, None)
             | Some PartEntry \<Rightarrow>
                 if \<not> IsPartitioned PartEntry then (False, List, None)
                 else
                   let L1 = (if SystemPartition List = Some (di, p)
                             then List\<lparr> SystemPartition := None \<rparr> else List);
                       (d1, l) = DeleteDismount e DiskEntry PartEntry;
                       (d2, Free) = MergeFreeRegions d1 PartEntry;
                       d3 = UpdateDiskLayout e (NextAddr List + 2) d2
                   in (True,
                       AssignDriveLetters e
                         (SetDisk di d3
                            (L1\<lparr> NextAddr := NextAddr List + 3,
                                 Dismounted := Dismounted List @ l \<rparr>)),
                       Some (di, Free))))"

subsection \<open>Sequences of editor operations\<close>

datatype EDITOR_OP =
  OpCreate PPARTENTRY ULONGLONG | OpCreateExtended PPARTENTRY ULONGLONG | OpDelete PPARTENTRY

fun editor_step :: "env \<Rightarrow> PARTLIST \<Rightarrow> EDITOR_OP \<Rightarrow> PARTLIST" where
  "editor_step e List (OpCreate pe SizeBytes) = snd (CreatePartition e List (Some pe) SizeBytes)"
| "editor_step e List (OpCreateExtended pe SizeBytes) =
     snd (CreateExtendedPartition e List (Some pe) SizeBytes)"
| "editor_step e List (OpDelete pe) = fst (snd (DeletePartition e List (Some pe)))"

subsection \<open>What the layout update and the drive letters leave alone\<close>

text \<open>\<open>strip\<close> resets the fields of a region that \<^verbatim>\<open>UpdateDiskLayout\<close> and
  \<^verbatim>\<open>AssignDriveLetters\<close> write; \<open>disk_core\<close> and \<open>disk_geom\<close> lift it to a disk, the latter
  also resetting the layout buffer, the style and the dirty flag.\<close>

definition strip :: "PARTENTRY \<Rightarrow> PARTENTRY" where
  "strip r = r\<lparr> PartitionIndex := 0, PartitionNumber := 0, OnDiskPartitionNumber := 0,
               Volume := (Volume r)\<lparr> DriveLetter := 0 \<rparr> \<rparr>"

definition disk_core :: "DISKENTRY \<Rightarrow> DISKENTRY" where
  "disk_core d = d\<lparr> PrimaryPartList := map strip (PrimaryPartList d),
                    LogicalPartList := map strip (LogicalPartList d) \<rparr>"

definition disk_geom :: "DISKENTRY \<Rightarrow> DISKENTRY" where
  "disk_geom d = (disk_core d)\<lparr> LayoutBuffer := None, DiskStyle := PARTITION_STYLE_RAW, Dirty := False \<rparr>"


subsection \<open>Vocabulary of the statements\<close>

text \<open>The list of a disk selected by a flag, and the geometry of a region: start sector,
  sector count, \<^verbatim>\<open>IsPartitioned\<close> and \<^verbatim>\<open>LogicalPartition\<close>.\<close>

definition ListOf :: "bool \<Rightarrow> DISKENTRY \<Rightarrow> PARTENTRY list" where
  "ListOf lg d = (if lg then LogicalPartList d else PrimaryPartList d)"

definition extent :: "PARTENTRY \<Rightarrow> ULONGLONG \<times> ULONGLONG \<times> bool \<times> bool" where
  "extent r = (StartSector r, SectorCount r, IsPartitioned r, LogicalPartition r)"

text \<open>
  The merging of a deleted region with its free neighbours as the table of the spec
  words it: with a free predecessor and a free successor, grow the predecessor by the
  lengths of the region and the successor and remove both; with a free predecessor only,
  grow it by the length of the region and remove the region; with a free successor only,
  let it start at the region's start, grow it by the region's length and remove the
  region; otherwise convert the region in place to free space. \<open>pre\<close> and \<open>post\<close> are the
  regions before and after the region in its list; the result is the new list and the
  address of the free region.
\<close>

definition spec_merge :: "PARTENTRY list \<Rightarrow> PARTENTRY \<Rightarrow> PARTENTRY list \<Rightarrow> PARTENTRY list \<times> nat" where
  "spec_merge pre this post =
     (let prev_free = (pre \<noteq> [] \<and> \<not> IsPartitioned (last pre));
          next_free = (post \<noteq> [] \<and> \<not> IsPartitioned (hd post))
      in if prev_free \<and> next_free then
           (butlast pre @
              (last pre)\<lparr> SectorCount := SectorCount (last pre) +
                                            (SectorCount this + SectorCount (hd post)) \<rparr> # tl post,
            Addr (last pre))
         else if prev_free then
           (butlast pre @
              (last pre)\<lparr> SectorCount := SectorCount (last pre) + SectorCount this \<rparr> # post,
            Addr (last pre))
         else if next_free then
           (pre @ (hd post)\<lparr> StartSector := StartSector this,
                               SectorCount := SectorCount (hd post) + SectorCount this \<rparr> # tl post,
            Addr (hd post))
         else
           (pre @ this\<lparr> IsPartitioned := False, OnDiskPartitionNumber := 0, PartitionNumber := 0,
                        BootIndicator := False, PartitionType := PARTITION_ENTRY_UNUSED,
                        Volume := ZeroVolume \<rparr> # post,
            Addr this))"

text \<open>The neighbours of a region in its list: is the one before it, or after it, free?\<close>

definition free_before :: "PARTENTRY list \<Rightarrow> bool" where
  "free_before pre \<longleftrightarrow> pre \<noteq> [] \<and> \<not> IsPartitioned (last pre)"

definition free_after :: "PARTENTRY list \<Rightarrow> bool" where
  "free_after post \<longleftrightarrow> post \<noteq> [] \<and> \<not> IsPartitioned (hd post)"

text \<open>The region topology: start sector, sector count and \<^verbatim>\<open>IsPartitioned\<close> of every region
  of every list of every disk, in order.\<close>

definition topo :: "PARTENTRY \<Rightarrow> ULONGLONG \<times> ULONGLONG \<times> bool" where
  "topo r = (StartSector r, SectorCount r, IsPartitioned r)"

definition disk_topology :: "DISKENTRY \<Rightarrow> (ULONGLONG \<times> ULONGLONG \<times> bool) list \<times> (ULONGLONG \<times> ULONGLONG \<times> bool) list" where
  "disk_topology d = (map topo (PrimaryPartList d), map topo (LogicalPartList d))"

definition topology :: "PARTLIST \<Rightarrow> ((ULONGLONG \<times> ULONGLONG \<times> bool) list \<times> (ULONGLONG \<times> ULONGLONG \<times> bool) list) list" where
  "topology List = map disk_topology (DiskList List)"

subsection \<open>Well-formed region lists\<close>

text \<open>A region is a non-empty range of sectors that ends below \<open>2\<^sup>6\<^sup>4\<close>; one region lies
  before another when it ends at or before the start of the other; a chain is a list of
  such regions, each before all that follow.\<close>

definition region_ok :: "PARTENTRY \<Rightarrow> bool" where
  "region_ok r \<longleftrightarrow>
     0 < unat (SectorCount r) \<and> unat (StartSector r) + unat (SectorCount r) < 2 ^ 64"

definition region_before :: "PARTENTRY \<Rightarrow> PARTENTRY \<Rightarrow> bool" where
  "region_before a b \<longleftrightarrow> unat (StartSector a) + unat (SectorCount a) \<le> unat (StartSector b)"

definition chain :: "PARTENTRY list \<Rightarrow> bool" where
  "chain xs \<longleftrightarrow> (\<forall>r\<in>set xs. region_ok r) \<and> sorted_wrt region_before xs"

text \<open>A list of a disk: a chain of regions with distinct addresses below the next heap
  address \<open>n\<close>, all carrying the \<^verbatim>\<open>LogicalPartition\<close> flag of the list.\<close>

definition list_inv :: "nat \<Rightarrow> bool \<Rightarrow> PARTENTRY list \<Rightarrow> bool" where
  "list_inv n lg xs \<longleftrightarrow>
     chain xs \<and> distinct (map Addr xs) \<and> (\<forall>r\<in>set xs. Addr r < n \<and> LogicalPartition r = lg)"

text \<open>A disk: both lists are as above and share no address; logical regions exist on MBR
  disks only; there are no logical regions without an extended partition, and the
  extended partition is not a logical region; a disk that is not GPT has a layout buffer.\<close>

definition disk_ok :: "nat \<Rightarrow> DISKENTRY \<Rightarrow> bool" where
  "disk_ok n d \<longleftrightarrow>
     list_inv n False (PrimaryPartList d) \<and> list_inv n True (LogicalPartList d) \<and>
     (\<forall>r\<in>set (PrimaryPartList d). \<forall>g\<in>set (LogicalPartList d). Addr r \<noteq> Addr g) \<and>
     (LogicalPartList d \<noteq> [] \<longrightarrow> DiskStyle d = PARTITION_STYLE_MBR) \<and>
     (case ExtendedPartition d of
        None \<Rightarrow> LogicalPartList d = []
      | Some q \<Rightarrow> q < n \<and> (\<forall>g\<in>set (LogicalPartList d). Addr g \<noteq> q)) \<and>
     (DiskStyle d \<noteq> PARTITION_STYLE_GPT \<longrightarrow> LayoutBuffer d \<noteq> None)"

definition list_ok :: "PARTLIST \<Rightarrow> bool" where
  "list_ok List \<longleftrightarrow> (\<forall>d\<in>set (DiskList List). disk_ok (NextAddr List) d)"

text \<open>The two properties of a list the statements are about: ascending start sectors, and
  no two regions at different places of the list overlapping in the sense of
  \<^verbatim>\<open>InsertDiskRegion\<close>.\<close>

definition sorted_by_start :: "PARTENTRY list \<Rightarrow> bool" where
  "sorted_by_start xs \<longleftrightarrow> sorted_wrt (\<lambda>a b. StartSector a \<le> StartSector b) xs"


text \<open>The condition on a creation under which the aligned end
  \<open>AlignDown (start + count) alignment\<close> of the new partition lies beyond its start, and for an
  extended partition more than one alignment beyond it, so that the logical space
  \<^verbatim>\<open>AddLogicalDiskSpace\<close> makes is not empty. The count is the one \<^verbatim>\<open>CreatePartition\<close> derives
  from the size; a call that is refused for another reason is not constrained. A
  deletion is never constrained.\<close>

definition aligned_end_fits :: "PARTLIST \<Rightarrow> nat \<Rightarrow> nat \<Rightarrow> ULONGLONG \<Rightarrow> bool \<Rightarrow> bool" where
  "aligned_end_fits List di p SizeBytes container \<longleftrightarrow>
     (di < length (DiskList List) \<longrightarrow>
        (case PartEntryOf (DiskList List ! di) p of
           None \<Rightarrow> True
         | Some r \<Rightarrow>
             (case SizeToSectorCount (DiskList List ! di) r SizeBytes of
                None \<Rightarrow> True
              | Some c \<Rightarrow>
                  StartSector r < AlignDown (StartSector r + c) (SectorAlignment (DiskList List ! di)) \<and>
                  (container \<longrightarrow>
                     ucast (SectorAlignment (DiskList List ! di))
                       < AlignDown (StartSector r + c) (SectorAlignment (DiskList List ! di))
                           - StartSector r))))"

fun op_fits :: "PARTLIST \<Rightarrow> EDITOR_OP \<Rightarrow> bool" where
  "op_fits List (OpCreate (di, p) SizeBytes) = aligned_end_fits List di p SizeBytes False"
| "op_fits List (OpCreateExtended (di, p) SizeBytes) = aligned_end_fits List di p SizeBytes True"
| "op_fits List (OpDelete pe) = True"


subsection \<open>Example states\<close>

text \<open>The name \<^verbatim>\<open>\Device\Harddisk0\Partition1\<close>.\<close>

definition Harddisk0_Partition1 :: string where
  "Harddisk0_Partition1 =
     CHR 0x5C # ''Device'' @ CHR 0x5C # ''Harddisk0'' @ CHR 0x5C # ''Partition1''"

text \<open>A primary partition of type \<^verbatim>\<open>PARTITION_IFS\<close> on which a FAT volume was found and
  mounted.\<close>

definition ifs_fat_region :: PARTENTRY where
  "ifs_fat_region =
     \<lparr> Addr = 0, StartSector = 2048, SectorCount = 204800, BootIndicator = True,
       PartitionType = PARTITION_IFS, OnDiskPartitionNumber = 1, PartitionNumber = 1,
       PartitionIndex = 0, LogicalPartition = False, IsPartitioned = True,
       New = False, AutoCreate = False,
       Volume = \<lparr> DeviceName = Harddisk0_Partition1, DriveLetter = 0x43,
                  VolumeLabel = replicate VolumeLabel_cch NUL, FileSystem = ''FAT'',
                  FormatState = Formatted, VolNew = False, NeedsCheck = False \<rparr> \<rparr>"

text \<open>An environment in which every heap request and every device open succeeds.\<close>

definition env0 :: env where
  "env0 = \<lparr> AllocOk = (\<lambda>n. True),
            IsRecognizedPartition =
              (\<lambda>t. t = PARTITION_FAT_12 \<or> t = PARTITION_FAT_16 \<or> t = PARTITION_HUGE \<or>
                    t = PARTITION_IFS \<or> t = PARTITION_FAT32 \<or> t = PARTITION_FAT32_XINT13 \<or>
                    t = PARTITION_XINT13),
            FileSystemToMBRPartitionType =
              (\<lambda>Start Count. if Count < 1048576 then PARTITION_HUGE else PARTITION_FAT32),
            NtOpenFile_ok = (\<lambda>n. True),
            InferFileSystem = (\<lambda>n. ''FAT''),
            QueryVolumeLabel = (\<lambda>n. Some ''SYSTEM'') \<rparr>"

text \<open>The first end-to-end scenario of the spec: a fresh disk of 10 GiB with 512 bytes per
  sector and alignment 63, as the scanner leaves it: one free primary region from sector
  2048 to the last aligned sector, and a layout buffer of four empty entries. The list
  holds this disk alone; \<open>free_at s\<close> is the same disk with the free region starting at
  sector \<open>s\<close> instead.\<close>

definition fresh_layout :: DRIVE_LAYOUT_INFORMATION where
  "fresh_layout = \<lparr> PartitionCount = 4, Signature = 0,
      PartitionEntry = replicate 4 (ZeroLayoutEntry\<lparr> RewritePartition := True \<rparr>) \<rparr>"

definition free_at :: "ULONGLONG \<Rightarrow> PARTLIST" where
  "free_at s =
     \<lparr> SystemPartition = None,
       DiskList =
         [\<lparr> BytesPerSector = 512, DiskSectorCount = 20971520, SectorAlignment = 63,
            Dirty = False, NewDisk = True, DiskStyle = PARTITION_STYLE_RAW,
            LayoutBuffer = Some fresh_layout,
            PrimaryPartList = [BlankRegion 0 s (20971503 - s) False],
            LogicalPartList = [], ExtendedPartition = None \<rparr>],
       NextAddr = 1, Dismounted = [] \<rparr>"

definition fresh_list :: PARTLIST where
  "fresh_list = free_at 2048"

text \<open>The list after a first partition of 4 GiB has been created on the fresh disk.\<close>

definition created_list :: PARTLIST where
  "created_list = snd (CreatePartition env0 fresh_list (Some (0, 0)) 0x100000000)"

text \<open>A partitioned region of the given address, extent and type.\<close>

definition UsedRegion :: "nat \<Rightarrow> ULONGLONG \<Rightarrow> ULONGLONG \<Rightarrow> UCHAR \<Rightarrow> bool \<Rightarrow> PARTENTRY" where
  "UsedRegion a Start Count t LogicalSpace =
     (BlankRegion a Start Count LogicalSpace)\<lparr> PartitionType := t, IsPartitioned := True \<rparr>"




definition extended_list :: PARTLIST where
  "extended_list = snd (CreateExtendedPartition env0 fresh_list (Some (0, 0)) 0x80000000)"

text \<open>A volume that has a device name and nothing else yet, and the environment \<open>env0\<close>
  with a volume label of our choice.\<close>

definition named_volume :: VOLINFO where
  "named_volume = ZeroVolume\<lparr> DeviceName := Harddisk0_Partition1 \<rparr>"

definition env_label :: "string \<Rightarrow> env" where
  "env_label l = env0\<lparr> QueryVolumeLabel := (\<lambda>n. Some l) \<rparr>"

definition label20 :: string where
  "label20 = ''ABCDEFGHIJKLMNOPQRST''"

text \<open>A disk with an extended partition between two primary partitions, holding one logical
  partition with a mounted FAT volume.\<close>

definition between_list :: PARTLIST where
  "between_list =
     \<lparr> SystemPartition = None,
       DiskList =
         [\<lparr> BytesPerSector = 512, DiskSectorCount = 20971520, SectorAlignment = 63,
            Dirty = False, NewDisk = False, DiskStyle = PARTITION_STYLE_MBR,
            LayoutBuffer = Some (fresh_layout\<lparr> PartitionCount := 8,
               PartitionEntry := replicate 8 ZeroLayoutEntry \<rparr>),
            PrimaryPartList = [UsedRegion 0 2048 2097152 PARTITION_HUGE False,
                               UsedRegion 1 2099200 4194304 PARTITION_EXTENDED False,
                               UsedRegion 2 6293504 2097152 PARTITION_HUGE False],
            LogicalPartList =
              [(UsedRegion 3 2099263 4194241 PARTITION_HUGE True)
                 \<lparr> PartitionNumber := 3, OnDiskPartitionNumber := 3,
                   Volume := ZeroVolume\<lparr> DeviceName := Harddisk0_Partition1, DriveLetter := 0x45,
                               FileSystem := ''FAT'', FormatState := Formatted \<rparr> \<rparr>],
            ExtendedPartition = Some 1 \<rparr>],
       NextAddr = 4, Dismounted = [] \<rparr>"


text \<open>The collaborators of \<open>env0\<close> with a heap that serves no request.\<close>

definition env_noheap :: env where
  "env_noheap = env0\<lparr> AllocOk := (\<lambda>n. False) \<rparr>"


section \<open>Basic facts\<close>

subsection \<open>Drive letters and the layout update keep the regions\<close>

lemma AssignLettersIn_strip:
  "map strip (fst (AssignLettersIn el xs L)) = map strip xs"
  by (induction xs arbitrary: L) (simp_all add: Let_def split_beta strip_def)

lemma AssignPrimaryLetters_core:
  "map disk_core (fst (AssignPrimaryLetters e ds L)) = map disk_core ds"
  by (induction ds arbitrary: L) (simp_all add: Let_def split_beta disk_core_def AssignLettersIn_strip)

lemma AssignLogicalLetters_core:
  "map disk_core (fst (AssignLogicalLetters e ds L)) = map disk_core ds"
  by (induction ds arbitrary: L) (simp_all add: Let_def split_beta disk_core_def AssignLettersIn_strip)

lemma AssignDriveLetters_core:
  "map disk_core (DiskList (AssignDriveLetters e L)) = map disk_core (DiskList L)"
  by (simp add: AssignDriveLetters_def Let_def split_beta AssignPrimaryLetters_core AssignLogicalLetters_core)



lemma UpdatePrimaryTable_strip:
  "map strip (fst (UpdatePrimaryTable e d xs es i n)) = map strip xs"
  by (induction xs arbitrary: es i n) (simp_all add: Let_def split_beta strip_def)

lemma UpdateLogicalTable_strip:
  "map strip (fst (UpdateLogicalTable e d x xs es i n l)) = map strip xs"
  by (induction xs arbitrary: es i n l) (simp_all add: Let_def split_beta strip_def)

lemma ReAllocateLayoutBuffer_geom:
  "disk_geom (snd (ReAllocateLayoutBuffer e a d)) = disk_geom d"
  "DiskStyle (snd (ReAllocateLayoutBuffer e a d)) = DiskStyle d"
  "Dirty (snd (ReAllocateLayoutBuffer e a d)) = Dirty d"
  "PrimaryPartList (snd (ReAllocateLayoutBuffer e a d)) = PrimaryPartList d"
  "LogicalPartList (snd (ReAllocateLayoutBuffer e a d)) = LogicalPartList d"
  by (simp_all add: ReAllocateLayoutBuffer_def Let_def disk_geom_def disk_core_def)

lemma disk_geom_upd:
  "map strip p = map strip (PrimaryPartList d1) \<Longrightarrow> map strip l = map strip (LogicalPartList d1) \<Longrightarrow>
   disk_geom (d1\<lparr> PrimaryPartList := p, LogicalPartList := l, LayoutBuffer := x,
                  DiskStyle := s, Dirty := y \<rparr>) = disk_geom d1"
  by (simp add: disk_geom_def disk_core_def)

lemma UpdateDiskLayout_cases:
  "UpdateDiskLayout e a d = d \<or>
   UpdateDiskLayout e a d = snd (ReAllocateLayoutBuffer e a d) \<or>
   (\<exists>p l x. map strip p = map strip (PrimaryPartList d) \<and>
            map strip l = map strip (LogicalPartList d) \<and>
            UpdateDiskLayout e a d =
              (snd (ReAllocateLayoutBuffer e a d))\<lparr> PrimaryPartList := p, LogicalPartList := l,
                 LayoutBuffer := x, DiskStyle := PARTITION_STYLE_MBR, Dirty := True \<rparr>)"
proof -
  obtain b d1 where r: "ReAllocateLayoutBuffer e a d = (b, d1)"
    by (cases "ReAllocateLayoutBuffer e a d")
  have g: "PrimaryPartList d1 = PrimaryPartList d" "LogicalPartList d1 = LogicalPartList d"
    using ReAllocateLayoutBuffer_geom[of e a d] r by simp_all
  show ?thesis
  proof (cases "DiskStyle d = PARTITION_STYLE_GPT \<or> \<not> b")
    case True
    then show ?thesis unfolding UpdateDiskLayout_def r by auto
  next
    case False
    show ?thesis
    proof (cases "LayoutBuffer d1")
      case None
      then show ?thesis using False unfolding UpdateDiskLayout_def r by simp
    next
      case (Some lb)
      let ?P = "UpdatePrimaryTable e d1 (PrimaryPartList d1) (PartitionEntry lb) 0 1"
      have p: "map strip (fst ?P) = map strip (PrimaryPartList d)"
        using UpdatePrimaryTable_strip[of e d1 "PrimaryPartList d1"] g by simp
      show ?thesis
        apply (rule disjI2, rule disjI2)
        using False Some p g unfolding UpdateDiskLayout_def r
        apply (simp add: Let_def split_beta)
        apply (intro exI conjI)
          prefer 3
          apply (rule refl)
         apply simp
        apply (simp add: UpdateLogicalTable_strip)
        done
    qed
  qed
qed

lemma UpdateDiskLayout_geom:
  "disk_geom (UpdateDiskLayout e a d) = disk_geom d"
  using UpdateDiskLayout_cases[of e a d] ReAllocateLayoutBuffer_geom[of e a d]
  by (auto simp: disk_geom_upd)

lemma ReAllocateLayoutBuffer_ok:
  "AllocOk e a \<Longrightarrow> fst (ReAllocateLayoutBuffer e a d)"
  by (simp add: ReAllocateLayoutBuffer_def Let_def)

lemma ReAllocateLayoutBuffer_buffer:
  "LayoutBuffer d \<noteq> None \<Longrightarrow> LayoutBuffer (snd (ReAllocateLayoutBuffer e a d)) \<noteq> None"
  by (simp add: ReAllocateLayoutBuffer_def Let_def)

lemma UpdateDiskLayout_style:
  assumes "DiskStyle d \<noteq> PARTITION_STYLE_GPT" "AllocOk e a" "LayoutBuffer d \<noteq> None"
  shows "DiskStyle (UpdateDiskLayout e a d) = PARTITION_STYLE_MBR"
    and "Dirty (UpdateDiskLayout e a d)"
    and "LayoutBuffer (UpdateDiskLayout e a d) \<noteq> None"
proof -
  obtain b d1 where r: "ReAllocateLayoutBuffer e a d = (b, d1)"
    by (cases "ReAllocateLayoutBuffer e a d")
  have b: "b" using ReAllocateLayoutBuffer_ok[OF assms(2), of d] r by simp
  have l: "LayoutBuffer d1 \<noteq> None" using ReAllocateLayoutBuffer_buffer[OF assms(3), of e a] r by simp
  show "DiskStyle (UpdateDiskLayout e a d) = PARTITION_STYLE_MBR"
    using assms(1) b l unfolding UpdateDiskLayout_def r
    by (auto simp: Let_def split_beta)
  show "Dirty (UpdateDiskLayout e a d)"
    using assms(1) b l unfolding UpdateDiskLayout_def r
    by (auto simp: Let_def split_beta)
  show "LayoutBuffer (UpdateDiskLayout e a d) \<noteq> None"
    using assms(1) b l unfolding UpdateDiskLayout_def r
    by (auto simp: Let_def split_beta)
qed

lemma ReAllocateLayoutBuffer_style:
  "DiskStyle (snd (ReAllocateLayoutBuffer e a d)) = DiskStyle d"
  "Dirty (snd (ReAllocateLayoutBuffer e a d)) = Dirty d"
  by (simp_all add: ReAllocateLayoutBuffer_def Let_def)

lemma UpdateDiskLayout_style_dirty:
  "DiskStyle (UpdateDiskLayout e a d) = PARTITION_STYLE_MBR \<and> Dirty (UpdateDiskLayout e a d) \<or>
   DiskStyle (UpdateDiskLayout e a d) = DiskStyle d \<and> Dirty (UpdateDiskLayout e a d) = Dirty d"
  using UpdateDiskLayout_cases[of e a d]
  by (auto simp: ReAllocateLayoutBuffer_style)

subsection \<open>Looking regions up\<close>

lemma find_entry_map_strip:
  "find_entry p (map strip xs) = map_option strip (find_entry p xs)"
  by (induction xs) (simp_all add: find_entry_def strip_def)

lemma find_entry_strip_eq:
  assumes "map strip xs' = map strip xs"
  shows "map_option strip (find_entry p xs') = map_option strip (find_entry p xs)"
  using find_entry_map_strip[of p xs'] find_entry_map_strip[of p xs] assms by simp

lemma PartEntryOf_core:
  assumes "disk_core d' = disk_core d"
  shows "map_option strip (PartEntryOf d' p) = map_option strip (PartEntryOf d p)"
proof -
  have "map strip (PrimaryPartList d' @ LogicalPartList d') = map strip (PrimaryPartList d @ LogicalPartList d)"
  proof -
    have "PrimaryPartList (disk_core d') = PrimaryPartList (disk_core d)"
      "LogicalPartList (disk_core d') = LogicalPartList (disk_core d)" using assms by simp_all
    then show ?thesis by (simp add: disk_core_def)
  qed
  then show ?thesis unfolding PartEntryOf_def by (rule find_entry_strip_eq)
qed

lemma disk_geom_core:
  "disk_geom d' = disk_geom d \<Longrightarrow>
   map strip (PrimaryPartList d') = map strip (PrimaryPartList d) \<and>
   map strip (LogicalPartList d') = map strip (LogicalPartList d) \<and>
   ExtendedPartition d' = ExtendedPartition d \<and> SectorAlignment d' = SectorAlignment d \<and>
   BytesPerSector d' = BytesPerSector d"
proof -
  assume a: "disk_geom d' = disk_geom d"
  have "PrimaryPartList (disk_geom d') = PrimaryPartList (disk_geom d)"
    "LogicalPartList (disk_geom d') = LogicalPartList (disk_geom d)"
    "ExtendedPartition (disk_geom d') = ExtendedPartition (disk_geom d)"
    "SectorAlignment (disk_geom d') = SectorAlignment (disk_geom d)"
    "BytesPerSector (disk_geom d') = BytesPerSector (disk_geom d)"
    using a by simp_all
  then show ?thesis by (simp add: disk_geom_def disk_core_def)
qed

lemma PartEntryOf_geom:
  assumes "disk_geom d' = disk_geom d"
  shows "map_option strip (PartEntryOf d' p) = map_option strip (PartEntryOf d p)"
  using disk_geom_core[OF assms] unfolding PartEntryOf_def
  by (intro find_entry_strip_eq) simp

lemma strip_fields:
  "Addr (strip r) = Addr r" "StartSector (strip r) = StartSector r"
  "SectorCount (strip r) = SectorCount r" "PartitionType (strip r) = PartitionType r"
  "IsPartitioned (strip r) = IsPartitioned r" "LogicalPartition (strip r) = LogicalPartition r"
  "BootIndicator (strip r) = BootIndicator r" "New (strip r) = New r"
  by (simp_all add: strip_def)

lemma strip_eq_fields:
  assumes "strip r' = strip r"
  shows "Addr r' = Addr r" "StartSector r' = StartSector r"
  "SectorCount r' = SectorCount r" "PartitionType r' = PartitionType r"
  "IsPartitioned r' = IsPartitioned r" "LogicalPartition r' = LogicalPartition r"
  using strip_fields[of r'] strip_fields[of r] assms by simp_all

lemma find_entry_upd_entry:
  assumes "\<And>r. Addr (f r) = Addr r"
  shows "find_entry p (upd_entry q f xs) =
         map_option (\<lambda>r. if Addr r = q then f r else r) (find_entry p xs)"
  by (induction xs) (simp_all add: find_entry_def upd_entry_def assms)

lemma find_entry_insert_after:
  "find_entry p xs = Some r \<Longrightarrow> q = p \<or> Addr n \<noteq> p \<Longrightarrow>
   find_entry p (insert_after q n xs) = Some r"
  by (induction xs) (auto simp: find_entry_def)

lemma find_entry_insert_after_same:
  "find_entry p xs = None \<Longrightarrow> find_entry p (insert_after p n xs) = None"
  by (induction xs) (auto simp: find_entry_def)

lemma find_entry_insert_after_None:
  "find_entry p xs = None \<Longrightarrow> Addr n \<noteq> p \<Longrightarrow> find_entry p (insert_after q n xs) = None"
  by (induction xs) (auto simp: find_entry_def)

lemma find_entry_append:
  "find_entry p (xs @ ys) = (case find_entry p xs of Some r \<Rightarrow> Some r | None \<Rightarrow> find_entry p ys)"
  by (induction xs) (simp_all add: find_entry_def)

lemma find_entry_Some_Addr: "find_entry p xs = Some r \<Longrightarrow> Addr r = p \<and> r \<in> set xs"
  by (induction xs) (auto simp: find_entry_def split: if_splits)

lemma PartEntryOf_UpdPartEntry:
  assumes "\<And>r. Addr (f r) = Addr r"
  shows "PartEntryOf (UpdPartEntry q f d) p =
         map_option (\<lambda>r. if Addr r = q then f r else r) (PartEntryOf d p)"
proof -
  have "upd_entry q f (PrimaryPartList d) @ upd_entry q f (LogicalPartList d)
        = upd_entry q f (PrimaryPartList d @ LogicalPartList d)"
    by (simp add: upd_entry_def)
  then show ?thesis
    by (simp add: PartEntryOf_def UpdPartEntry_def find_entry_upd_entry[OF assms])
qed

lemma PartEntryOf_InsertTailList_Flink:
  assumes "PartEntryOf d p = Some r" "q = p \<or> Addr n \<noteq> p"
  shows "PartEntryOf (InsertTailList (FlinkOf q) n d) p = Some r"
  using assms
  by (auto simp: PartEntryOf_def InsertTailList_def find_entry_append find_entry_insert_after
        find_entry_insert_after_None find_entry_insert_after_same split: option.splits)

lemma PartEntryOf_InsertTailList_Logical:
  assumes "PartEntryOf d p = Some r"
  shows "PartEntryOf (InsertTailList LogicalPartListHead n d) p = Some r"
  using assms
  by (auto simp: PartEntryOf_def InsertTailList_def find_entry_append split: option.splits)

subsection \<open>Fields the editor helpers keep\<close>

lemma ConvertToNewPartition_fields:
  "Addr (ConvertToNewPartition e r) = Addr r"
  "StartSector (ConvertToNewPartition e r) = StartSector r"
  "SectorCount (ConvertToNewPartition e r) = SectorCount r"
  "IsPartitioned (ConvertToNewPartition e r)"
  "LogicalPartition (ConvertToNewPartition e r) = LogicalPartition r"
  "Volume (ConvertToNewPartition e r) = ZeroVolume\<lparr> VolNew := True \<rparr>"
  by (simp_all add: ConvertToNewPartition_def)

lemma UpdPartEntry_fields:
  "BytesPerSector (UpdPartEntry p f d) = BytesPerSector d"
  "SectorAlignment (UpdPartEntry p f d) = SectorAlignment d"
  "DiskStyle (UpdPartEntry p f d) = DiskStyle d"
  "LayoutBuffer (UpdPartEntry p f d) = LayoutBuffer d"
  "ExtendedPartition (UpdPartEntry p f d) = ExtendedPartition d"
  "Dirty (UpdPartEntry p f d) = Dirty d"
  by (simp_all add: UpdPartEntry_def)

lemma InsertTailList_fields:
  "BytesPerSector (InsertTailList pos n d) = BytesPerSector d"
  "SectorAlignment (InsertTailList pos n d) = SectorAlignment d"
  "DiskStyle (InsertTailList pos n d) = DiskStyle d"
  "LayoutBuffer (InsertTailList pos n d) = LayoutBuffer d"
  "ExtendedPartition (InsertTailList pos n d) = ExtendedPartition d"
  "Dirty (InsertTailList pos n d) = Dirty d"
  by (simp_all add: InsertTailList_def split: LISTPOS.splits)

lemma InitializePartitionEntry_fields:
  "BytesPerSector (snd (InitializePartitionEntry e a d p c)) = BytesPerSector d"
  "SectorAlignment (snd (InitializePartitionEntry e a d p c)) = SectorAlignment d"
  "DiskStyle (snd (InitializePartitionEntry e a d p c)) = DiskStyle d"
  "LayoutBuffer (snd (InitializePartitionEntry e a d p c)) = LayoutBuffer d"
  "ExtendedPartition (snd (InitializePartitionEntry e a d p c)) = ExtendedPartition d"
  "Dirty (snd (InitializePartitionEntry e a d p c)) = Dirty d"
  by (simp_all add: InitializePartitionEntry_def CreateInsertBlankRegion_def Let_def
        UpdPartEntry_fields InsertTailList_fields split: option.splits)

lemma InitializePartitionEntry_lookup:
  assumes "InitializePartitionEntry e a d p c = (True, d1)" "PartEntryOf d p = Some r0"
  shows "\<exists>r1. PartEntryOf d1 p = Some r1 \<and> StartSector r1 = StartSector r0 \<and> Addr r1 = p \<and>
              IsPartitioned r1 \<and> LogicalPartition r1 = LogicalPartition r0"
proof -
  have ad: "Addr r0 = p" using assms(2) unfolding PartEntryOf_def by (auto dest: find_entry_Some_Addr)
  have c1: "\<And>r. Addr (ConvertToNewPartition e r) = Addr r" by (simp add: ConvertToNewPartition_fields)
  have c2: "\<And>s r. Addr (r\<lparr> SectorCount := s - StartSector r \<rparr>) = Addr r" by simp
  show ?thesis
    using assms ad
    unfolding InitializePartitionEntry_def CreateInsertBlankRegion_def
    by (auto simp: Let_def PartEntryOf_UpdPartEntry[OF c1] PartEntryOf_UpdPartEntry[OF c2]
          PartEntryOf_InsertTailList_Flink ConvertToNewPartition_fields
          split: option.splits if_splits)
qed

lemma AddLogicalDiskSpace_fields:
  "BytesPerSector (AddLogicalDiskSpace e a d) = BytesPerSector d"
  "SectorAlignment (AddLogicalDiskSpace e a d) = SectorAlignment d"
  "DiskStyle (AddLogicalDiskSpace e a d) = DiskStyle d"
  "LayoutBuffer (AddLogicalDiskSpace e a d) = LayoutBuffer d"
  "ExtendedPartition (AddLogicalDiskSpace e a d) = ExtendedPartition d"
  "Dirty (AddLogicalDiskSpace e a d) = Dirty d"
  "PrimaryPartList (AddLogicalDiskSpace e a d) = PrimaryPartList d"
  by (simp_all add: AddLogicalDiskSpace_def CreateInsertBlankRegion_def Let_def
        InsertTailList_def split: option.splits)

lemma AddLogicalDiskSpace_lookup:
  "PartEntryOf d p = Some r \<Longrightarrow> PartEntryOf (AddLogicalDiskSpace e a d) p = Some r"
  by (simp add: AddLogicalDiskSpace_def CreateInsertBlankRegion_def Let_def
        PartEntryOf_InsertTailList_Logical split: option.splits)

text \<open>A disk of the list after the drive letters have been reassigned.\<close>

lemma AssignDriveLetters_length:
  "length (DiskList (AssignDriveLetters e L)) = length (DiskList L)"
  using AssignDriveLetters_core[of e L] by (metis length_map)

lemma AssignDriveLetters_nth_core:
  assumes "di < length (DiskList L)"
  shows "disk_core (DiskList (AssignDriveLetters e L) ! di) = disk_core (DiskList L ! di)"
proof -
  have "map disk_core (DiskList (AssignDriveLetters e L)) ! di = map disk_core (DiskList L) ! di"
    using AssignDriveLetters_core[of e L] by simp
  then show ?thesis using assms AssignDriveLetters_length[of e L] by simp
qed

lemma disk_core_fields:
  assumes "disk_core d' = disk_core d"
  shows "BytesPerSector d' = BytesPerSector d" "SectorAlignment d' = SectorAlignment d"
    "DiskStyle d' = DiskStyle d" "LayoutBuffer d' = LayoutBuffer d"
    "ExtendedPartition d' = ExtendedPartition d" "Dirty d' = Dirty d"
    "map strip (PrimaryPartList d') = map strip (PrimaryPartList d)"
    "map strip (LogicalPartList d') = map strip (LogicalPartList d)"
proof -
  have "BytesPerSector (disk_core d') = BytesPerSector (disk_core d)"
    "SectorAlignment (disk_core d') = SectorAlignment (disk_core d)"
    "DiskStyle (disk_core d') = DiskStyle (disk_core d)"
    "LayoutBuffer (disk_core d') = LayoutBuffer (disk_core d)"
    "ExtendedPartition (disk_core d') = ExtendedPartition (disk_core d)"
    "Dirty (disk_core d') = Dirty (disk_core d)"
    "PrimaryPartList (disk_core d') = PrimaryPartList (disk_core d)"
    "LogicalPartList (disk_core d') = LogicalPartList (disk_core d)"
    using assms by simp_all
  then show "BytesPerSector d' = BytesPerSector d" "SectorAlignment d' = SectorAlignment d"
    "DiskStyle d' = DiskStyle d" "LayoutBuffer d' = LayoutBuffer d"
    "ExtendedPartition d' = ExtendedPartition d" "Dirty d' = Dirty d"
    "map strip (PrimaryPartList d') = map strip (PrimaryPartList d)"
    "map strip (LogicalPartList d') = map strip (LogicalPartList d)"
    by (simp_all add: disk_core_def)
qed

text \<open>The disk an editor call has worked on, as found in the list it returns.\<close>

lemma edited_disk:
  assumes "di < length (DiskList L)"
  shows "disk_core (DiskList (AssignDriveLetters e (SetDisk di d L)) ! di) = disk_core d"
  using AssignDriveLetters_nth_core[of di "SetDisk di d L" e] assms
  by (simp add: SetDisk_def)

lemma edited_disk_NextAddr:
  assumes "di < length (DiskList L)"
  shows "disk_core (DiskList (AssignDriveLetters e (SetDisk di d (L\<lparr> NextAddr := n \<rparr>))) ! di) = disk_core d"
  using edited_disk[of di "L\<lparr> NextAddr := n \<rparr>" e d] assms by simp

subsection \<open>Successful creation, unfolded\<close>

lemma CreateExtendedPartition_success:
  assumes "CreateExtendedPartition e L (Some (di, p)) sz = (True, L')"
  obtains r0 c d1 where
    "di < length (DiskList L)"
    "PartEntryOf (DiskList L ! di) p = Some r0" "\<not> IsPartitioned r0"
    "ExtendedPartitionCreationChecks (DiskList L ! di) r0 = ERROR_SUCCESS"
    "SizeToSectorCount (DiskList L ! di) r0 sz = Some c"
    "InitializePartitionEntry e (NextAddr L) (DiskList L ! di) p c = (True, d1)"
    "L' = AssignDriveLetters e
            (SetDisk di
               (UpdateDiskLayout e (NextAddr L + 2)
                  (AddLogicalDiskSpace e (NextAddr L + 1)
                     ((UpdPartEntry p
                        (\<lambda>r. r\<lparr> PartitionType :=
                                   (if StartSector r < 1450560 then PARTITION_EXTENDED
                                    else PARTITION_XINT13_EXTENDED) \<rparr>) d1)
                       \<lparr> ExtendedPartition := Some p \<rparr>)))
               (L\<lparr> NextAddr := NextAddr L + 3 \<rparr>))"
  using assms unfolding CreateExtendedPartition_def
  by (auto simp: Let_def split: option.splits if_splits prod.splits bool.splits)

lemma CreatePartition_success:
  assumes "CreatePartition e L (Some (di, p)) sz = (True, L')"
  obtains r0 c d1 where
    "di < length (DiskList L)"
    "PartEntryOf (DiskList L ! di) p = Some r0" "\<not> IsPartitioned r0"
    "PartitionCreationChecks (DiskList L ! di) r0 = ERROR_SUCCESS"
    "SizeToSectorCount (DiskList L ! di) r0 sz = Some c"
    "InitializePartitionEntry e (NextAddr L) (DiskList L ! di) p c = (True, d1)"
    "L' = AssignDriveLetters e
            (SetDisk di (UpdateDiskLayout e (NextAddr L + 2) d1)
               (L\<lparr> NextAddr := NextAddr L + 3 \<rparr>))"
  using assms unfolding CreatePartition_def
  by (auto simp: Let_def split: option.splits if_splits prod.splits bool.splits)

subsection \<open>Sizes below one sector\<close>

lemma unat_ucast_ULONG: "unat (ucast (a :: ULONG) :: ULONGLONG) = unat a"
  by (simp add: unsigned_ucast_eq take_bit_nat_eq_self_iff)
    (rule less_le_trans[OF unsigned_less], simp)

lemma ucast_ULONG_eq_0: "(ucast (a :: ULONG) :: ULONGLONG) = 0 \<longleftrightarrow> a = 0"
  using unat_ucast_ULONG[of a] by (metis unat_eq_zero)


subsection \<open>Successful deletion, unfolded\<close>

lemma RemoveEntryList_fields:
  "BytesPerSector (RemoveEntryList p d) = BytesPerSector d"
  "SectorAlignment (RemoveEntryList p d) = SectorAlignment d"
  "DiskStyle (RemoveEntryList p d) = DiskStyle d"
  "LayoutBuffer (RemoveEntryList p d) = LayoutBuffer d"
  "ExtendedPartition (RemoveEntryList p d) = ExtendedPartition d"
  "Dirty (RemoveEntryList p d) = Dirty d"
  by (simp_all add: RemoveEntryList_def)

lemma MergeFreeRegions_fields:
  "BytesPerSector (fst (MergeFreeRegions d r)) = BytesPerSector d"
  "SectorAlignment (fst (MergeFreeRegions d r)) = SectorAlignment d"
  "DiskStyle (fst (MergeFreeRegions d r)) = DiskStyle d"
  "LayoutBuffer (fst (MergeFreeRegions d r)) = LayoutBuffer d"
  "ExtendedPartition (fst (MergeFreeRegions d r)) = ExtendedPartition d"
  "Dirty (fst (MergeFreeRegions d r)) = Dirty d"
  by (simp_all add: MergeFreeRegions_def RemoveEntryList_fields UpdPartEntry_fields
        split: option.splits)

lemma DeleteDismount_fields:
  "BytesPerSector (fst (DeleteDismount e d r)) = BytesPerSector d"
  "SectorAlignment (fst (DeleteDismount e d r)) = SectorAlignment d"
  "DiskStyle (fst (DeleteDismount e d r)) = DiskStyle d"
  "LayoutBuffer (fst (DeleteDismount e d r)) = LayoutBuffer d"
  "Dirty (fst (DeleteDismount e d r)) = Dirty d"
  "PrimaryPartList (fst (DeleteDismount e d r)) =
     (if ExtendedPartition d \<noteq> Some (Addr r) \<and> IsMountedPartition e r
      then upd_entry (Addr r) (\<lambda>x. x\<lparr> Volume := fst (DismountVolume e (Volume r)) \<rparr>) (PrimaryPartList d)
      else PrimaryPartList d)"
  by (simp_all add: DeleteDismount_def UpdPartEntry_def split_beta)

lemma DeletePartition_success:
  assumes "DeletePartition e L (Some (di, p)) = (True, L', fr)"
  obtains r0 where
    "di < length (DiskList L)"
    "PartEntryOf (DiskList L ! di) p = Some r0" "IsPartitioned r0"
    "L' = AssignDriveLetters e
            (SetDisk di
               (UpdateDiskLayout e (NextAddr L + 2)
                  (fst (MergeFreeRegions (fst (DeleteDismount e (DiskList L ! di) r0)) r0)))
               ((if SystemPartition L = Some (di, p) then L\<lparr> SystemPartition := None \<rparr> else L)
                  \<lparr> NextAddr := NextAddr L + 3,
                    Dismounted := Dismounted L @ snd (DeleteDismount e (DiskList L ! di) r0) \<rparr>))"
    "fr = Some (di, snd (MergeFreeRegions (fst (DeleteDismount e (DiskList L ! di) r0)) r0))"
  using assms unfolding DeletePartition_def
  by (auto simp: Let_def split_beta split: option.splits if_splits)

lemma DeletePartition_accepts:
  assumes "di < length (DiskList L)" "PartEntryOf (DiskList L ! di) p = Some r0" "IsPartitioned r0"
  shows "fst (DeletePartition e L (Some (di, p)))"
  using assms unfolding DeletePartition_def by (simp add: Let_def split_beta)

lemma edited_disk_gen:
  assumes "di < length (DiskList L)" "DiskList L0 = DiskList L"
  shows "disk_core (DiskList (AssignDriveLetters e (SetDisk di d L0)) ! di) = disk_core d"
  using edited_disk[of di L0 e d] assms by simp

subsection \<open>A region in its list\<close>

lemma upd_entry_absent: "p \<notin> Addr ` set xs \<Longrightarrow> upd_entry p f xs = xs"
  by (induction xs) (auto simp: upd_entry_def)

lemma insert_after_absent: "p \<notin> Addr ` set xs \<Longrightarrow> insert_after p n xs = xs"
  by (induction xs) auto

lemma remove_entry_absent: "p \<notin> Addr ` set xs \<Longrightarrow> remove_entry p xs = xs"
  by (induction xs) (auto simp: remove_entry_def)

lemma find_entry_absent: "p \<notin> Addr ` set xs \<Longrightarrow> find_entry p xs = None"
  by (induction xs) (auto simp: find_entry_def)

lemma upd_entry_at:
  "Addr r = p \<Longrightarrow> p \<notin> Addr ` set pre \<Longrightarrow> p \<notin> Addr ` set post \<Longrightarrow>
   upd_entry p f (pre @ r # post) = pre @ f r # post"
  using upd_entry_absent[of p pre f] upd_entry_absent[of p post f]
  by (simp add: upd_entry_def)

lemma insert_after_at:
  "Addr r = p \<Longrightarrow> p \<notin> Addr ` set pre \<Longrightarrow> insert_after p n (pre @ r # post) = pre @ r # n # post"
  by (induction pre) auto

lemma remove_entry_at:
  "Addr r = p \<Longrightarrow> p \<notin> Addr ` set pre \<Longrightarrow> p \<notin> Addr ` set post \<Longrightarrow>
   remove_entry p (pre @ r # post) = pre @ post"
  using remove_entry_absent[of p pre] remove_entry_absent[of p post]
  by (simp add: remove_entry_def)

lemma find_entry_at:
  "Addr r = p \<Longrightarrow> p \<notin> Addr ` set pre \<Longrightarrow> find_entry p (pre @ r # post) = Some r"
  using find_entry_absent[of p pre] by (simp add: find_entry_append) (simp add: find_entry_def)

lemma next_entry_at:
  "Addr r = p \<Longrightarrow> p \<notin> Addr ` set pre \<Longrightarrow>
   next_entry p (pre @ r # post) = (case post of [] \<Rightarrow> None | n # _ \<Rightarrow> Some n)"
proof (induction pre)
  case Nil then show ?case by (cases post) auto
next
  case (Cons x pre)
  then show ?case by (cases "pre @ r # post") auto
qed

lemma prev_entry_at:
  "Addr r = p \<Longrightarrow> p \<notin> Addr ` set pre \<Longrightarrow>
   prev_entry p (pre @ r # post) = (if pre = [] then None else Some (last pre))"
proof (induction pre rule: prev_entry.induct[where ?a0.0 = p])
  case 1 then show ?case by (cases post) auto
next
  case (2 x) then show ?case by auto
next
  case (3 q x xs) then show ?case by auto
qed

text \<open>The region a pointer designates, when the list it is linked in is known.\<close>

lemma PartEntryOf_at:
  assumes "ListOf lg d = pre @ r # post" "Addr r = p" "p \<notin> Addr ` set pre"
    "p \<notin> Addr ` set (ListOf (\<not> lg) d)"
  shows "PartEntryOf d p = Some r"
proof -
  have a: "find_entry p (ListOf lg d) = Some r"
    unfolding assms(1) using assms(2,3) by (rule find_entry_at)
  have b: "find_entry p (ListOf (\<not> lg) d) = None"
    using assms(4) by (rule find_entry_absent)
  show ?thesis
    using a b by (cases lg) (simp_all add: PartEntryOf_def ListOf_def find_entry_append)
qed

lemma ListOf_UpdPartEntry:
  "ListOf lg (UpdPartEntry p f d) = upd_entry p f (ListOf lg d)"
  by (simp add: ListOf_def UpdPartEntry_def)

lemma ListOf_InsertTailList_Flink:
  "ListOf lg (InsertTailList (FlinkOf p) n d) = insert_after p n (ListOf lg d)"
  by (simp add: ListOf_def InsertTailList_def)

lemma ListOf_RemoveEntryList:
  "ListOf lg (RemoveEntryList p d) = remove_entry p (ListOf lg d)"
  by (simp add: ListOf_def RemoveEntryList_def)

subsection \<open>Splitting a free region\<close>

text \<open>\<^verbatim>\<open>InitializePartitionEntry\<close> on the region \<open>r\<close> at \<open>p\<close>, between \<open>pre\<close> and \<open>post\<close> in its
  list: the three ways out for a count that is neither zero nor above the count of the
  region.\<close>

lemma InitializePartitionEntry_at:
  assumes l: "ListOf lg d = pre @ r # post" and p: "Addr r = p"
    and pre: "p \<notin> Addr ` set pre" and post: "p \<notin> Addr ` set post"
    and other: "p \<notin> Addr ` set (ListOf (\<not> lg) d)"
    and a: "a \<noteq> p" and c: "0 < c" "c \<le> SectorCount r"
  shows "AlignDown (StartSector r + c) (SectorAlignment d) = StartSector r + SectorCount r \<Longrightarrow>
           InitializePartitionEntry e a d p c = (True, snd (InitializePartitionEntry e a d p c)) \<and>
           ListOf lg (snd (InitializePartitionEntry e a d p c)) =
             pre @ ConvertToNewPartition e r # post \<and>
           ListOf (\<not> lg) (snd (InitializePartitionEntry e a d p c)) = ListOf (\<not> lg) d"
    and "AlignDown (StartSector r + c) (SectorAlignment d) \<noteq> StartSector r + SectorCount r \<Longrightarrow>
         AllocOk e a \<Longrightarrow>
           InitializePartitionEntry e a d p c = (True, snd (InitializePartitionEntry e a d p c)) \<and>
           ListOf lg (snd (InitializePartitionEntry e a d p c)) =
             pre @ ConvertToNewPartition e
                     (r\<lparr> SectorCount := AlignDown (StartSector r + c) (SectorAlignment d)
                                           - StartSector r \<rparr>)
                 # BlankRegion a (AlignDown (StartSector r + c) (SectorAlignment d))
                     (StartSector r + SectorCount r
                        - AlignDown (StartSector r + c) (SectorAlignment d))
                     (LogicalPartition r)
                 # post \<and>
           ListOf (\<not> lg) (snd (InitializePartitionEntry e a d p c)) = ListOf (\<not> lg) d"
    and "AlignDown (StartSector r + c) (SectorAlignment d) \<noteq> StartSector r + SectorCount r \<Longrightarrow>
         \<not> AllocOk e a \<Longrightarrow> InitializePartitionEntry e a d p c = (False, d)"
proof -
  let ?ne = "AlignDown (StartSector r + c) (SectorAlignment d)"
  let ?I = "InitializePartitionEntry e a d p c"
  have look: "PartEntryOf d p = Some r" using l p pre other by (rule PartEntryOf_at)
  have c0: "c \<noteq> 0" "\<not> SectorCount r < c" using c by (auto simp: word_greater_zero_iff not_less)
  have whole_iff: "?ne - StartSector r = SectorCount r \<longleftrightarrow> ?ne = StartSector r + SectorCount r"
    by (auto simp: algebra_simps)
  show "?I = (True, snd ?I) \<and> ListOf lg (snd ?I) = pre @ ConvertToNewPartition e r # post \<and>
        ListOf (\<not> lg) (snd ?I) = ListOf (\<not> lg) d"
    if w: "?ne = StartSector r + SectorCount r"
  proof -
    have I: "?I = (True, UpdPartEntry p (ConvertToNewPartition e) d)"
      using look c0 w whole_iff by (simp add: InitializePartitionEntry_def)
    have 1: "ListOf lg (UpdPartEntry p (ConvertToNewPartition e) d) = pre @ ConvertToNewPartition e r # post"
      unfolding ListOf_UpdPartEntry l using p pre post by (rule upd_entry_at)
    have 2: "ListOf (\<not> lg) (UpdPartEntry p (ConvertToNewPartition e) d) = ListOf (\<not> lg) d"
      unfolding ListOf_UpdPartEntry using other by (rule upd_entry_absent)
    show ?thesis unfolding I using 1 2 by simp
  qed
  let ?t = "BlankRegion a ?ne (StartSector r + SectorCount r - ?ne) (LogicalPartition r)"
  show "?I = (True, snd ?I) \<and>
        ListOf lg (snd ?I) =
          pre @ ConvertToNewPartition e (r\<lparr> SectorCount := ?ne - StartSector r \<rparr>) # ?t # post \<and>
        ListOf (\<not> lg) (snd ?I) = ListOf (\<not> lg) d"
    if w: "?ne \<noteq> StartSector r + SectorCount r" and ok: "AllocOk e a"
  proof -
    let ?d1 = "InsertTailList (FlinkOf p) ?t d"
    let ?d2 = "UpdPartEntry p (\<lambda>x. x\<lparr> SectorCount := ?ne - StartSector x \<rparr>) ?d1"
    let ?d3 = "UpdPartEntry p (ConvertToNewPartition e) ?d2"
    have I: "?I = (True, ?d3)"
      using look c0 w whole_iff ok
      by (simp add: InitializePartitionEntry_def CreateInsertBlankRegion_def Let_def)
    have ta: "Addr ?t = a" by (simp add: BlankRegion_def)
    have post': "p \<notin> Addr ` set (?t # post)" using post a ta by auto
    have l1: "ListOf lg ?d1 = pre @ r # ?t # post"
      unfolding ListOf_InsertTailList_Flink l using p pre by (rule insert_after_at)
    have l2: "ListOf lg ?d2 = pre @ r\<lparr> SectorCount := ?ne - StartSector r \<rparr> # ?t # post"
      unfolding ListOf_UpdPartEntry l1 using p pre post' by (rule upd_entry_at)
    have p2: "Addr (r\<lparr> SectorCount := ?ne - StartSector r \<rparr>) = p" using p by simp
    have l3: "ListOf lg ?d3 =
        pre @ ConvertToNewPartition e (r\<lparr> SectorCount := ?ne - StartSector r \<rparr>) # ?t # post"
      unfolding ListOf_UpdPartEntry[of lg p "ConvertToNewPartition e"] l2
      using p2 pre post' by (rule upd_entry_at)
    have o1: "ListOf (\<not> lg) ?d1 = ListOf (\<not> lg) d"
      unfolding ListOf_InsertTailList_Flink using other by (rule insert_after_absent)
    have o3: "ListOf (\<not> lg) ?d3 = ListOf (\<not> lg) d"
      unfolding ListOf_UpdPartEntry o1 using other by (simp add: upd_entry_absent)
    show ?thesis unfolding I using l3 o3 by simp
  qed
  show "?I = (False, d)" if w: "?ne \<noteq> StartSector r + SectorCount r" and no: "\<not> AllocOk e a"
    using look c0 w whole_iff no
    by (simp add: InitializePartitionEntry_def CreateInsertBlankRegion_def Let_def)
qed

lemma extent_strip: "extent (strip r) = extent r"
  by (simp add: extent_def strip_def)

lemma map_extent_strip:
  assumes "map strip xs' = map strip xs"
  shows "map extent xs' = map extent xs"
proof -
  have "map extent xs' = map extent (map strip xs')" by (simp add: extent_strip)
  also have "\<dots> = map extent (map strip xs)" using assms by simp
  also have "\<dots> = map extent xs" by (simp add: extent_strip)
  finally show ?thesis .
qed

lemma ListOf_core:
  assumes "disk_core d' = disk_core d"
  shows "map strip (ListOf lg d') = map strip (ListOf lg d)"
  using disk_core_fields(7,8)[OF assms] by (simp add: ListOf_def)

lemma ListOf_geom:
  assumes "disk_geom d' = disk_geom d"
  shows "map strip (ListOf lg d') = map strip (ListOf lg d)"
  using disk_geom_core[OF assms] by (simp add: ListOf_def)

text \<open>The lists of the edited disk in the returned list, up to the fields that
  \<^verbatim>\<open>UpdateDiskLayout\<close> and \<^verbatim>\<open>AssignDriveLetters\<close> write.\<close>

lemma edited_lists:
  assumes "di < length (DiskList L)" "DiskList L0 = DiskList L"
  shows "map strip (ListOf lg (DiskList (AssignDriveLetters e (SetDisk di (UpdateDiskLayout e a d) L0)) ! di))
         = map strip (ListOf lg d)"
proof -
  have "disk_core (DiskList (AssignDriveLetters e (SetDisk di (UpdateDiskLayout e a d) L0)) ! di)
        = disk_core (UpdateDiskLayout e a d)"
    using assms by (rule edited_disk_gen)
  then have "map strip (ListOf lg (DiskList (AssignDriveLetters e (SetDisk di (UpdateDiskLayout e a d) L0)) ! di))
        = map strip (ListOf lg (UpdateDiskLayout e a d))" by (rule ListOf_core)
  also have "\<dots> = map strip (ListOf lg d)"
    using UpdateDiskLayout_geom by (rule ListOf_geom)
  finally show ?thesis .
qed

lemma extent_Convert:
  "extent (ConvertToNewPartition e x) = (StartSector x, SectorCount x, True, LogicalPartition x)"
  by (simp add: extent_def ConvertToNewPartition_def)

subsection \<open>Merging free regions\<close>

lemma GetAdjUnpartitionedEntry_at:
  assumes l: "ListOf lg d = pre @ r # post" and p: "Addr r = p" and pre: "p \<notin> Addr ` set pre"
    and sel: "(DiskStyle d = PARTITION_STYLE_MBR \<and> LogicalPartition r) = lg"
  shows "GetAdjUnpartitionedEntry d r False =
           (if pre \<noteq> [] \<and> \<not> IsPartitioned (last pre) then Some (last pre) else None)"
    and "GetAdjUnpartitionedEntry d r True =
           (if post \<noteq> [] \<and> \<not> IsPartitioned (hd post) then Some (hd post) else None)"
proof -
  have h: "(if DiskStyle d = PARTITION_STYLE_MBR \<and> LogicalPartition r
            then LogicalPartList d else PrimaryPartList d) = pre @ r # post"
    using l sel by (auto simp: ListOf_def)
  show "GetAdjUnpartitionedEntry d r False =
           (if pre \<noteq> [] \<and> \<not> IsPartitioned (last pre) then Some (last pre) else None)"
    unfolding GetAdjUnpartitionedEntry_def GetAdjPartListEntry_def h Let_def
    using prev_entry_at[OF p pre, of post] p by simp
  show "GetAdjUnpartitionedEntry d r True =
           (if post \<noteq> [] \<and> \<not> IsPartitioned (hd post) then Some (hd post) else None)"
    unfolding GetAdjUnpartitionedEntry_def GetAdjPartListEntry_def h Let_def
    using next_entry_at[OF p pre, of post] p by (cases post) simp_all
qed

lemma MergeFreeRegions_at:
  assumes l: "ListOf lg d = pre @ r # post" and p: "Addr r = p"
    and dist: "distinct (map Addr (ListOf lg d))"
    and other: "\<forall>x\<in>set (ListOf lg d). Addr x \<notin> Addr ` set (ListOf (\<not> lg) d)"
    and sel: "(DiskStyle d = PARTITION_STYLE_MBR \<and> LogicalPartition r) = lg"
  shows "ListOf lg (fst (MergeFreeRegions d r)) = fst (spec_merge pre r post) \<and>
         ListOf (\<not> lg) (fst (MergeFreeRegions d r)) = ListOf (\<not> lg) d \<and>
         snd (MergeFreeRegions d r) = snd (spec_merge pre r post)"
proof -
  have pre: "p \<notin> Addr ` set pre" and post: "p \<notin> Addr ` set post"
    using dist p unfolding l by auto
  note G = GetAdjUnpartitionedEntry_at[OF l p pre sel]
  have po: "p \<notin> Addr ` set (ListOf (\<not> lg) d)" using other l p by auto
  show ?thesis
  proof (cases "pre \<noteq> [] \<and> \<not> IsPartitioned (last pre)")
    case pf: True
    then obtain pre' pr where pre': "pre = pre' @ [pr]" "\<not> IsPartitioned pr"
      by (metis append_butlast_last_id)
    have d1: "Addr pr \<notin> Addr ` set pre'" "Addr pr \<noteq> p" "Addr pr \<notin> Addr ` set post"
      "p \<notin> Addr ` set pre'"
      using dist p unfolding l pre' by auto
    have pro: "Addr pr \<notin> Addr ` set (ListOf (\<not> lg) d)" using other l pre' by auto
    show ?thesis
    proof (cases "post \<noteq> [] \<and> \<not> IsPartitioned (hd post)")
      case nf: True
      then obtain nx post' where post': "post = nx # post'" "\<not> IsPartitioned nx"
        by (cases post) auto
      have d2: "Addr nx \<notin> Addr ` set pre'" "Addr nx \<noteq> p" "Addr nx \<notin> Addr ` set post'"
        "Addr nx \<noteq> Addr pr" "p \<notin> Addr ` set post'" "Addr pr \<notin> Addr ` set post'"
        using dist p unfolding l pre' post' by auto
      have nxo: "Addr nx \<notin> Addr ` set (ListOf (\<not> lg) d)" using other l post' by auto
      let ?f = "\<lambda>x. x\<lparr> SectorCount := SectorCount x + (SectorCount r + SectorCount nx) \<rparr>"
      have M: "MergeFreeRegions d r =
          (RemoveEntryList (Addr nx) (RemoveEntryList (Addr r) (UpdPartEntry (Addr pr) ?f d)), Addr pr)"
        unfolding MergeFreeRegions_def G using pf nf pre' post' by simp
      have a: "upd_entry (Addr pr) ?f (pre' @ pr # r # nx # post') = pre' @ ?f pr # r # nx # post'"
        using d1 d2 p by (intro upd_entry_at) auto
      have b: "remove_entry p ((pre' @ [?f pr]) @ r # nx # post') = (pre' @ [?f pr]) @ nx # post'"
        using d1 d2 p by (intro remove_entry_at) auto
      have c: "remove_entry (Addr nx) ((pre' @ [?f pr]) @ nx # post') = (pre' @ [?f pr]) @ post'"
        using d1 d2 p by (intro remove_entry_at) auto
      have 1: "ListOf lg (fst (MergeFreeRegions d r)) = pre' @ ?f pr # post'"
        unfolding M using a b c p
        by (simp add: ListOf_RemoveEntryList ListOf_UpdPartEntry l pre' post')
      have 2: "ListOf (\<not> lg) (fst (MergeFreeRegions d r)) = ListOf (\<not> lg) d"
        unfolding M using po pro nxo p
        by (simp add: ListOf_RemoveEntryList ListOf_UpdPartEntry upd_entry_absent remove_entry_absent)
      show ?thesis using 1 2 M pf nf pre' post' by (simp add: spec_merge_def)
    next
      case nf: False
      let ?f = "\<lambda>x. x\<lparr> SectorCount := SectorCount x + SectorCount r \<rparr>"
      have M: "MergeFreeRegions d r =
          (RemoveEntryList (Addr r) (UpdPartEntry (Addr pr) ?f d), Addr pr)"
        unfolding MergeFreeRegions_def G using pf nf pre' by auto
      have a: "upd_entry (Addr pr) ?f (pre' @ pr # r # post) = pre' @ ?f pr # r # post"
        using d1 p by (intro upd_entry_at) auto
      have b: "remove_entry p ((pre' @ [?f pr]) @ r # post) = (pre' @ [?f pr]) @ post"
        using d1 post p by (intro remove_entry_at) auto
      have 1: "ListOf lg (fst (MergeFreeRegions d r)) = pre' @ ?f pr # post"
        unfolding M using a b p
        by (simp add: ListOf_RemoveEntryList ListOf_UpdPartEntry l pre')
      have 2: "ListOf (\<not> lg) (fst (MergeFreeRegions d r)) = ListOf (\<not> lg) d"
        unfolding M using po pro p
        by (simp add: ListOf_RemoveEntryList ListOf_UpdPartEntry upd_entry_absent remove_entry_absent)
      show ?thesis using 1 2 M pf nf pre' by (auto simp: spec_merge_def)
    qed
  next
    case pf: False
    show ?thesis
    proof (cases "post \<noteq> [] \<and> \<not> IsPartitioned (hd post)")
      case nf: True
      then obtain nx post' where post': "post = nx # post'" "\<not> IsPartitioned nx"
        by (cases post) auto
      have d2: "Addr nx \<notin> Addr ` set pre" "Addr nx \<noteq> p" "Addr nx \<notin> Addr ` set post'"
        "p \<notin> Addr ` set post'"
        using dist p unfolding l post' by auto
      have nxo: "Addr nx \<notin> Addr ` set (ListOf (\<not> lg) d)" using other l post' by auto
      let ?f = "\<lambda>x. x\<lparr> StartSector := StartSector r, SectorCount := SectorCount x + SectorCount r \<rparr>"
      have M: "MergeFreeRegions d r =
          (RemoveEntryList (Addr r) (UpdPartEntry (Addr nx) ?f d), Addr nx)"
        unfolding MergeFreeRegions_def G using pf nf post' by auto
      have a: "upd_entry (Addr nx) ?f ((pre @ [r]) @ nx # post') = (pre @ [r]) @ ?f nx # post'"
        using d2 p by (intro upd_entry_at) auto
      have b: "remove_entry p (pre @ r # ?f nx # post') = pre @ ?f nx # post'"
        using d2 pre p by (intro remove_entry_at) auto
      have 1: "ListOf lg (fst (MergeFreeRegions d r)) = pre @ ?f nx # post'"
        unfolding M using a b p
        by (simp add: ListOf_RemoveEntryList ListOf_UpdPartEntry l post')
      have 2: "ListOf (\<not> lg) (fst (MergeFreeRegions d r)) = ListOf (\<not> lg) d"
        unfolding M using po nxo p
        by (simp add: ListOf_RemoveEntryList ListOf_UpdPartEntry upd_entry_absent remove_entry_absent)
      show ?thesis using 1 2 M pf nf post' by (auto simp: spec_merge_def)
    next
      case nf: False
      let ?f = "\<lambda>x. x\<lparr> IsPartitioned := False, OnDiskPartitionNumber := 0, PartitionNumber := 0,
                        BootIndicator := False, PartitionType := PARTITION_ENTRY_UNUSED,
                        Volume := ZeroVolume \<rparr>"
      have M: "MergeFreeRegions d r = (UpdPartEntry (Addr r) ?f d, Addr r)"
        unfolding MergeFreeRegions_def G using pf nf by auto
      have a: "upd_entry p ?f (pre @ r # post) = pre @ ?f r # post"
        using pre post p by (intro upd_entry_at) auto
      have 1: "ListOf lg (fst (MergeFreeRegions d r)) = pre @ ?f r # post"
        unfolding M using a p by (simp add: ListOf_UpdPartEntry l)
      have 2: "ListOf (\<not> lg) (fst (MergeFreeRegions d r)) = ListOf (\<not> lg) d"
        unfolding M using po p by (simp add: ListOf_UpdPartEntry upd_entry_absent)
      show ?thesis using 1 2 M pf nf by (auto simp: spec_merge_def)
    qed
  qed
qed

lemma spec_merge_region:
  assumes "distinct (map Addr (pre @ r # post))"
  shows "\<exists>f. find_entry (snd (spec_merge pre r post)) (fst (spec_merge pre r post)) = Some f \<and>
          \<not> IsPartitioned f \<and>
          StartSector f = (if free_before pre then StartSector (last pre) else StartSector r) \<and>
          SectorCount f =
            (if free_before pre \<and> free_after post
               then SectorCount (last pre) + (SectorCount r + SectorCount (hd post))
             else if free_before pre then SectorCount (last pre) + SectorCount r
             else if free_after post then SectorCount (hd post) + SectorCount r
             else SectorCount r) \<and>
          (\<not> free_before pre \<and> \<not> free_after post \<longrightarrow> snd (spec_merge pre r post) = Addr r)"
proof (cases "free_before pre")
  case pf: True
  then obtain pre' pr where pre': "pre = pre' @ [pr]" "\<not> IsPartitioned pr"
    unfolding free_before_def by (metis append_butlast_last_id)
  have n: "Addr pr \<notin> Addr ` set pre'" using assms unfolding pre' by auto
  show ?thesis
  proof (cases "free_after post")
    case True
    have "find_entry (Addr pr) (pre' @ pr\<lparr> SectorCount := SectorCount pr + (SectorCount r + SectorCount (hd post)) \<rparr> # tl post)
          = Some (pr\<lparr> SectorCount := SectorCount pr + (SectorCount r + SectorCount (hd post)) \<rparr>)"
      using n by (intro find_entry_at) auto
    then show ?thesis using pf True pre'
      by (auto simp: spec_merge_def free_before_def free_after_def)
  next
    case False
    have "find_entry (Addr pr) (pre' @ pr\<lparr> SectorCount := SectorCount pr + SectorCount r \<rparr> # post)
          = Some (pr\<lparr> SectorCount := SectorCount pr + SectorCount r \<rparr>)"
      using n by (intro find_entry_at) auto
    then show ?thesis using pf False pre'
      by (auto simp: spec_merge_def free_before_def free_after_def)
  qed
next
  case pf: False
  show ?thesis
  proof (cases "free_after post")
    case True
    then obtain nx post' where post': "post = nx # post'" "\<not> IsPartitioned nx"
      unfolding free_after_def by (cases post) auto
    have n: "Addr nx \<notin> Addr ` set pre" using assms unfolding post' by auto
    have "find_entry (Addr nx) (pre @ nx\<lparr> StartSector := StartSector r, SectorCount := SectorCount nx + SectorCount r \<rparr> # post')
          = Some (nx\<lparr> StartSector := StartSector r, SectorCount := SectorCount nx + SectorCount r \<rparr>)"
      using n by (intro find_entry_at) auto
    then show ?thesis using pf True post'
      by (auto simp: spec_merge_def free_before_def free_after_def)
  next
    case False
    let ?f = "\<lambda>x. x\<lparr> IsPartitioned := False, OnDiskPartitionNumber := 0, PartitionNumber := 0,
                        BootIndicator := False, PartitionType := PARTITION_ENTRY_UNUSED,
                        Volume := ZeroVolume \<rparr>"
    have n: "Addr r \<notin> Addr ` set pre" using assms by auto
    have "find_entry (Addr r) (pre @ ?f r # post) = Some (?f r)"
      using n by (intro find_entry_at) auto
    then show ?thesis using pf False
      by (auto simp: spec_merge_def free_before_def free_after_def)
  qed
qed

subsection \<open>Topology\<close>

lemma topo_strip: "topo (strip r) = topo r"
  by (simp add: topo_def strip_def)

lemma map_topo_strip:
  assumes "map strip xs' = map strip xs"
  shows "map topo xs' = map topo xs"
proof -
  have "map topo xs' = map topo (map strip xs')" by (simp add: topo_strip)
  also have "\<dots> = map topo (map strip xs)" using assms by simp
  also have "\<dots> = map topo xs" by (simp add: topo_strip)
  finally show ?thesis .
qed

lemma disk_topology_core:
  assumes "disk_core d' = disk_core d"
  shows "disk_topology d' = disk_topology d"
  using map_topo_strip[OF disk_core_fields(7)[OF assms]] map_topo_strip[OF disk_core_fields(8)[OF assms]]
  by (simp add: disk_topology_def)

lemma disk_topology_geom:
  assumes "disk_geom d' = disk_geom d"
  shows "disk_topology d' = disk_topology d"
proof -
  have "map topo (PrimaryPartList d') = map topo (PrimaryPartList d)"
    using disk_geom_core[OF assms] by (intro map_topo_strip) simp
  moreover have "map topo (LogicalPartList d') = map topo (LogicalPartList d)"
    using disk_geom_core[OF assms] by (intro map_topo_strip) simp
  ultimately show ?thesis by (simp add: disk_topology_def)
qed

lemma disk_topology_ListOf:
  "disk_topology d = (map topo (ListOf False d), map topo (ListOf True d))"
  by (simp add: disk_topology_def ListOf_def)

lemma disk_topology_disk_core: "disk_topology (disk_core d) = disk_topology d"
  by (simp add: disk_topology_def disk_core_def topo_strip)

lemma topology_AssignDriveLetters:
  "topology (AssignDriveLetters e L) = topology L"
proof -
  have "map disk_topology (DiskList (AssignDriveLetters e L)) =
        map disk_topology (map disk_core (DiskList (AssignDriveLetters e L)))"
    by (simp add: disk_topology_disk_core)
  also have "\<dots> = map disk_topology (map disk_core (DiskList L))"
    by (simp only: AssignDriveLetters_core)
  also have "\<dots> = map disk_topology (DiskList L)"
    by (simp add: disk_topology_disk_core)
  finally show ?thesis by (simp add: topology_def)
qed

lemma topology_SetDisk:
  "topology (SetDisk di d L) = (topology L)[di := disk_topology d]"
  by (simp add: topology_def SetDisk_def map_update)

lemma topology_edited:
  assumes "DiskList L0 = DiskList L"
  shows "topology (AssignDriveLetters e (SetDisk di (UpdateDiskLayout e a d) L0))
         = (topology L)[di := disk_topology d]"
proof -
  have "topology L0 = topology L" using assms by (simp add: topology_def)
  then show ?thesis
    using disk_topology_geom[OF UpdateDiskLayout_geom[of e a d]]
    by (simp add: topology_AssignDriveLetters topology_SetDisk)
qed

lemma topology_same_disk:
  assumes "di < length (DiskList L)" "disk_topology d = disk_topology (DiskList L ! di)"
  shows "(topology L)[di := disk_topology d] = topology L"
  using assms by (simp add: topology_def list_update_same_conv)

text \<open>A list that agrees with a known one up to \<open>strip\<close> splits in the same way.\<close>

lemma map_strip_split:
  assumes "map strip xs = map strip (pre @ r # post)"
  obtains pre' r' post' where "xs = pre' @ r' # post'"
    "map strip pre' = map strip pre" "strip r' = strip r" "map strip post' = map strip post"
proof -
  from assms have "map strip xs = map strip pre @ map strip (r # post)" by simp
  then have "\<exists>us vs. xs = us @ vs \<and> map strip pre = map strip us \<and>
               map strip (r # post) = map strip vs"
    by (simp only: map_eq_append_conv)
  then obtain us vs where u: "xs = us @ vs" "map strip pre = map strip us"
    "map strip (r # post) = map strip vs"
    by blast
  from u(3) obtain r' post' where v: "vs = r' # post'" "strip r' = strip r"
    "map strip post' = map strip post"
    by (cases vs) auto
  show ?thesis using that[of us r' post'] u v by simp
qed

lemma map_strip_Addr:
  assumes "map strip xs' = map strip xs"
  shows "map Addr xs' = map Addr xs"
proof -
  have "map Addr xs' = map Addr (map strip xs')" by (simp add: strip_fields)
  also have "\<dots> = map Addr (map strip xs)" using assms by simp
  also have "\<dots> = map Addr xs" by (simp add: strip_fields)
  finally show ?thesis .
qed

lemma map_strip_last:
  assumes "map strip xs' = map strip xs" "xs \<noteq> []"
  shows "strip (last xs') = strip (last xs)"
proof -
  have "xs' \<noteq> []" using assms by auto
  then have "strip (last xs') = last (map strip xs')" by (simp add: last_map)
  also have "\<dots> = last (map strip xs)" using assms by simp
  also have "\<dots> = strip (last xs)" using assms(2) by (simp add: last_map)
  finally show ?thesis .
qed

lemma map_strip_hd:
  assumes "map strip xs' = map strip xs" "xs \<noteq> []"
  shows "strip (hd xs') = strip (hd xs)"
proof -
  have "xs' \<noteq> []" using assms by auto
  then have "strip (hd xs') = hd (map strip xs')" by (simp add: hd_map)
  also have "\<dots> = hd (map strip xs)" using assms by simp
  also have "\<dots> = strip (hd xs)" using assms(2) by (simp add: hd_map)
  finally show ?thesis .
qed

lemma free_before_strip:
  assumes "map strip xs' = map strip xs"
  shows "free_before xs' = free_before xs"
proof (cases "xs = []")
  case True then show ?thesis using assms by (simp add: free_before_def)
next
  case False
  then have "xs' \<noteq> []" using assms by auto
  moreover have "IsPartitioned (last xs') = IsPartitioned (last xs)"
    using strip_eq_fields(5)[OF map_strip_last[OF assms False]] .
  ultimately show ?thesis using False by (simp add: free_before_def)
qed

lemma free_after_strip:
  assumes "map strip xs' = map strip xs"
  shows "free_after xs' = free_after xs"
proof (cases "xs = []")
  case True then show ?thesis using assms by (simp add: free_after_def)
next
  case False
  then have "xs' \<noteq> []" using assms by auto
  moreover have "IsPartitioned (hd xs') = IsPartitioned (hd xs)"
    using strip_eq_fields(5)[OF map_strip_hd[OF assms False]] .
  ultimately show ?thesis using False by (simp add: free_after_def)
qed


subsection \<open>Creating a partition and deleting it again\<close>

lemma SizeToSectorCount_le:
  "SizeToSectorCount d r sz = Some c \<Longrightarrow> c \<le> SectorCount r"
  by (auto simp: SizeToSectorCount_def Let_def split: if_splits)

lemma SizeToSectorCount_zero:
  "SizeToSectorCount d r sz = Some 0 \<Longrightarrow> SectorCount r = 0"
  by (auto simp: SizeToSectorCount_def Let_def split: if_splits)

lemma InitializePartitionEntry_at_zero:
  assumes l: "ListOf lg d = pre @ r # post" and p: "Addr r = p"
    and pre: "p \<notin> Addr ` set pre" and post: "p \<notin> Addr ` set post"
    and other: "p \<notin> Addr ` set (ListOf (\<not> lg) d)"
  shows "InitializePartitionEntry e a d p 0 = (True, UpdPartEntry p (ConvertToNewPartition e) d) \<and>
         ListOf lg (UpdPartEntry p (ConvertToNewPartition e) d) = pre @ ConvertToNewPartition e r # post \<and>
         ListOf (\<not> lg) (UpdPartEntry p (ConvertToNewPartition e) d) = ListOf (\<not> lg) d"
proof -
  have look: "PartEntryOf d p = Some r" using l p pre other by (rule PartEntryOf_at)
  have I: "InitializePartitionEntry e a d p 0 = (True, UpdPartEntry p (ConvertToNewPartition e) d)"
    using look by (simp add: InitializePartitionEntry_def)
  have 1: "ListOf lg (UpdPartEntry p (ConvertToNewPartition e) d) = pre @ ConvertToNewPartition e r # post"
    unfolding ListOf_UpdPartEntry l using p pre post by (rule upd_entry_at)
  have 2: "ListOf (\<not> lg) (UpdPartEntry p (ConvertToNewPartition e) d) = ListOf (\<not> lg) d"
    unfolding ListOf_UpdPartEntry using other by (rule upd_entry_absent)
  show ?thesis using I 1 2 by simp
qed

text \<open>The two shapes of the list after a successful \<^verbatim>\<open>InitializePartitionEntry\<close>.\<close>

lemma InitializePartitionEntry_shapes:
  assumes l: "ListOf lg d = pre @ r # post" and p: "Addr r = p"
    and pre: "p \<notin> Addr ` set pre" and post: "p \<notin> Addr ` set post"
    and other: "p \<notin> Addr ` set (ListOf (\<not> lg) d)"
    and a: "a \<noteq> p" and c: "c \<le> SectorCount r"
    and ini: "InitializePartitionEntry e a d p c = (True, d1)"
  shows "ListOf (\<not> lg) d1 = ListOf (\<not> lg) d \<and>
         (ListOf lg d1 = pre @ ConvertToNewPartition e r # post \<or>
          (\<exists>ne. ListOf lg d1 =
             pre @ ConvertToNewPartition e (r\<lparr> SectorCount := ne - StartSector r \<rparr>)
                 # BlankRegion a ne (StartSector r + SectorCount r - ne) (LogicalPartition r) # post))"
proof (cases "c = 0")
  case True
  then show ?thesis
    using InitializePartitionEntry_at_zero[OF l p pre post other, of e a] ini by simp
next
  case False
  then have c0: "0 < c" by (simp add: word_greater_zero_iff)
  note A = InitializePartitionEntry_at[OF l p pre post other a c0 c, of e]
  let ?ne = "AlignDown (StartSector r + c) (SectorAlignment d)"
  show ?thesis
  proof (cases "?ne = StartSector r + SectorCount r")
    case True
    from A(1)[OF True] ini show ?thesis by simp
  next
    case w: False
    have "AllocOk e a" using A(3)[OF w] ini by auto
    from A(2)[OF w this] ini show ?thesis by auto
  qed
qed

lemma strip_eq_volume:
  assumes "strip r' = strip r"
  shows "FileSystem (Volume r') = FileSystem (Volume r)"
proof -
  have "Volume (strip r') = Volume (strip r)" using assms by simp
  then have "FileSystem ((Volume r')\<lparr> DriveLetter := 0 \<rparr>) = FileSystem ((Volume r)\<lparr> DriveLetter := 0 \<rparr>)"
    by (simp add: strip_def)
  then show ?thesis by simp
qed

lemma topo_strip_eq:
  assumes "strip r' = strip r"
  shows "topo r' = topo r"
  using topo_strip[of r'] topo_strip[of r] assms by simp


lemma DeletePartition_eq:
  assumes "di < length (DiskList L)" "PartEntryOf (DiskList L ! di) p = Some r0" "IsPartitioned r0"
  shows "DeletePartition e L (Some (di, p)) =
     (True,
      AssignDriveLetters e
        (SetDisk di
           (UpdateDiskLayout e (NextAddr L + 2)
              (fst (MergeFreeRegions (fst (DeleteDismount e (DiskList L ! di) r0)) r0)))
           ((if SystemPartition L = Some (di, p) then L\<lparr> SystemPartition := None \<rparr> else L)
              \<lparr> NextAddr := NextAddr L + 3,
                Dismounted := Dismounted L @ snd (DeleteDismount e (DiskList L ! di) r0) \<rparr>)),
      Some (di, snd (MergeFreeRegions (fst (DeleteDismount e (DiskList L ! di) r0)) r0)))"
  using assms unfolding DeletePartition_def by (simp add: Let_def split_beta)

lemma UpdateDiskLayout_style_cases:
  "DiskStyle (UpdateDiskLayout e a d) = DiskStyle d \<or>
   DiskStyle (UpdateDiskLayout e a d) = PARTITION_STYLE_MBR"
  using UpdateDiskLayout_cases[of e a d] ReAllocateLayoutBuffer_geom[of e a d]
  by (auto simp: disk_geom_def disk_core_def)

lemma create_delete_disk:
  assumes l: "ListOf lg d = pre @ r # post" and p: "Addr r = p"
    and dist: "distinct (map Addr (ListOf lg d))"
    and other: "\<forall>x\<in>set (ListOf lg d). Addr x \<notin> Addr ` set (ListOf (\<not> lg) d)"
    and fresh: "a \<notin> Addr ` set (ListOf lg d)" "a \<notin> Addr ` set (ListOf (\<not> lg) d)"
    and free: "\<not> IsPartitioned r"
    and nb: "\<not> free_before pre" "\<not> free_after post"
    and c: "c \<le> SectorCount r"
    and ini: "InitializePartitionEntry e a d p c = (True, d1)"
    and A: "map strip (ListOf lg dA) = map strip (ListOf lg d1)"
           "map strip (ListOf (\<not> lg) dA) = map strip (ListOf (\<not> lg) d1)"
    and sel: "(DiskStyle dA = PARTITION_STYLE_MBR \<and> LogicalPartition r) = lg"
    and ext: "ExtendedPartition dA \<noteq> Some p"
  shows "\<exists>rA. PartEntryOf dA p = Some rA \<and> IsPartitioned rA \<and>
              DeleteDismount e dA rA = (dA, []) \<and>
              disk_topology (fst (MergeFreeRegions dA rA)) = disk_topology d"
proof -
  have pre: "p \<notin> Addr ` set pre" and post: "p \<notin> Addr ` set post"
    using dist p unfolding l by auto
  have po: "p \<notin> Addr ` set (ListOf (\<not> lg) d)" using other l p by auto
  have ap: "a \<noteq> p" using fresh(1) p unfolding l by auto
  note S = InitializePartitionEntry_shapes[OF l p pre post po ap c ini]
  have O: "ListOf (\<not> lg) d1 = ListOf (\<not> lg) d" using S by simp
  define whole where "whole \<longleftrightarrow> ListOf lg d1 = pre @ ConvertToNewPartition e r # post"
  obtain r' T where L1: "ListOf lg d1 = pre @ r' # T @ post"
    and r': "Addr r' = p" "IsPartitioned r'" "FileSystem (Volume r') = []"
            "LogicalPartition r' = LogicalPartition r" "StartSector r' = StartSector r"
    and T: "(T = [] \<and> SectorCount r' = SectorCount r) \<or>
            (\<exists>t. T = [t] \<and> Addr t = a \<and> \<not> IsPartitioned t \<and>
                 SectorCount t + SectorCount r' = SectorCount r)"
  proof (cases whole)
    case True
    show ?thesis
      by (rule that[of "ConvertToNewPartition e r" "[]"])
         (use True p in \<open>simp_all add: whole_def ConvertToNewPartition_def ZeroVolume_def\<close>)
  next
    case False
    then obtain ne where n: "ListOf lg d1 =
             pre @ ConvertToNewPartition e (r\<lparr> SectorCount := ne - StartSector r \<rparr>)
                 # BlankRegion a ne (StartSector r + SectorCount r - ne) (LogicalPartition r) # post"
      using S unfolding whole_def by blast
    show ?thesis
      by (rule that[of "ConvertToNewPartition e (r\<lparr> SectorCount := ne - StartSector r \<rparr>)"
             "[BlankRegion a ne (StartSector r + SectorCount r - ne) (LogicalPartition r)]"])
         (use n p in \<open>simp_all add: ConvertToNewPartition_def ZeroVolume_def BlankRegion_def\<close>)
  qed
  have TA: "set (map Addr T) \<subseteq> {a}" "distinct (map Addr T)" using T by auto
  from A(1)[unfolded L1] obtain preA rA restA where
    LA: "ListOf lg dA = preA @ rA # restA" and sp: "map strip preA = map strip pre"
    and sr: "strip rA = strip r'" and srest: "map strip restA = map strip (T @ post)"
    by (rule map_strip_split)
  have rA: "Addr rA = p" "IsPartitioned rA" "FileSystem (Volume rA) = []"
    "LogicalPartition rA = LogicalPartition r" "StartSector rA = StartSector r"
    "SectorCount rA = SectorCount r'"
    using strip_eq_fields[OF sr] strip_eq_volume[OF sr] r' by simp_all
  have addrs: "map Addr (ListOf lg dA) = map Addr pre @ p # map Addr T @ map Addr post"
    using map_strip_Addr[OF A(1)] L1 r' by simp
  have addrsO: "map Addr (ListOf (\<not> lg) dA) = map Addr (ListOf (\<not> lg) d)"
    using map_strip_Addr[OF A(2)] O by simp
  have setO: "Addr ` set (ListOf (\<not> lg) dA) = Addr ` set (ListOf (\<not> lg) d)"
    using arg_cong[OF addrsO, of set] by simp
  have setA: "Addr ` set (ListOf lg dA) \<subseteq> insert a (Addr ` set (ListOf lg d))"
    using arg_cong[OF addrs, of set] TA(1) p unfolding l by auto
  have distA: "distinct (map Addr (ListOf lg dA))"
    unfolding addrs using dist fresh(1) TA p unfolding l by auto
  have otherA: "\<forall>x\<in>set (ListOf lg dA). Addr x \<notin> Addr ` set (ListOf (\<not> lg) dA)"
  proof
    fix x assume x: "x \<in> set (ListOf lg dA)"
    then have "Addr x \<in> insert a (Addr ` set (ListOf lg d))" using setA by blast
    then have "Addr x \<notin> Addr ` set (ListOf (\<not> lg) d)" using other fresh(2) by auto
    then show "Addr x \<notin> Addr ` set (ListOf (\<not> lg) dA)" unfolding setO .
  qed
  have preA: "p \<notin> Addr ` set preA"
    using distA rA(1) unfolding LA by auto
  have poA: "p \<notin> Addr ` set (ListOf (\<not> lg) dA)" unfolding setO by (rule po)
  have look: "PartEntryOf dA p = Some rA" using LA rA(1) preA poA by (rule PartEntryOf_at)
  have DD: "DeleteDismount e dA rA = (dA, [])"
    using ext rA by (simp add: DeleteDismount_def IsMountedPartition_def)
  have selA: "(DiskStyle dA = PARTITION_STYLE_MBR \<and> LogicalPartition rA) = lg"
    using sel rA by simp
  note M = MergeFreeRegions_at[OF LA rA(1) distA otherA selA]
  have fb: "\<not> free_before preA" using free_before_strip[OF sp] nb by simp
  have tp: "map topo preA = map topo pre" using sp by (rule map_topo_strip)
  have main: "map topo (fst (spec_merge preA rA restA)) = map topo (pre @ r # post)"
    using T
  proof (elim disjE conjE exE)
    assume t: "T = []" and cnt: "SectorCount r' = SectorCount r"
    have sq: "map strip restA = map strip post" using srest t by simp
    have fa: "\<not> free_after restA" using free_after_strip[OF sq] nb by simp
    have tq: "map topo restA = map topo post" using sq by (rule map_topo_strip)
    show ?thesis
      using fb fa tp tq rA cnt free
      by (auto simp: spec_merge_def Let_def free_before_def free_after_def topo_def)
  next
    fix t assume t: "T = [t]" and ta: "Addr t = a" "\<not> IsPartitioned t"
      and cnt: "SectorCount t + SectorCount r' = SectorCount r"
    from srest t obtain tA postA where R: "restA = tA # postA" and st: "strip tA = strip t"
      and sq: "map strip postA = map strip post"
      by (cases restA) auto
    have tA: "\<not> IsPartitioned tA" "SectorCount tA = SectorCount t"
      using strip_eq_fields[OF st] ta by simp_all
    have tq: "map topo postA = map topo post" using sq by (rule map_topo_strip)
    show ?thesis
      using fb tp tq rA cnt free tA R
      by (auto simp: spec_merge_def Let_def free_before_def topo_def)
  qed
  have 1: "map topo (ListOf lg (fst (MergeFreeRegions dA rA))) = map topo (ListOf lg d)"
    using M main l by simp
  have "map topo (ListOf (\<not> lg) dA) = map topo (ListOf (\<not> lg) d1)"
    using A(2) by (rule map_topo_strip)
  then have 2: "map topo (ListOf (\<not> lg) (fst (MergeFreeRegions dA rA))) = map topo (ListOf (\<not> lg) d)"
    using M O by simp
  have "disk_topology (fst (MergeFreeRegions dA rA)) = disk_topology d"
    using 1 2 by (cases lg) (simp_all add: disk_topology_ListOf)
  then show ?thesis using look rA(2) DD by blast
qed

subsection \<open>Sector arithmetic\<close>








subsection \<open>Lists that agree on addresses and extents\<close>






subsection \<open>Replacing consecutive regions of a list\<close>






subsection \<open>Well-formed disks\<close>











subsection \<open>Creating a partition keeps a disk well-formed\<close>



















subsection \<open>Deleting a partition keeps a disk well-formed\<close>










subsection \<open>Sequences of editor operations\<close>




subsection \<open>Insertions that overlap\<close>







lemma sorted_by_start_map:
  "sorted_by_start xs = sorted_wrt (\<le>) (map StartSector xs)"
  by (simp add: sorted_by_start_def sorted_wrt_map)

lemma list_ok_fresh_list: "list_ok fresh_list"
  by (simp add: list_ok_def fresh_list_def free_at_def disk_ok_def list_inv_def chain_def
        region_ok_def BlankRegion_def)



section \<open>Supported system partitions\<close>

text \<open>What \<^verbatim>\<open>IsSupportedActivePartition\<close> computes: the partition type enters through the
  container test only.\<close>

lemma IsSupportedActivePartition_iff:
  "IsSupportedActivePartition r \<longleftrightarrow>
     \<not> IsContainerPartition (PartitionType r) \<and>
     (FormatState (Volume r) = Unformatted \<or>
      FormatState (Volume r) = Formatted \<and>
        (wcsicmp_eq (FileSystem (Volume r)) ''FAT'' \<or> wcsicmp_eq (FileSystem (Volume r)) ''FAT32'' \<or>
         wcsicmp_eq (FileSystem (Volume r)) ''BTRFS''))"
  by (auto simp: IsSupportedActivePartition_def Let_def)

text \<open>
  Claim C5: a partitioned region is supported if and only if it is not a container, its
  volume is \<^verbatim>\<open>Unformatted\<close> or \<^verbatim>\<open>Formatted\<close> with FAT, FAT32 or BTRFS, and its type is not
  \<^verbatim>\<open>PARTITION_IFS\<close>. The source ends with a test of \<^verbatim>\<open>PARTITION_IFS\<close> that no path reaches:
  a partition of that type holding a mounted FAT volume is reported as supported.
\<close>

theorem IsSupportedActivePartition_IFS_supported:
  "IsPartitioned ifs_fat_region \<and> PartitionType ifs_fat_region = PARTITION_IFS \<and>
   IsSupportedActivePartition ifs_fat_region"
  by (simp add: ifs_fat_region_def IsSupportedActivePartition_def IsContainerPartition_def
        wcsicmp_eq_def Let_def)

section \<open>Creating a partition splits the free region\<close>

text \<open>
  Claim C1: for a free region and a requested sector count that does not exceed the
  region's, \<^verbatim>\<open>CreatePartition\<close> and \<^verbatim>\<open>CreateExtendedPartition\<close> compute
  \<open>new_end = AlignDown (start + count) alignment\<close>; if \<open>new_end\<close> is the region's end the whole
  region is consumed, otherwise a trailing free region \<open>[new_end, end)\<close> with the same logical
  flag is inserted and the region's sector count shrinks to \<open>new_end - start\<close>.

  \<^verbatim>\<open>InitializePartitionEntry\<close> does not compare \<open>new_end\<close> with the start of the region. On the
  disk a scan of an empty 10 GiB disk yields (free region from sector 2048, alignment 63)
  a request of 512 bytes, one sector, gives \<open>new_end = AlignDown 2049 63 = 2016\<close>, which lies
  below the start. Both calls succeed; the partition keeps its start 2048 and gets the
  sector count \<open>2016 - 2048\<close> in \<^verbatim>\<open>ULONGLONG\<close>, that is \<open>2\<^sup>6\<^sup>4 - 32\<close>, more than the 20969455
  sectors of the region it was cut from; and the free region linked behind it starts at
  2016, before the partition, with 20969487 sectors. The logical space of the extended
  partition gets the count \<open>2\<^sup>6\<^sup>4 - 32 - 63\<close>.
\<close>

theorem create_below_alignment_wraps:
  "map extent (PrimaryPartList (DiskList fresh_list ! 0)) = [(2048, 20969455, False, False)] \<and>
   SectorAlignment (DiskList fresh_list ! 0) = 63 \<and>
   SizeToSectorCount (DiskList fresh_list ! 0) (BlankRegion 0 2048 20969455 False) 512 = Some 1 \<and>
   AlignDown (2048 + 1) 63 = 2016 \<and>
   fst (CreatePartition env0 fresh_list (Some (0, 0)) 512) \<and>
   map extent (PrimaryPartList (DiskList (snd (CreatePartition env0 fresh_list (Some (0, 0)) 512)) ! 0)) =
     [(2048, 0xFFFFFFFFFFFFFFE0, True, False), (2016, 20969487, False, False)] \<and>
   fst (CreateExtendedPartition env0 fresh_list (Some (0, 0)) 512) \<and>
   map extent (PrimaryPartList (DiskList (snd (CreateExtendedPartition env0 fresh_list (Some (0, 0)) 512)) ! 0)) =
     [(2048, 0xFFFFFFFFFFFFFFE0, True, False), (2016, 20969487, False, False)] \<and>
   map extent (LogicalPartList (DiskList (snd (CreateExtendedPartition env0 fresh_list (Some (0, 0)) 512)) ! 0)) =
     [(2111, 0xFFFFFFFFFFFFFFA1, False, True)]"
proof -
  have 1: "map extent (PrimaryPartList (DiskList fresh_list ! 0)) = [(2048, 20969455, False, False)]"
    "SectorAlignment (DiskList fresh_list ! 0) = 63"
    "SizeToSectorCount (DiskList fresh_list ! 0) (BlankRegion 0 2048 20969455 False) 512 = Some 1"
    by (simp_all add: fresh_list_def free_at_def extent_def BlankRegion_def SizeToSectorCount_def
          GetPartEntrySizeInBytes_def)
  have 2: "AlignDown (2048 + 1) 63 = 2016" by (simp add: AlignDown_def)
  have 3: "fst (CreatePartition env0 fresh_list (Some (0, 0)) 512)" by code_simp
  have 4: "map extent (PrimaryPartList (DiskList (snd (CreatePartition env0 fresh_list (Some (0, 0)) 512)) ! 0)) =
     [(2048, 0xFFFFFFFFFFFFFFE0, True, False), (2016, 20969487, False, False)]" by code_simp
  have 5: "fst (CreateExtendedPartition env0 fresh_list (Some (0, 0)) 512)" by code_simp
  have 6: "map extent (PrimaryPartList (DiskList (snd (CreateExtendedPartition env0 fresh_list (Some (0, 0)) 512)) ! 0)) =
     [(2048, 0xFFFFFFFFFFFFFFE0, True, False), (2016, 20969487, False, False)]" by code_simp
  have 7: "map extent (LogicalPartList (DiskList (snd (CreateExtendedPartition env0 fresh_list (Some (0, 0)) 512)) ! 0)) =
     [(2111, 0xFFFFFFFFFFFFFFA1, False, True)]" by code_simp
  show ?thesis using 1 2 3 4 5 6 7 by simp
qed

section \<open>Sorted lists without overlap\<close>

text \<open>On the fresh disk a request of one sector ends the partition below its start (see the
  section on splitting): the primary list is then no longer sorted. The condition
  \<open>op_fits\<close> leaves that call out.\<close>

lemma create_below_alignment_unsorted:
  "list_ok fresh_list \<and> \<not> op_fits fresh_list (OpCreate (0, 0) 512) \<and>
   \<not> sorted_by_start (PrimaryPartList (DiskList (editor_step env0 fresh_list (OpCreate (0, 0) 512)) ! 0))"
proof -
  have 1: "\<not> op_fits fresh_list (OpCreate (0, 0) 512)"
    by code_simp
  have "map StartSector (PrimaryPartList (DiskList (editor_step env0 fresh_list (OpCreate (0, 0) 512)) ! 0)) =
        [2048, 2016]"
    by code_simp
  then have 2: "\<not> sorted_by_start (PrimaryPartList (DiskList (editor_step env0 fresh_list (OpCreate (0, 0) 512)) ! 0))"
    by (simp add: sorted_by_start_map)
  show ?thesis using list_ok_fresh_list 1 2 by simp
qed




section \<open>Creating a partition and deleting it again\<close>

text \<open>
  Claim C3: for a free region and a size that \<^verbatim>\<open>CreatePartition\<close> accepts, the call followed
  by \<^verbatim>\<open>DeletePartition\<close> on the partition just created (it has the address of the region)
  succeeds and gives back the region topology of the state before: the start sector, the
  sector count and \<^verbatim>\<open>IsPartitioned\<close> of every region of every list of every disk, in order.
  The free region is the one at \<open>p\<close> in its list, its \<^verbatim>\<open>LogicalPartition\<close> flag is that of the
  list, and a logical list belongs to an MBR disk; the regions of the disk have distinct
  addresses and the heap hands out a new one; the neighbours of the region in its list
  are not free, as after a scan or a deletion; and the region is not the one the disk records
  as its extended partition. The sector counts are compared as \<^verbatim>\<open>ULONGLONG\<close>: the count of
  the partition and that of the free region behind it add up to the count of the region
  also when the aligned end lies below the start.
\<close>

theorem create_then_delete_restores_topology:
  assumes di: "di < length (DiskList L)" and d: "DiskList L ! di = d"
    and l: "ListOf lg d = pre @ r # post" and p: "Addr r = p"
    and dist: "distinct (map Addr (PrimaryPartList d @ LogicalPartList d))"
    and fresh: "NextAddr L \<notin> Addr ` set (PrimaryPartList d @ LogicalPartList d)"
    and flag: "LogicalPartition r = lg" and style: "lg \<Longrightarrow> DiskStyle d = PARTITION_STYLE_MBR"
    and nb: "\<not> free_before pre" "\<not> free_after post"
    and ext: "ExtendedPartition d \<noteq> Some p"
    and cr: "CreatePartition e L (Some (di, p)) sz = (True, L1)"
  shows "\<exists>L2 q. DeletePartition e L1 (Some (di, p)) = (True, L2, Some (di, q)) \<and>
                topology L2 = topology L"
proof -
  from cr obtain r0 c d1 where
    r0: "PartEntryOf (DiskList L ! di) p = Some r0" and nfree: "\<not> IsPartitioned r0" and
    c: "SizeToSectorCount (DiskList L ! di) r0 sz = Some c" and
    ini: "InitializePartitionEntry e (NextAddr L) (DiskList L ! di) p c = (True, d1)" and
    L1: "L1 = AssignDriveLetters e (SetDisk di (UpdateDiskLayout e (NextAddr L + 2) d1)
               (L\<lparr> NextAddr := NextAddr L + 3 \<rparr>))"
    by (rule CreatePartition_success)
  have distl: "distinct (map Addr (ListOf lg d))"
    using dist by (cases lg) (simp_all add: ListOf_def)
  have other: "\<forall>x\<in>set (ListOf lg d). Addr x \<notin> Addr ` set (ListOf (\<not> lg) d)"
    using dist by (cases lg) (auto simp: ListOf_def)
  have fresh1: "NextAddr L \<notin> Addr ` set (ListOf lg d)"
    and fresh2: "NextAddr L \<notin> Addr ` set (ListOf (\<not> lg) d)"
    using fresh by (cases lg; auto simp: ListOf_def)+
  have pre: "p \<notin> Addr ` set pre" using distl p unfolding l by auto
  have po: "p \<notin> Addr ` set (ListOf (\<not> lg) d)" using other l p by auto
  have look: "PartEntryOf d p = Some r" using l p pre po by (rule PartEntryOf_at)
  have rr: "r0 = r" using r0 look d by simp
  have free: "\<not> IsPartitioned r" using nfree rr by simp
  have cle: "c \<le> SectorCount r" using SizeToSectorCount_le[OF c] rr by simp
  have ini': "InitializePartitionEntry e (NextAddr L) d p c = (True, d1)" using ini d by simp
  define dA where "dA = DiskList L1 ! di"
  have A1: "map strip (ListOf lg dA) = map strip (ListOf lg d1)"
    unfolding dA_def L1 using di by (intro edited_lists) simp_all
  have A2: "map strip (ListOf (\<not> lg) dA) = map strip (ListOf (\<not> lg) d1)"
    unfolding dA_def L1 using di by (intro edited_lists) simp_all
  have core: "disk_core dA = disk_core (UpdateDiskLayout e (NextAddr L + 2) d1)"
    unfolding dA_def L1 using di by (intro edited_disk_gen) simp_all
  have d1f: "DiskStyle d1 = DiskStyle d" "ExtendedPartition d1 = ExtendedPartition d"
    using InitializePartitionEntry_fields(3,5)[of e "NextAddr L" d p c] ini' by simp_all
  have extA: "ExtendedPartition dA \<noteq> Some p"
    using disk_core_fields(5)[OF core] disk_geom_core[OF UpdateDiskLayout_geom[of e "NextAddr L + 2" d1]]
      d1f ext by simp
  have styA: "DiskStyle dA = DiskStyle d \<or> DiskStyle dA = PARTITION_STYLE_MBR"
    using disk_core_fields(3)[OF core] UpdateDiskLayout_style_cases[of e "NextAddr L + 2" d1] d1f
    by simp
  have sel: "(DiskStyle dA = PARTITION_STYLE_MBR \<and> LogicalPartition r) = lg"
    using styA flag style by auto
  from create_delete_disk[OF l p distl other fresh1 fresh2 free nb cle ini' A1 A2 sel extA]
  obtain rA where look: "PartEntryOf dA p = Some rA" and part: "IsPartitioned rA"
    and DD: "DeleteDismount e dA rA = (dA, [])"
    and tp: "disk_topology (fst (MergeFreeRegions dA rA)) = disk_topology d"
    by blast
  have len: "di < length (DiskList L1)"
    unfolding L1 using di by (simp add: AssignDriveLetters_length SetDisk_def)
  let ?L0 = "(if SystemPartition L1 = Some (di, p) then L1\<lparr> SystemPartition := None \<rparr> else L1)
              \<lparr> NextAddr := NextAddr L1 + 3, Dismounted := Dismounted L1 @ [] \<rparr>"
  let ?L2 = "AssignDriveLetters e
        (SetDisk di (UpdateDiskLayout e (NextAddr L1 + 2) (fst (MergeFreeRegions dA rA))) ?L0)"
  have D: "DeletePartition e L1 (Some (di, p)) =
             (True, ?L2, Some (di, snd (MergeFreeRegions dA rA)))"
    using DeletePartition_eq[OF len look[unfolded dA_def] part, of e] DD by (simp add: dA_def)
  have t1: "topology L1 = (topology L)[di := disk_topology d1]"
    unfolding L1 by (intro topology_edited) simp
  have "topology ?L2 = (topology L1)[di := disk_topology (fst (MergeFreeRegions dA rA))]"
    by (intro topology_edited) simp
  also have "\<dots> = (topology L)[di := disk_topology d]"
    unfolding t1 tp by simp
  also have "\<dots> = topology L"
    using di d by (intro topology_same_disk) simp_all
  finally have "topology ?L2 = topology L" .
  then show ?thesis using D by blast
qed

theorem create_then_delete_restores_topology_witness:
  "fst (CreatePartition env0 fresh_list (Some (0, 0)) 0x100000000) \<and>
   topology (snd (CreatePartition env0 fresh_list (Some (0, 0)) 0x100000000)) =
     [([(2048, 8388607, True), (8390655, 12580848, False)], [])] \<and>
   fst (DeletePartition env0 (snd (CreatePartition env0 fresh_list (Some (0, 0)) 0x100000000))
          (Some (0, 0))) \<and>
   topology (fst (snd (DeletePartition env0
       (snd (CreatePartition env0 fresh_list (Some (0, 0)) 0x100000000)) (Some (0, 0))))) =
     [([(2048, 20969455, False)], [])] \<and>
   topology fresh_list = [([(2048, 20969455, False)], [])]"
proof -
  let ?d = "DiskList fresh_list ! 0" and ?r = "BlankRegion 0 2048 20969455 False"
  let ?A = "CreatePartition env0 fresh_list (Some (0, 0)) 0x100000000"
  have f: "0 < length (DiskList fresh_list)" "ListOf False ?d = [] @ ?r # []" "Addr ?r = 0"
    "distinct (map Addr (PrimaryPartList ?d @ LogicalPartList ?d))"
    "NextAddr fresh_list \<notin> Addr ` set (PrimaryPartList ?d @ LogicalPartList ?d)"
    "LogicalPartition ?r = False"
    "\<not> free_before []" "\<not> free_after []" "ExtendedPartition ?d \<noteq> Some 0"
    by (simp_all add: fresh_list_def free_at_def ListOf_def BlankRegion_def free_before_def
          free_after_def)
  have a: "fst ?A" by code_simp
  have ha: "?A = (True, snd ?A)" using a by (simp add: prod_eq_iff)
  have t0: "topology fresh_list = [([(2048, 20969455, False)], [])]"
    by (simp add: topology_def disk_topology_def topo_def fresh_list_def free_at_def BlankRegion_def)
  have t1: "topology (snd ?A) = [([(2048, 8388607, True), (8390655, 12580848, False)], [])]"
    by code_simp
  from create_then_delete_restores_topology[OF f(1) refl f(2,3,4,5,6) _ f(7,8,9) ha]
  obtain L2 q where D: "DeletePartition env0 (snd ?A) (Some (0, 0)) = (True, L2, Some (0, q))"
    and t: "topology L2 = topology fresh_list" by auto
  show ?thesis using a t0 t1 D t by simp
qed

section \<open>Deleting the extended partition\<close>

text \<open>
  Claim C4: \<^verbatim>\<open>DeletePartition\<close> on the disk's extended partition walks the logical list
  dismounting every mounted logical volume, frees every logical region, clears the
  disk's \<^verbatim>\<open>ExtendedPartition\<close> pointer, and returns a free region that spans from the
  container's former start to its former end. Proved here: the logical list is empty and
  the pointer cleared afterwards, and the free region returned is the result of merging
  the container's region with its free neighbours in the primary list, hence the
  container's own region with its former start and length exactly when neither neighbour
  is free. The statement says nothing on the dismounting.
\<close>

theorem delete_extended_partition:
  assumes di: "di < length (DiskList L)" and d: "DiskList L ! di = d"
    and l: "PrimaryPartList d = pre @ r # post" and p: "Addr r = p"
    and dist: "distinct (map Addr (PrimaryPartList d))"
    and part: "IsPartitioned r" and prim: "\<not> LogicalPartition r"
    and ext: "ExtendedPartition d = Some p"
  shows "\<exists>L' q f. DeletePartition e L (Some (di, p)) = (True, L', Some (di, q)) \<and>
           LogicalPartList (DiskList L' ! di) = [] \<and>
           ExtendedPartition (DiskList L' ! di) = None \<and>
           PartEntryOf (DiskList L' ! di) q = Some f \<and> \<not> IsPartitioned f \<and>
           StartSector f = (if free_before pre then StartSector (last pre) else StartSector r) \<and>
           SectorCount f =
             (if free_before pre \<and> free_after post
                then SectorCount (last pre) + (SectorCount r + SectorCount (hd post))
              else if free_before pre then SectorCount (last pre) + SectorCount r
              else if free_after post then SectorCount (hd post) + SectorCount r
              else SectorCount r) \<and>
           (\<not> free_before pre \<and> \<not> free_after post \<longrightarrow> q = p)"
proof -
  have pre: "p \<notin> Addr ` set pre" using dist p unfolding l by auto
  have "find_entry p (PrimaryPartList d) = Some r"
    unfolding l using p pre by (rule find_entry_at)
  then have look: "PartEntryOf d p = Some r"
    unfolding PartEntryOf_def by (simp add: find_entry_append)
  let ?d1 = "d\<lparr> LogicalPartList := [], ExtendedPartition := None \<rparr>"
  have D: "fst (DeleteDismount e d r) = ?d1"
    using ext p by (simp add: DeleteDismount_def)
  have l1: "ListOf False ?d1 = pre @ r # post" using l by (simp add: ListOf_def)
  have M: "ListOf False (fst (MergeFreeRegions ?d1 r)) = fst (spec_merge pre r post) \<and>
         ListOf (\<not> False) (fst (MergeFreeRegions ?d1 r)) = ListOf (\<not> False) ?d1 \<and>
         snd (MergeFreeRegions ?d1 r) = snd (spec_merge pre r post)"
    using l1 p
  proof (rule MergeFreeRegions_at)
    show "distinct (map Addr (ListOf False ?d1))" using dist by (simp add: ListOf_def)
    show "\<forall>x\<in>set (ListOf False ?d1). Addr x \<notin> Addr ` set (ListOf (\<not> False) ?d1)"
      by (simp add: ListOf_def)
    show "(DiskStyle ?d1 = PARTITION_STYLE_MBR \<and> LogicalPartition r) = False" using prim by simp
  qed
  let ?d2 = "fst (MergeFreeRegions ?d1 r)"
  let ?q = "snd (spec_merge pre r post)"
  let ?R = "DeletePartition e L (Some (di, p))"
  have acc: "fst ?R" using di look part d by (intro DeletePartition_accepts) simp_all
  have R: "?R = (True, fst (snd ?R), snd (snd ?R))" using acc by (simp add: prod_eq_iff)
  from R obtain r0 where
      r0: "PartEntryOf (DiskList L ! di) p = Some r0" and
      L': "fst (snd ?R) = AssignDriveLetters e
            (SetDisk di
               (UpdateDiskLayout e (NextAddr L + 2)
                  (fst (MergeFreeRegions (fst (DeleteDismount e (DiskList L ! di) r0)) r0)))
               ((if SystemPartition L = Some (di, p) then L\<lparr> SystemPartition := None \<rparr> else L)
                  \<lparr> NextAddr := NextAddr L + 3,
                    Dismounted := Dismounted L @ snd (DeleteDismount e (DiskList L ! di) r0) \<rparr>))" and
      fr: "snd (snd ?R) = Some (di, snd (MergeFreeRegions (fst (DeleteDismount e (DiskList L ! di) r0)) r0))"
    by (rule DeletePartition_success)
  have r0r: "r0 = r" using r0 look d by simp
  have L'': "fst (snd ?R) = AssignDriveLetters e
            (SetDisk di (UpdateDiskLayout e (NextAddr L + 2) ?d2)
               ((if SystemPartition L = Some (di, p) then L\<lparr> SystemPartition := None \<rparr> else L)
                  \<lparr> NextAddr := NextAddr L + 3,
                    Dismounted := Dismounted L @ snd (DeleteDismount e d r) \<rparr>))"
    using L' r0r d D by simp
  have fr': "snd (snd ?R) = Some (di, ?q)" using fr r0r d D M by simp
  let ?dd = "DiskList (fst (snd ?R)) ! di"
  have core: "disk_core ?dd = disk_core (UpdateDiskLayout e (NextAddr L + 2) ?d2)"
    unfolding L'' using di by (intro edited_disk_gen) simp_all
  have geom: "disk_geom (UpdateDiskLayout e (NextAddr L + 2) ?d2) = disk_geom ?d2"
    by (rule UpdateDiskLayout_geom)
  have lg2: "LogicalPartList ?d2 = []" using M by (simp add: ListOf_def)
  have ex2: "ExtendedPartition ?d2 = None" by (simp add: MergeFreeRegions_fields)
  have pr2: "PrimaryPartList ?d2 = fst (spec_merge pre r post)" using M by (simp add: ListOf_def)
  have lg: "LogicalPartList ?dd = []"
    using disk_core_fields(8)[OF core] disk_geom_core[OF geom] lg2 by simp
  have ex: "ExtendedPartition ?dd = None"
    using disk_core_fields(5)[OF core] disk_geom_core[OF geom] ex2 by simp
  have "map strip (PrimaryPartList ?dd) = map strip (fst (spec_merge pre r post))"
    using disk_core_fields(7)[OF core] disk_geom_core[OF geom] pr2 by simp
  then have fe: "map_option strip (find_entry ?q (PrimaryPartList ?dd)) =
             map_option strip (find_entry ?q (fst (spec_merge pre r post)))"
    by (rule find_entry_strip_eq)
  from spec_merge_region[of pre r post] dist l obtain f0 where
    f0: "find_entry ?q (fst (spec_merge pre r post)) = Some f0" "\<not> IsPartitioned f0"
      "StartSector f0 = (if free_before pre then StartSector (last pre) else StartSector r)"
      "SectorCount f0 =
            (if free_before pre \<and> free_after post
               then SectorCount (last pre) + (SectorCount r + SectorCount (hd post))
             else if free_before pre then SectorCount (last pre) + SectorCount r
             else if free_after post then SectorCount (hd post) + SectorCount r
             else SectorCount r)"
      "\<not> free_before pre \<and> \<not> free_after post \<longrightarrow> ?q = Addr r"
    by auto
  from fe f0(1) obtain f where f: "find_entry ?q (PrimaryPartList ?dd) = Some f" "strip f = strip f0"
    by auto
  have pf: "PartEntryOf ?dd ?q = Some f" using f(1) lg by (simp add: PartEntryOf_def)
  have "DeletePartition e L (Some (di, p)) = (True, fst (snd ?R), Some (di, ?q)) \<and>
           LogicalPartList ?dd = [] \<and> ExtendedPartition ?dd = None \<and>
           PartEntryOf ?dd ?q = Some f \<and> \<not> IsPartitioned f \<and>
           StartSector f = (if free_before pre then StartSector (last pre) else StartSector r) \<and>
           SectorCount f =
             (if free_before pre \<and> free_after post
                then SectorCount (last pre) + (SectorCount r + SectorCount (hd post))
              else if free_before pre then SectorCount (last pre) + SectorCount r
              else if free_after post then SectorCount (hd post) + SectorCount r
              else SectorCount r) \<and>
           (\<not> free_before pre \<and> \<not> free_after post \<longrightarrow> ?q = p)"
    using R fr' lg ex pf f0(2-5) strip_eq_fields[OF f(2)] p by simp
  then show ?thesis by blast
qed

text \<open>In the loop over the logical list the test for a mounted volume is applied to the
  partition being deleted, the container: no logical volume is dismounted.\<close>

lemma DeleteDismount_container:
  assumes "ExtendedPartition d = Some (Addr r)" "IsContainerPartition (PartitionType r)"
  shows "snd (DeleteDismount e d r) = []"
  using assms by (simp add: DeleteDismount_def IsMountedPartition_def)

lemma delete_extended_no_dismount:
  "IsMountedPartition env0 (hd (LogicalPartList (DiskList between_list ! 0))) \<and>
   fst (DeletePartition env0 between_list (Some (0, 1))) \<and>
   Dismounted (fst (snd (DeletePartition env0 between_list (Some (0, 1))))) = []"
  by code_simp

text \<open>The container of the example spans sectors 2048 to 4196304 and is followed by free
  space; the region returned spans 2048 to 20971503.\<close>

theorem delete_extended_partition_counterexample:
  "ExtendedPartition (DiskList extended_list ! 0) = Some 0 \<and>
   map_option (\<lambda>r. (StartSector r, StartSector r + SectorCount r))
     (PartEntryOf (DiskList extended_list ! 0) 0) = Some (2048, 4196304) \<and>
   fst (DeletePartition env0 extended_list (Some (0, 0))) \<and>
   snd (snd (DeletePartition env0 extended_list (Some (0, 0)))) = Some (0, 1) \<and>
   map_option (\<lambda>r. (StartSector r, StartSector r + SectorCount r))
     (PartEntryOf (DiskList (fst (snd (DeletePartition env0 extended_list (Some (0, 0))))) ! 0) 1)
     = Some (2048, 20971503)"
  by code_simp

theorem delete_extended_partition_witness:
  "(\<exists>L' f. DeletePartition env0 between_list (Some (0, 1)) = (True, L', Some (0, 1)) \<and>
      LogicalPartList (DiskList L' ! 0) = [] \<and> ExtendedPartition (DiskList L' ! 0) = None \<and>
      PartEntryOf (DiskList L' ! 0) 1 = Some f \<and> \<not> IsPartitioned f \<and>
      StartSector f = 2099200 \<and> SectorCount f = 4194304) \<and>
   (\<exists>L' f. DeletePartition env0 extended_list (Some (0, 0)) = (True, L', Some (0, 1)) \<and>
      LogicalPartList (DiskList L' ! 0) = [] \<and> ExtendedPartition (DiskList L' ! 0) = None \<and>
      PartEntryOf (DiskList L' ! 0) 1 = Some f \<and> \<not> IsPartitioned f \<and>
      StartSector f = 2048 \<and> SectorCount f = 20969455)"
proof -
  let ?d = "DiskList between_list ! 0"
  let ?pre = "[UsedRegion 0 2048 2097152 PARTITION_HUGE False]"
  let ?r = "UsedRegion 1 2099200 4194304 PARTITION_EXTENDED False"
  let ?post = "[UsedRegion 2 6293504 2097152 PARTITION_HUGE False]"
  have b: "0 < length (DiskList between_list)" "PrimaryPartList ?d = ?pre @ ?r # ?post"
    "Addr ?r = 1" "distinct (map Addr (PrimaryPartList ?d))" "IsPartitioned ?r"
    "\<not> LogicalPartition ?r" "ExtendedPartition ?d = Some 1"
    "\<not> free_before ?pre" "\<not> free_after ?post" "StartSector ?r = 2099200" "SectorCount ?r = 4194304"
    by (simp_all add: between_list_def UsedRegion_def BlankRegion_def free_before_def free_after_def)
  note B = delete_extended_partition[OF b(1) refl b(2,3,4,5,6,7), of env0]
  have 1: "\<exists>L' f. DeletePartition env0 between_list (Some (0, 1)) = (True, L', Some (0, 1)) \<and>
      LogicalPartList (DiskList L' ! 0) = [] \<and> ExtendedPartition (DiskList L' ! 0) = None \<and>
      PartEntryOf (DiskList L' ! 0) 1 = Some f \<and> \<not> IsPartitioned f \<and>
      StartSector f = 2099200 \<and> SectorCount f = 4194304"
    using B b(8,9,10,11) by auto
  let ?e = "DiskList extended_list ! 0"
  let ?c = "hd (PrimaryPartList ?e)" and ?n = "hd (tl (PrimaryPartList ?e))"
  have x0: "PrimaryPartList ?e \<noteq> []" "tl (PrimaryPartList ?e) \<noteq> []" "tl (tl (PrimaryPartList ?e)) = []"
    by code_simp+
  have x: "0 < length (DiskList extended_list)"
    "Addr ?c = 0" "distinct (map Addr (PrimaryPartList ?e))" "IsPartitioned ?c"
    "\<not> LogicalPartition ?c" "ExtendedPartition ?e = Some 0"
    "\<not> IsPartitioned ?n" "StartSector ?c = 2048" "SectorCount ?n + SectorCount ?c = 20969455"
    by code_simp+
  have xl: "PrimaryPartList ?e = [] @ ?c # [?n]"
    using x0 by (metis append_Nil list.collapse)
  have fa: "free_after [?n]" "\<not> free_before []" using x(7) by (simp_all add: free_after_def free_before_def)
  note X = delete_extended_partition[OF x(1) refl xl x(2,3,4,5,6), of env0]
  have q: "snd (snd (DeletePartition env0 extended_list (Some (0, 0)))) = Some (0, 1)" by code_simp
  have 2: "\<exists>L' f. DeletePartition env0 extended_list (Some (0, 0)) = (True, L', Some (0, 1)) \<and>
      LogicalPartList (DiskList L' ! 0) = [] \<and> ExtendedPartition (DiskList L' ! 0) = None \<and>
      PartEntryOf (DiskList L' ! 0) 1 = Some f \<and> \<not> IsPartitioned f \<and>
      StartSector f = 2048 \<and> SectorCount f = 20969455"
    using X fa x(8,9) q by auto
  show ?thesis using 1 2 by blast
qed

section \<open>The creation checks\<close>



lemma GetPartitionCount_ge_4:
  assumes "length xs < 2 ^ 32"
  shows "4 \<le> GetPartitionCount xs \<longleftrightarrow> 4 \<le> length (filter IsPartitioned xs)"
proof -
  have "length (filter IsPartitioned xs) < 2 ^ 32"
    using assms length_filter_le[of IsPartitioned xs] by linarith
  then have "unat (of_nat (length (filter IsPartitioned xs)) :: ULONG) = length (filter IsPartitioned xs)"
    by (simp add: unat_of_nat)
  then show ?thesis
    unfolding GetPartitionCount_def by (simp add: word_le_nat_alt)
qed



section \<open>From a size in bytes to a sector count\<close>






section \<open>The type of an extended partition\<close>

text \<open>
  Claim C8: after a successful \<^verbatim>\<open>CreateExtendedPartition\<close> the container has type
  \<^verbatim>\<open>PARTITION_EXTENDED\<close> exactly when its start sector is below 1450560 and type
  \<^verbatim>\<open>PARTITION_XINT13_EXTENDED\<close> exactly when it is at or above 1450560. The start sector is
  the one the free region had, and the region has become the disk's extended partition.
\<close>

theorem CreateExtendedPartition_type:
  assumes "CreateExtendedPartition e L (Some (di, p)) sz = (True, L')"
  shows "\<exists>r0 r. PartEntryOf (DiskList L ! di) p = Some r0 \<and>
           PartEntryOf (DiskList L' ! di) p = Some r \<and>
           StartSector r = StartSector r0 \<and> IsPartitioned r \<and>
           ExtendedPartition (DiskList L' ! di) = Some p \<and>
           (PartitionType r = PARTITION_EXTENDED \<longleftrightarrow> StartSector r < 1450560) \<and>
           (PartitionType r = PARTITION_XINT13_EXTENDED \<longleftrightarrow> 1450560 \<le> StartSector r)"
proof -
  from assms obtain r0 c d1 where
    di: "di < length (DiskList L)" and
    r0: "PartEntryOf (DiskList L ! di) p = Some r0" and
    ini: "InitializePartitionEntry e (NextAddr L) (DiskList L ! di) p c = (True, d1)" and
    L': "L' = AssignDriveLetters e
            (SetDisk di
               (UpdateDiskLayout e (NextAddr L + 2)
                  (AddLogicalDiskSpace e (NextAddr L + 1)
                     ((UpdPartEntry p
                        (\<lambda>r. r\<lparr> PartitionType :=
                                   (if StartSector r < 1450560 then PARTITION_EXTENDED
                                    else PARTITION_XINT13_EXTENDED) \<rparr>) d1)
                       \<lparr> ExtendedPartition := Some p \<rparr>)))
               (L\<lparr> NextAddr := NextAddr L + 3 \<rparr>))"
    by (rule CreateExtendedPartition_success)
  let ?f = "\<lambda>r. r\<lparr> PartitionType := (if StartSector r < 1450560 then PARTITION_EXTENDED
                                    else PARTITION_XINT13_EXTENDED) \<rparr>"
  let ?d3 = "(UpdPartEntry p ?f d1)\<lparr> ExtendedPartition := Some p \<rparr>"
  let ?d4 = "AddLogicalDiskSpace e (NextAddr L + 1) ?d3"
  let ?d5 = "UpdateDiskLayout e (NextAddr L + 2) ?d4"
  obtain r1 where r1: "PartEntryOf d1 p = Some r1" "StartSector r1 = StartSector r0"
    "Addr r1 = p" "IsPartitioned r1"
    using InitializePartitionEntry_lookup[OF ini r0] by blast
  have f: "\<And>r. Addr (?f r) = Addr r" by simp
  have "PartEntryOf (UpdPartEntry p ?f d1) p = Some (?f r1)"
    using PartEntryOf_UpdPartEntry[of ?f p d1 p, OF f] r1 by simp
  then have "PartEntryOf ?d3 p = Some (?f r1)" by (simp add: PartEntryOf_def)
  then have d4: "PartEntryOf ?d4 p = Some (?f r1)" by (rule AddLogicalDiskSpace_lookup)
  have e4: "ExtendedPartition ?d4 = Some p" by (simp add: AddLogicalDiskSpace_fields)
  have g5: "disk_geom ?d5 = disk_geom ?d4" by (rule UpdateDiskLayout_geom)
  have c6: "disk_core (DiskList L' ! di) = disk_core ?d5"
    unfolding L' using di by (rule edited_disk_NextAddr)
  have "map_option strip (PartEntryOf (DiskList L' ! di) p) = map_option strip (PartEntryOf ?d5 p)"
    using c6 by (rule PartEntryOf_core)
  also have "\<dots> = map_option strip (PartEntryOf ?d4 p)" using g5 by (rule PartEntryOf_geom)
  finally obtain r where r: "PartEntryOf (DiskList L' ! di) p = Some r" "strip r = strip (?f r1)"
    using d4 by auto
  have ex: "ExtendedPartition (DiskList L' ! di) = Some p"
    using disk_core_fields(5)[OF c6] disk_geom_core[OF g5] e4 by simp
  have s: "StartSector r = StartSector r1" "IsPartitioned r"
    "PartitionType r = (if StartSector r1 < 1450560 then PARTITION_EXTENDED else PARTITION_XINT13_EXTENDED)"
    using strip_eq_fields[OF r(2)] r1 by simp_all
  show ?thesis
    using r0 r(1) s r1(2) ex by (auto simp: not_less)
qed

theorem CreateExtendedPartition_type_witness:
  "fst (CreateExtendedPartition env0 (free_at 1450559) (Some (0, 0)) 0x80000000) \<and>
   (\<exists>r. PartEntryOf (DiskList (snd (CreateExtendedPartition env0 (free_at 1450559) (Some (0, 0)) 0x80000000)) ! 0) 0 = Some r \<and>
        StartSector r = 1450559 \<and> PartitionType r = PARTITION_EXTENDED) \<and>
   fst (CreateExtendedPartition env0 (free_at 1450560) (Some (0, 0)) 0x80000000) \<and>
   (\<exists>r. PartEntryOf (DiskList (snd (CreateExtendedPartition env0 (free_at 1450560) (Some (0, 0)) 0x80000000)) ! 0) 0 = Some r \<and>
        StartSector r = 1450560 \<and> PartitionType r = PARTITION_XINT13_EXTENDED)"
proof -
  let ?A = "CreateExtendedPartition env0 (free_at 1450559) (Some (0, 0)) 0x80000000"
  let ?B = "CreateExtendedPartition env0 (free_at 1450560) (Some (0, 0)) 0x80000000"
  have a: "fst ?A" by code_simp
  have b: "fst ?B" by code_simp
  have ha: "?A = (True, snd ?A)" using a by (simp add: prod_eq_iff)
  have hb: "?B = (True, snd ?B)" using b by (simp add: prod_eq_iff)
  have ra: "PartEntryOf (DiskList (free_at 1450559) ! 0) 0 = Some (BlankRegion 0 1450559 (20971503 - 1450559) False)"
    by (simp add: free_at_def PartEntryOf_def find_entry_def BlankRegion_def)
  have rb: "PartEntryOf (DiskList (free_at 1450560) ! 0) 0 = Some (BlankRegion 0 1450560 (20971503 - 1450560) False)"
    by (simp add: free_at_def PartEntryOf_def find_entry_def BlankRegion_def)
  have sa: "StartSector (BlankRegion 0 1450559 (20971503 - 1450559) False) = 1450559"
    and sb: "StartSector (BlankRegion 0 1450560 (20971503 - 1450560) False) = 1450560"
    by (simp_all add: BlankRegion_def)
  have "\<exists>r. PartEntryOf (DiskList (snd ?A) ! 0) 0 = Some r \<and>
        StartSector r = 1450559 \<and> PartitionType r = PARTITION_EXTENDED"
    using CreateExtendedPartition_type[OF ha] ra sa by auto
  moreover have "\<exists>r. PartEntryOf (DiskList (snd ?B) ! 0) 0 = Some r \<and>
        StartSector r = 1450560 \<and> PartitionType r = PARTITION_XINT13_EXTENDED"
    using CreateExtendedPartition_type[OF hb] rb sb by auto
  ultimately show ?thesis using a b by blast
qed

section \<open>The volume label\<close>

lemma cstring_append_NUL:
  "NUL \<notin> set xs \<Longrightarrow> cstring (xs @ NUL # ys) = xs"
  by (induction xs) (auto simp: cstring_def)

lemma RtlStringCbCopyNW_label:
  assumes "NUL \<notin> set l" "length dest = VolumeLabel_cch"
  shows "RtlStringCbCopyNW dest VolumeLabel_cb l (2 * length l) =
           take 19 l @ NUL # drop (min (length l) 19 + 1) dest"
proof -
  have tw: "takeWhile (\<lambda>c. c \<noteq> NUL) l = l" using assms(1) by (induction l) auto
  show ?thesis
    by (simp add: RtlStringCbCopyNW_def Let_def min_def tw)
qed

text \<open>
  Claim C9: the label field of a volume holds labels of up to 32 characters, and
  \<^verbatim>\<open>MountVolume\<close> stores the queried label NUL-terminated, truncating only labels longer
  than 32 characters. The field is \<^verbatim>\<open>WCHAR VolumeLabel[20]\<close>: what is proved is the claim
  with 19 characters in place of 32. The volume here is one that mounts with a file
  system other than RawFS, so that the label is queried at all.
\<close>

theorem MountVolume_label:
  assumes "DeviceName v \<noteq> []" and "NtOpenFile_ok e (DeviceName v)"
    and "InferFileSystem e (DeviceName v) \<noteq> []"
    and "\<not> wcsicmp_eq (InferFileSystem e (DeviceName v)) ''RAW''"
    and "QueryVolumeLabel e (DeviceName v) = Some l" and "NUL \<notin> set l"
  shows "length (VolumeLabel (fst (MountVolume e v t))) = VolumeLabel_cch \<and>
         cstring (VolumeLabel (fst (MountVolume e v t))) = take 19 l \<and>
         (cstring (VolumeLabel (fst (MountVolume e v t))) = l \<longleftrightarrow> length l \<le> 19)"
proof -
  have v: "VolumeLabel (fst (MountVolume e v t)) =
           RtlStringCbCopyNW (replicate VolumeLabel_cch NUL) VolumeLabel_cb l (2 * length l)"
    using assms(1-5) by (simp add: MountVolume_def Let_def)
  have r: "VolumeLabel (fst (MountVolume e v t)) =
           take 19 l @ NUL # drop (min (length l) 19 + 1) (replicate VolumeLabel_cch NUL)"
    unfolding v using assms(6) by (intro RtlStringCbCopyNW_label) simp_all
  have n: "NUL \<notin> set (take 19 l)" using assms(6) by (meson in_set_takeD)
  have 1: "length (VolumeLabel (fst (MountVolume e v t))) = VolumeLabel_cch"
    unfolding r by (simp add: min_def)
  have 2: "cstring (VolumeLabel (fst (MountVolume e v t))) = take 19 l"
    unfolding r using n by (rule cstring_append_NUL)
  have 3: "take 19 l = l \<longleftrightarrow> length l \<le> 19"
    by (metis length_take min.absorb_iff1 min.commute take_all)
  show ?thesis using 1 2 3 by simp
qed

text \<open>A label of 20 characters, within the 32 of the claim, is not stored whole.\<close>

theorem MountVolume_label_counterexample:
  "length label20 \<le> 32 \<and>
   cstring (VolumeLabel (fst (MountVolume (env_label label20) named_volume PARTITION_HUGE)))
     \<noteq> label20"
  by (simp add: label20_def env_label_def env0_def named_volume_def ZeroVolume_def
        Harddisk0_Partition1_def MountVolume_def DismountVolume_def RtlStringCbCopyNW_def
        cstring_def wcsicmp_eq_def towlower_def Let_def)

theorem MountVolume_label_witness:
  "cstring (VolumeLabel (fst (MountVolume (env_label ''SYSTEM'') named_volume PARTITION_HUGE))) = ''SYSTEM'' \<and>
   cstring (VolumeLabel (fst (MountVolume (env_label label20) named_volume PARTITION_HUGE))) = ''ABCDEFGHIJKLMNOPQRS'' \<and>
   length (VolumeLabel (fst (MountVolume (env_label label20) named_volume PARTITION_HUGE))) = 20"
proof -
  have a: "DeviceName named_volume \<noteq> []"
    "\<And>l. NtOpenFile_ok (env_label l) (DeviceName named_volume)"
    "\<And>l. InferFileSystem (env_label l) (DeviceName named_volume) \<noteq> []"
    "\<And>l. \<not> wcsicmp_eq (InferFileSystem (env_label l) (DeviceName named_volume)) ''RAW''"
    "\<And>l. QueryVolumeLabel (env_label l) (DeviceName named_volume) = Some l"
    by (simp_all add: named_volume_def ZeroVolume_def Harddisk0_Partition1_def env_label_def
          env0_def wcsicmp_eq_def towlower_def)
  have n: "NUL \<notin> set ''SYSTEM''" "NUL \<notin> set label20" by (simp_all add: label20_def)
  note A = MountVolume_label[OF a(1) a(2) a(3) a(4) a(5) n(1), of PARTITION_HUGE]
  note B = MountVolume_label[OF a(1) a(2) a(3) a(4) a(5) n(2), of PARTITION_HUGE]
  show ?thesis using A B by (simp add: label20_def)
qed

section \<open>Disk style and dirty flag after an edit\<close>

text \<open>
  Claim C10: after every successful \<^verbatim>\<open>CreatePartition\<close>, \<^verbatim>\<open>CreateExtendedPartition\<close> or
  \<^verbatim>\<open>DeletePartition\<close> on a disk that is not GPT, the disk's style is MBR, also when it was
  RAW before, and its dirty flag is set.

  \<^verbatim>\<open>UpdateDiskLayout\<close> sets both at its end, and returns before that when
  \<^verbatim>\<open>ReAllocateLayoutBuffer\<close> fails; the three calls return \<^verbatim>\<open>TRUE\<close> all the same. So after a
  successful call the style is MBR and the dirty flag set, or both are what they were
  before the call; and they are MBR and set whenever the heap serves the request of
  \<^verbatim>\<open>ReAllocateLayoutBuffer\<close>. The disk has a layout buffer.
\<close>

theorem editor_sets_style_and_dirty:
  assumes "di < length (DiskList L)"
    and "DiskStyle (DiskList L ! di) \<noteq> PARTITION_STYLE_GPT"
    and "LayoutBuffer (DiskList L ! di) \<noteq> None"
    and "CreatePartition e L (Some (di, p)) sz = (True, L') \<or>
         CreateExtendedPartition e L (Some (di, p)) sz = (True, L') \<or>
         DeletePartition e L (Some (di, p)) = (True, L', fr)"
  shows "(AllocOk e (NextAddr L + 2) \<longrightarrow>
            DiskStyle (DiskList L' ! di) = PARTITION_STYLE_MBR \<and> Dirty (DiskList L' ! di)) \<and>
         (DiskStyle (DiskList L' ! di) = PARTITION_STYLE_MBR \<and> Dirty (DiskList L' ! di) \<or>
          DiskStyle (DiskList L' ! di) = DiskStyle (DiskList L ! di) \<and>
          Dirty (DiskList L' ! di) = Dirty (DiskList L ! di))"
proof -
  have key: "(AllocOk e (NextAddr L + 2) \<longrightarrow>
            DiskStyle (DiskList L' ! di) = PARTITION_STYLE_MBR \<and> Dirty (DiskList L' ! di)) \<and>
         (DiskStyle (DiskList L' ! di) = PARTITION_STYLE_MBR \<and> Dirty (DiskList L' ! di) \<or>
          DiskStyle (DiskList L' ! di) = DiskStyle (DiskList L ! di) \<and>
          Dirty (DiskList L' ! di) = Dirty (DiskList L ! di))"
    if "L' = AssignDriveLetters e (SetDisk di (UpdateDiskLayout e (NextAddr L + 2) d) L0)"
      and "DiskList L0 = DiskList L" and "DiskStyle d = DiskStyle (DiskList L ! di)"
      and "LayoutBuffer d = LayoutBuffer (DiskList L ! di)"
      and "Dirty d = Dirty (DiskList L ! di)" for d L0
  proof -
    have c: "disk_core (DiskList L' ! di) = disk_core (UpdateDiskLayout e (NextAddr L + 2) d)"
      unfolding that(1) using assms(1) that(2) by (rule edited_disk_gen)
    have g: "DiskStyle d \<noteq> PARTITION_STYLE_GPT" "LayoutBuffer d \<noteq> None"
      using that(3,4) assms(2,3) by simp_all
    have 1: "DiskStyle (DiskList L' ! di) = PARTITION_STYLE_MBR \<and> Dirty (DiskList L' ! di)"
      if "AllocOk e (NextAddr L + 2)"
      using UpdateDiskLayout_style(1,2)[OF g(1) that g(2)] disk_core_fields(3,6)[OF c] by simp
    have 2: "DiskStyle (DiskList L' ! di) = PARTITION_STYLE_MBR \<and> Dirty (DiskList L' ! di) \<or>
          DiskStyle (DiskList L' ! di) = DiskStyle (DiskList L ! di) \<and>
          Dirty (DiskList L' ! di) = Dirty (DiskList L ! di)"
      using UpdateDiskLayout_style_dirty[of e "NextAddr L + 2" d] disk_core_fields(3,6)[OF c]
        \<open>DiskStyle d = DiskStyle (DiskList L ! di)\<close> \<open>Dirty d = Dirty (DiskList L ! di)\<close>
      by auto
    show ?thesis using 1 2 by blast
  qed
  from assms(4) show ?thesis
  proof (elim disjE)
    assume h: "CreatePartition e L (Some (di, p)) sz = (True, L')"
    from h obtain r0 c d1 where
      ini: "InitializePartitionEntry e (NextAddr L) (DiskList L ! di) p c = (True, d1)" and
      L': "L' = AssignDriveLetters e (SetDisk di (UpdateDiskLayout e (NextAddr L + 2) d1)
               (L\<lparr> NextAddr := NextAddr L + 3 \<rparr>))"
      by (rule CreatePartition_success)
    show ?thesis
      using InitializePartitionEntry_fields(3,4,6)[of e "NextAddr L" "DiskList L ! di" p c] ini
      by (intro key[OF L']) simp_all
  next
    assume h: "CreateExtendedPartition e L (Some (di, p)) sz = (True, L')"
    from h obtain r0 c d1 where
      ini: "InitializePartitionEntry e (NextAddr L) (DiskList L ! di) p c = (True, d1)" and
      L': "L' = AssignDriveLetters e
            (SetDisk di
               (UpdateDiskLayout e (NextAddr L + 2)
                  (AddLogicalDiskSpace e (NextAddr L + 1)
                     ((UpdPartEntry p
                        (\<lambda>r. r\<lparr> PartitionType :=
                                   (if StartSector r < 1450560 then PARTITION_EXTENDED
                                    else PARTITION_XINT13_EXTENDED) \<rparr>) d1)
                       \<lparr> ExtendedPartition := Some p \<rparr>)))
               (L\<lparr> NextAddr := NextAddr L + 3 \<rparr>))"
      by (rule CreateExtendedPartition_success)
    show ?thesis
      using InitializePartitionEntry_fields(3,4,6)[of e "NextAddr L" "DiskList L ! di" p c] ini
      by (intro key[OF L']) (simp_all add: AddLogicalDiskSpace_fields UpdPartEntry_fields)
  next
    assume h: "DeletePartition e L (Some (di, p)) = (True, L', fr)"
    from h obtain r0 where
      L': "L' = AssignDriveLetters e
            (SetDisk di
               (UpdateDiskLayout e (NextAddr L + 2)
                  (fst (MergeFreeRegions (fst (DeleteDismount e (DiskList L ! di) r0)) r0)))
               ((if SystemPartition L = Some (di, p) then L\<lparr> SystemPartition := None \<rparr> else L)
                  \<lparr> NextAddr := NextAddr L + 3,
                    Dismounted := Dismounted L @ snd (DeleteDismount e (DiskList L ! di) r0) \<rparr>))"
      by (rule DeletePartition_success)
    show ?thesis
      by (intro key[OF L']) (simp_all add: MergeFreeRegions_fields DeleteDismount_fields)
  qed
qed

theorem editor_sets_style_and_dirty_counterexample:
  "DiskStyle (DiskList between_list ! 0) = PARTITION_STYLE_MBR \<and>
   \<not> Dirty (DiskList between_list ! 0) \<and>
   fst (DeletePartition env_noheap between_list (Some (0, 3))) \<and>
   map extent (LogicalPartList (DiskList (fst (snd (DeletePartition env_noheap between_list (Some (0, 3))))) ! 0)) =
     [(2099263, 4194241, False, True)] \<and>
   \<not> Dirty (DiskList (fst (snd (DeletePartition env_noheap between_list (Some (0, 3))))) ! 0)"
proof -
  have 1: "DiskStyle (DiskList between_list ! 0) = PARTITION_STYLE_MBR"
    "\<not> Dirty (DiskList between_list ! 0)"
    by (simp_all add: between_list_def)
  have 2: "fst (DeletePartition env_noheap between_list (Some (0, 3)))" by code_simp
  have 3: "map extent (LogicalPartList (DiskList (fst (snd (DeletePartition env_noheap between_list (Some (0, 3))))) ! 0)) =
     [(2099263, 4194241, False, True)]" by code_simp
  have 4: "\<not> Dirty (DiskList (fst (snd (DeletePartition env_noheap between_list (Some (0, 3))))) ! 0)"
    by code_simp
  show ?thesis using 1 2 3 4 by simp
qed

theorem editor_sets_style_and_dirty_witness:
  "DiskStyle (DiskList fresh_list ! 0) = PARTITION_STYLE_RAW \<and>
   fst (CreatePartition env0 fresh_list (Some (0, 0)) 0x100000000) \<and>
   DiskStyle (DiskList (snd (CreatePartition env0 fresh_list (Some (0, 0)) 0x100000000)) ! 0) = PARTITION_STYLE_MBR \<and>
   Dirty (DiskList (snd (CreatePartition env0 fresh_list (Some (0, 0)) 0x100000000)) ! 0) \<and>
   fst (CreateExtendedPartition env0 fresh_list (Some (0, 0)) 0x100000000) \<and>
   DiskStyle (DiskList (snd (CreateExtendedPartition env0 fresh_list (Some (0, 0)) 0x100000000)) ! 0) = PARTITION_STYLE_MBR \<and>
   Dirty (DiskList (snd (CreateExtendedPartition env0 fresh_list (Some (0, 0)) 0x100000000)) ! 0) \<and>
   fst (DeletePartition env0 created_list (Some (0, 0))) \<and>
   DiskStyle (DiskList (fst (snd (DeletePartition env0 created_list (Some (0, 0))))) ! 0) = PARTITION_STYLE_MBR \<and>
   Dirty (DiskList (fst (snd (DeletePartition env0 created_list (Some (0, 0))))) ! 0)"
proof -
  let ?A = "CreatePartition env0 fresh_list (Some (0, 0)) 0x100000000"
  let ?B = "CreateExtendedPartition env0 fresh_list (Some (0, 0)) 0x100000000"
  let ?C = "DeletePartition env0 created_list (Some (0, 0))"
  have f: "0 < length (DiskList fresh_list)" "DiskStyle (DiskList fresh_list ! 0) \<noteq> PARTITION_STYLE_GPT"
    "LayoutBuffer (DiskList fresh_list ! 0) \<noteq> None" "DiskStyle (DiskList fresh_list ! 0) = PARTITION_STYLE_RAW"
    by (simp_all add: fresh_list_def free_at_def)
  have c: "0 < length (DiskList created_list)" "DiskStyle (DiskList created_list ! 0) \<noteq> PARTITION_STYLE_GPT"
    "LayoutBuffer (DiskList created_list ! 0) \<noteq> None"
    by code_simp+
  have ok: "\<And>n. AllocOk env0 n" by (simp add: env0_def)
  have a: "fst ?A" by code_simp
  have b: "fst ?B" by code_simp
  have d: "fst ?C" by code_simp
  have ha: "?A = (True, snd ?A)" using a by (simp add: prod_eq_iff)
  have hb: "?B = (True, snd ?B)" using b by (simp add: prod_eq_iff)
  have hc: "?C = (True, fst (snd ?C), snd (snd ?C))" using d by (simp add: prod_eq_iff)
  note t1 = editor_sets_style_and_dirty[OF f(1,2,3) disjI1[OF ha]]
  note t2 = editor_sets_style_and_dirty[OF f(1,2,3) disjI2[OF disjI1[OF hb]]]
  note t3 = editor_sets_style_and_dirty[OF c(1,2,3) disjI2[OF disjI2[OF hc]]]
  show ?thesis using t1 t2 t3 a b d f(4) ok by simp
qed

end
